(* ===== verification/Prelude.thy ===== *)
theory Prelude
  imports Main "HOL-Library.AList" "HOL-Library.Multiset" "HOL-Library.Code_Target_Nat"
begin

text \<open>
  Shared vocabulary of the development: the JavaScript primitives the console's
  TypeScript code relies on (number-to-string conversion of template literals,
  truthiness of numbers and strings, the remainder operator), the decimal
  parser that inverts the conversion, and the facts on association lists that
  model JavaScript objects used as dictionaries (\<open>Record<string, T>\<close>),
  whose property order is insertion order.
\<close>

named_theorems js_simps "evaluation rules for the JavaScript primitives of the model"

type_synonym js_id = int
  \<comment> \<open>a JavaScript number holding an entity id, page index or page size\<close>

subsection \<open>Truthiness\<close>

definition js_truthy_num :: "int \<Rightarrow> bool" where
  "js_truthy_num n \<longleftrightarrow> n \<noteq> 0"

definition js_truthy_str :: "string \<Rightarrow> bool" where
  "js_truthy_str s \<longleftrightarrow> s \<noteq> []"

text \<open>\<open>a % b\<close> truncates towards zero: the result has the sign of the dividend.\<close>

definition js_rem :: "int \<Rightarrow> int \<Rightarrow> int" where
  "js_rem a b = sgn a * (\<bar>a\<bar> mod \<bar>b\<bar>)"

subsection \<open>Decimal digits\<close>

definition digit_chr :: "nat \<Rightarrow> char" where
  "digit_chr d = char_of (48 + d)"

definition is_dec_digit :: "char \<Rightarrow> bool" where
  "is_dec_digit c \<longleftrightarrow> (48::nat) \<le> of_char c \<and> of_char c \<le> (57::nat)"

definition digit_val :: "char \<Rightarrow> nat" where
  "digit_val c = of_char c - 48"

text \<open>\<open>String(n)\<close> (and \<open>${n}\<close> in a template literal) of a non-negative integer.\<close>

fun nat_str :: "nat \<Rightarrow> string" where
  "nat_str n = (if n < 10 then [digit_chr n] else nat_str (n div 10) @ [digit_chr (n mod 10)])"

declare nat_str.simps [simp del]

text \<open>\<open>String(n)\<close> of an integral JavaScript number: a minus sign, then the digits.\<close>

definition js_num_str :: "int \<Rightarrow> string" where
  "js_num_str i = (if i < 0 then CHR ''-'' # nat_str (nat (- i)) else nat_str (nat i))"

definition digits_value :: "string \<Rightarrow> nat" where
  "digits_value s = foldl (\<lambda>acc c. 10 * acc + digit_val c) 0 s"

definition parse_nat_str :: "string \<Rightarrow> nat option" where
  "parse_nat_str s = (if s \<noteq> [] \<and> list_all is_dec_digit s then Some (digits_value s) else None)"

definition parse_int_str :: "string \<Rightarrow> int option" where
  "parse_int_str s =
     (case s of
        c # r \<Rightarrow> if c = CHR ''-'' then map_option (\<lambda>n. - int n) (parse_nat_str r)
                else map_option int (parse_nat_str s)
      | [] \<Rightarrow> None)"

text \<open>\<open>String(x)\<close> of a number that is \<open>NaN\<close> (\<^term>\<open>None\<close>) or an integer.\<close>

definition js_num_text :: "int option \<Rightarrow> string" where
  "js_num_text v = (case v of Some i \<Rightarrow> js_num_str i | None \<Rightarrow> ''NaN'')"

text \<open>\<open>Array.prototype.join(sep)\<close> of strings.\<close>

fun js_join :: "string \<Rightarrow> string list \<Rightarrow> string" where
  "js_join sep [] = []"
| "js_join sep [x] = x"
| "js_join sep (x # y # xs) = x @ sep @ js_join sep (y # xs)"

lemma digit_chr_is_dec_digit [simp]: "d < 10 \<Longrightarrow> is_dec_digit (digit_chr d)"
  by (simp add: digit_chr_def is_dec_digit_def)

lemma digit_val_chr [simp]: "d < 10 \<Longrightarrow> digit_val (digit_chr d) = d"
  by (simp add: digit_chr_def digit_val_def)

lemma digit_chr_not_minus [simp]: "d < 10 \<Longrightarrow> digit_chr d \<noteq> CHR ''-''"
proof
  assume "d < 10" and "digit_chr d = CHR ''-''"
  then have "of_char (digit_chr d) = (of_char (CHR ''-'') :: nat)" by simp
  with \<open>d < 10\<close> show False by (simp add: digit_chr_def)
qed

lemma digit_chr_inj [simp]: "d < 10 \<Longrightarrow> e < 10 \<Longrightarrow> digit_chr d = digit_chr e \<longleftrightarrow> d = e"
  by (metis digit_val_chr)

lemma nat_str_nonempty [simp]: "nat_str n \<noteq> []"
  by (subst nat_str.simps) simp

lemma digit_chr_0: "digit_chr 0 = CHR ''0''"
  unfolding digit_chr_def by code_simp

lemma nat_str_times_10: "0 < n \<Longrightarrow> nat_str (10 * n) = nat_str n @ ''0''"
  by (subst nat_str.simps) (simp add: digit_chr_0)

lemma nat_str_digits: "list_all is_dec_digit (nat_str n)"
proof (induction n rule: nat_str.induct)
  case (1 n)
  then show ?case by (subst nat_str.simps) simp
qed

lemma digits_value_snoc [simp]:
  "digits_value (s @ [c]) = 10 * digits_value s + digit_val c"
  by (simp add: digits_value_def)

lemma digits_value_nat_str [simp]: "digits_value (nat_str n) = n"
proof (induction n rule: nat_str.induct)
  case (1 n)
  show ?case
  proof (cases "n < 10")
    case True
    then show ?thesis by (simp add: nat_str.simps [of n] digits_value_def)
  next
    case False
    with "1.IH" show ?thesis by (simp add: nat_str.simps [of n])
  qed
qed

lemma parse_nat_str_nat_str [js_simps]: "parse_nat_str (nat_str n) = Some n"
  by (simp add: parse_nat_str_def nat_str_digits)

lemma nat_str_hd_not_minus: "hd (nat_str n) \<noteq> CHR ''-''"
  using nat_str_digits [of n] nat_str_nonempty [of n]
  by (cases "nat_str n") (auto simp: is_dec_digit_def)

lemma nat_str_minus_free: "CHR ''-'' \<notin> set (nat_str n)"
  using nat_str_digits [of n] by (auto simp: list_all_iff is_dec_digit_def)

lemma nat_str_inj [simp]: "nat_str m = nat_str n \<longleftrightarrow> m = n"
  by (metis digits_value_nat_str)

text \<open>Round trip: \<open>parseInt(String(n)) = n\<close> for every integral number.\<close>

lemma parse_int_str_js_num_str [js_simps]: "parse_int_str (js_num_str i) = Some i"
proof (cases "i < 0")
  case True
  then show ?thesis by (simp add: js_num_str_def parse_int_str_def js_simps)
next
  case False
  obtain c r where cr: "nat_str (nat i) = c # r"
    using nat_str_nonempty by (cases "nat_str (nat i)") auto
  then have "c \<noteq> CHR ''-''" using nat_str_hd_not_minus [of "nat i"] by simp
  with False cr show ?thesis
    by (simp add: js_num_str_def parse_int_str_def parse_nat_str_nat_str [of "nat i", unfolded cr])
qed

lemma js_num_str_inj [simp]: "js_num_str i = js_num_str j \<longleftrightarrow> i = j"
  by (metis option.inject parse_int_str_js_num_str)

lemma js_num_str_no_sep [simp]:
  "CHR ''&'' \<notin> set (js_num_str i)" "CHR ''/'' \<notin> set (js_num_str i)"
  "CHR ''?'' \<notin> set (js_num_str i)" "CHR ''='' \<notin> set (js_num_str i)"
  using nat_str_digits [of "nat i"] nat_str_digits [of "nat (- i)"]
  by (auto simp: js_num_str_def list_all_iff is_dec_digit_def)

subsection \<open>Object key order and string case\<close>

text \<open>
  \<open>Object.entries\<close> lists the keys that are array indices (canonical decimal
  strings of a number below \<open>2^32 - 1\<close>) first, in ascending numeric order, and
  then the other keys in insertion order.
\<close>

definition is_array_index :: "string \<Rightarrow> bool" where
  "is_array_index s =
     (case parse_nat_str s of Some n \<Rightarrow> nat_str n = s \<and> n < 4294967295 | None \<Rightarrow> False)"

definition js_entries :: "(string \<times> 'v) list \<Rightarrow> (string \<times> 'v) list" where
  "js_entries al =
     sort_key (\<lambda>kv. digits_value (fst kv)) (filter (\<lambda>kv. is_array_index (fst kv)) al)
     @ filter (\<lambda>kv. \<not> is_array_index (fst kv)) al"

text \<open>\<open>toUpperCase\<close> on the ASCII letters (characters here are bytes; other code
  points are not modelled).\<close>

definition js_upper_char :: "char \<Rightarrow> char" where
  "js_upper_char c =
     (let n = (of_char c :: nat) in if 97 \<le> n \<and> n \<le> 122 then char_of (n - 32) else c)"

definition js_upper :: "string \<Rightarrow> string" where
  "js_upper s = map js_upper_char s"

text \<open>\<open>if (!acc[k]) acc[k] = []; acc[k].push(x)\<close> over a list.\<close>

definition group_push :: "('a \<Rightarrow> 'k) \<Rightarrow> ('k \<times> 'a list) list \<Rightarrow> 'a \<Rightarrow> ('k \<times> 'a list) list" where
  "group_push key acc x = AList.update_with_aux [] (key x) (\<lambda>g. g @ [x]) acc"

text \<open>The reference group-by: one entry per key, in the order the keys first
  occur, holding the elements with that key in order.\<close>

definition group_by_ref :: "('a \<Rightarrow> 'k) \<Rightarrow> 'a list \<Rightarrow> ('k \<times> 'a list) list" where
  "group_by_ref key xs = map (\<lambda>k. (k, filter (\<lambda>x. key x = k) xs)) (rev (remdups (rev (map key xs))))"

subsection \<open>JavaScript objects as association lists\<close>

text \<open>
  An object is the list of its own properties in creation order; what
  \<open>Object.entries\<close> and \<open>Object.keys\<close> show of it is \<^const>\<open>js_entries\<close>.
  An assignment \<open>obj[k] = v\<close> of a primitive \<open>v\<close> keeps the position of an
  existing key and appends a new one (\<^const>\<open>AList.update\<close>), except for the
  key \<open>__proto__\<close>, which names the accessor inherited from
  \<open>Object.prototype\<close>: its setter ignores a value that is not an object, and
  the assignment creates no property.
\<close>

definition js_assign :: "string \<Rightarrow> 'v \<Rightarrow> (string \<times> 'v) list \<Rightarrow> (string \<times> 'v) list" where
  "js_assign k v obj = (if k = ''__proto__'' then obj else AList.update k v obj)"

subsection \<open>Lemmas on association lists and key order\<close>

lemma map_of_fold_update:
  "map_of (foldl (\<lambda>acc (k, v). AList.update k v acc) al kvs) = map_of al ++ map_of (rev kvs)"
  by (induction kvs arbitrary: al) (auto simp: update_conv' map_add_def fun_eq_iff
      split: option.splits)

lemma distinct_fold_update:
  "distinct (map fst al) \<Longrightarrow> distinct (map fst (foldl (\<lambda>acc (k, v). AList.update k v acc) al kvs))"
  by (induction kvs arbitrary: al) (auto simp: distinct_update)

lemma keys_fold_update:
  "fst ` set (foldl (\<lambda>acc (k, v). AList.update k v acc) al kvs) = fst ` set al \<union> fst ` set kvs"
proof (induction kvs arbitrary: al)
  case Nil
  then show ?case by simp
next
  case (Cons kv kvs)
  then show ?case by (cases kv) (simp add: dom_update insert_commute)
qed

lemma set_js_entries [simp]: "set (js_entries al) = set al"
  by (auto simp: js_entries_def)

lemma mset_js_entries: "mset (js_entries al) = mset al"
proof -
  have "mset (js_entries al) =
          mset (filter (\<lambda>kv. is_array_index (fst kv)) al) + mset (filter (\<lambda>kv. \<not> is_array_index (fst kv)) al)"
    by (simp add: js_entries_def)
  also have "\<dots> = mset al" by (simp add: multiset_partition [symmetric])
  finally show ?thesis .
qed

lemma distinct_js_entries: "distinct (map fst al) \<Longrightarrow> distinct (map fst (js_entries al))"
proof -
  have "mset (map fst (js_entries al)) = mset (map fst al)"
    by (simp only: mset_map mset_js_entries)
  then show "distinct (map fst al) \<Longrightarrow> distinct (map fst (js_entries al))"
    using mset_eq_imp_distinct_iff by blast
qed

lemma js_entries_indices:
  "\<forall>kv\<in>set al. is_array_index (fst kv) \<Longrightarrow> js_entries al = sort_key (\<lambda>kv. digits_value (fst kv)) al"
  by (simp add: js_entries_def)

lemma is_array_index_nat_str: "n < 4294967295 \<Longrightarrow> is_array_index (nat_str n)"
  by (simp add: is_array_index_def js_simps)

lemma keys_update_with_aux:
  "map fst (AList.update_with_aux v k f ps) = (if k \<in> set (map fst ps) then map fst ps else map fst ps @ [k])"
  by (induction ps) auto

lemma map_of_fold_group:
  "map_of (foldl (group_push key) al xs) k =
     (case map_of al k of
        None \<Rightarrow> if k \<in> key ` set xs then Some (filter (\<lambda>x. key x = k) xs) else None
      | Some g \<Rightarrow> Some (g @ filter (\<lambda>x. key x = k) xs))"
  by (induction xs arbitrary: al) (auto simp: group_push_def map_of_update_with_aux' split: option.splits)


lemma alist_eqI:
  "distinct (map fst xs) \<Longrightarrow> map fst xs = map fst ys \<Longrightarrow> map_of xs = map_of ys \<Longrightarrow> xs = ys"
proof (induction xs arbitrary: ys)
  case Nil
  then show ?case by simp
next
  case (Cons kv xs)
  then obtain v ys' where ys: "ys = (fst kv, v) # ys'" by (cases ys) auto
  have keys: "map fst xs = map fst ys'" using Cons.prems(2) by (simp add: ys)
  have "map_of xs = map_of ys'"
  proof
    fix k show "map_of xs k = map_of ys' k"
    proof (cases "k = fst kv")
      case True
      with Cons.prems(1) keys have "k \<notin> set (map fst xs)" "k \<notin> set (map fst ys')" by auto
      then have "map_of xs k = None" "map_of ys' k = None" by (simp_all add: map_of_eq_None_iff)
      then show ?thesis by simp
    next
      case False
      then show ?thesis using fun_cong [OF Cons.prems(3), of k] by (cases kv) (simp add: ys)
    qed
  qed
  moreover have "snd kv = v" using fun_cong [OF Cons.prems(3), of "fst kv"] by (cases kv) (simp add: ys)
  ultimately show ?case using Cons.IH Cons.prems(1) keys by (cases kv) (simp add: ys)
qed

lemma map_of_map_keys: "map_of (map (\<lambda>k. (k, f k)) ks) k = (if k \<in> set ks then Some (f k) else None)"
  by (induction ks) auto

lemma keys_fold_group:
  "map fst (foldl (group_push key) [] xs) = rev (remdups (rev (map key xs)))"
proof (induction xs rule: rev_induct)
  case Nil
  then show ?case by simp
next
  case (snoc x xs)
  then show ?case by (simp add: group_push_def keys_update_with_aux)
qed

lemma fold_group_push_ref: "foldl (group_push key) [] xs = group_by_ref key xs"
proof (rule alist_eqI)
  show "distinct (map fst (foldl (group_push key) [] xs))" by (simp add: keys_fold_group)
  show "map fst (foldl (group_push key) [] xs) = map fst (group_by_ref key xs)"
    by (simp add: keys_fold_group group_by_ref_def comp_def)
  show "map_of (foldl (group_push key) [] xs) = map_of (group_by_ref key xs)"
    by (rule ext) (simp add: map_of_fold_group group_by_ref_def map_of_map_keys)
qed

lemma map_fst_insort_key:
  "map fst (insort_key (\<lambda>kv. f (fst kv)) x ys) = insort_key f (fst x) (map fst ys)"
  by (induction ys) auto

lemma map_fst_sort_key: "map fst (sort_key (\<lambda>kv. f (fst kv)) xs) = sort_key f (map fst xs)"
  by (induction xs) (simp_all add: map_fst_insort_key)

lemma keys_js_entries:
  "map fst (js_entries al) =
     sort_key digits_value (filter is_array_index (map fst al)) @ filter (\<lambda>k. \<not> is_array_index k) (map fst al)"
  by (simp add: js_entries_def map_fst_sort_key filter_map comp_def)

end
