(* ===== verification/Types.thy ===== *)
theory Types
  imports Prelude
begin

text \<open>
  The entities the console transports (\<open>src/src/types/users.types.ts\<close>,
  \<open>src/src/types/todos.type.ts\<close>; the post and comment types are imported from
  \<open>types/posts.types\<close> and \<open>types/comments.type\<close>, which are not in the
  repository, and are modelled from the spec's data model).  Each TypeScript
  enum is a datatype with the string it is serialised as; each interface is a
  record whose fields carry a one-letter prefix, since record fields are global
  constants in HOL (\<open>id\<close> is the identity function).
\<close>

datatype user_gender = Male | Female

datatype user_status = Active | Inactive

datatype todo_status = Pending | Completed

primrec gender_str :: "user_gender \<Rightarrow> string" where
  "gender_str Male = ''male''"
| "gender_str Female = ''female''"

primrec user_status_str :: "user_status \<Rightarrow> string" where
  "user_status_str Active = ''active''"
| "user_status_str Inactive = ''inactive''"

primrec todo_status_str :: "todo_status \<Rightarrow> string" where
  "todo_status_str Pending = ''pending''"
| "todo_status_str Completed = ''completed''"

record user =
  u_id :: js_id
  u_name :: string
  u_email :: string
  u_gender :: user_gender
  u_status :: user_status

record user_form =
  f_name :: string
  f_email :: string
  f_gender :: user_gender
  f_status :: user_status

record todo =
  t_id :: js_id
  t_user_id :: js_id
  t_title :: string
  t_due_on :: string
  t_status :: todo_status

text \<open>\<open>CreateTodoData\<close> of \<open>todos.service.ts\<close>: the status travels as a plain string.\<close>

record todo_data =
  d_title :: string
  d_due_on :: string
  d_status :: string

record post =
  p_id :: js_id
  p_user_id :: js_id
  p_title :: string
  p_body :: string

record post_data =
  pd_title :: string
  pd_body :: string

record comment =
  c_id :: js_id
  c_post_id :: js_id
  c_name :: string
  c_email :: string
  c_body :: string

subsection \<open>JSON request bodies\<close>

datatype json = JStr string | JNum int

type_synonym json_object = "(string \<times> json) list"

definition user_form_json :: "user_form \<Rightarrow> json_object" where
  "user_form_json f =
     [(''name'', JStr (f_name f)), (''email'', JStr (f_email f)),
      (''gender'', JStr (gender_str (f_gender f))), (''status'', JStr (user_status_str (f_status f)))]"

definition todo_data_json :: "todo_data \<Rightarrow> json_object" where
  "todo_data_json d =
     [(''title'', JStr (d_title d)), (''due_on'', JStr (d_due_on d)), (''status'', JStr (d_status d))]"

definition post_data_json :: "post_data \<Rightarrow> json_object" where
  "post_data_json d = [(''title'', JStr (pd_title d)), (''body'', JStr (pd_body d))]"

lemma user_status_str_inj [simp]: "user_status_str a = user_status_str b \<longleftrightarrow> a = b"
  by (cases a; cases b) simp_all

lemma todo_status_str_inj [simp]: "todo_status_str a = todo_status_str b \<longleftrightarrow> a = b"
  by (cases a; cases b) simp_all

lemma gender_str_inj [simp]: "gender_str a = gender_str b \<longleftrightarrow> a = b"
  by (cases a; cases b) simp_all

end
