(* ===== verification/ApiError.thy ===== *)
theory ApiError
  imports Types
begin

text \<open>
  Error normalisation of \<open>src/src/utils/apiError.ts\<close>.  Every service call
  catches the axios error and rethrows \<open>handleApiError(error)\<close>; the mutation
  handlers of the forms and cards pass what reached them to
  \<open>formatApiErrors\<close>, which folds a list of \<open>{field, message}\<close> pairs into an
  object keyed by field.  The TypeScript types promise an \<open>ApiError[]\<close>, but
  \<open>handleApiError\<close> returns whatever truthy body the server sent, and other
  rejections (\<open>Promise.reject('No user selected')\<close>) are strings: the model keeps
  the non-array case, on which \<open>errors.forEach\<close> raises a \<open>TypeError\<close>.
\<close>

record api_error =
  ae_field :: string
  ae_message :: string

text \<open>The body of an error response, as far as JavaScript truthiness and \<open>forEach\<close> see it.\<close>

datatype resp_data =
    Data_errors "api_error list"  \<comment> \<open>a JSON array (truthy even when empty)\<close>
  | Data_value string             \<comment> \<open>a truthy non-array value, e.g. \<open>{"message": ...}\<close>\<close>
  | Data_falsy                    \<comment> \<open>no body: \<open>undefined\<close>, \<open>null\<close> or \<open>""\<close>\<close>

text \<open>An axios error: with a response (status and body) or without one (network failure).\<close>

datatype axios_error = No_response | Response nat resp_data

text \<open>A value a promise rejects with.\<close>

datatype thrown =
    Thrown_errors "api_error list"
  | Thrown_value string  \<comment> \<open>any non-array value: a string, an \<open>Error\<close>, an object body\<close>

datatype js_exception = TypeError string

definition general_error :: api_error where
  "general_error = \<lparr>ae_field = ''general'', ae_message = ''An unexpected error occurred''\<rparr>"

fun handleApiError :: "axios_error \<Rightarrow> thrown" where
  "handleApiError (Response _ (Data_errors es)) = Thrown_errors es"
| "handleApiError (Response _ (Data_value v)) = Thrown_value v"
| "handleApiError (Response _ Data_falsy) = Thrown_errors [general_error]"
| "handleApiError No_response = Thrown_errors [general_error]"

text \<open>\<open>formattedErrors[error.field] = error.message\<close> for each error in turn,
  on an object literal \<open>{}\<close>: the result is the object's own properties in
  creation order, which \<open>Object.entries\<close> lists as \<^const>\<open>js_entries\<close> does.\<close>

definition format_loop :: "api_error list \<Rightarrow> (string \<times> string) list" where
  "format_loop es = foldl (\<lambda>acc e. js_assign (ae_field e) (ae_message e) acc) [] es"

definition formatApiErrors :: "thrown \<Rightarrow> js_exception + (string \<times> string) list" where
  "formatApiErrors t =
     (case t of
        Thrown_errors es \<Rightarrow> Inr (format_loop es)
      | Thrown_value _ \<Rightarrow> Inl (TypeError ''errors.forEach is not a function''))"

text \<open>\<open>if (formErrors.general) message.error(formErrors.general)\<close>: only a non-empty message shows.\<close>

definition general_toast :: "(string \<times> string) list \<Rightarrow> string option" where
  "general_toast fe =
     (case map_of fe ''general'' of
        Some m \<Rightarrow> if js_truthy_str m then Some m else None
      | None \<Rightarrow> None)"

subsection \<open>Lemmas\<close>

definition error_pairs :: "api_error list \<Rightarrow> (string \<times> string) list" where
  "error_pairs es = map (\<lambda>e. (ae_field e, ae_message e)) es"

definition own_pairs :: "api_error list \<Rightarrow> (string \<times> string) list" where
  "own_pairs es = filter (\<lambda>kv. fst kv \<noteq> ''__proto__'') (error_pairs es)"

lemma foldl_js_assign:
  "foldl (\<lambda>acc e. js_assign (ae_field e) (ae_message e) acc) al es =
     foldl (\<lambda>acc (k, v). AList.update k v acc) al (own_pairs es)"
  by (induction es arbitrary: al) (simp_all add: js_assign_def own_pairs_def error_pairs_def)

lemma format_loop_pairs:
  "format_loop es = foldl (\<lambda>acc (k, v). AList.update k v acc) [] (own_pairs es)"
  by (simp add: format_loop_def foldl_js_assign)

lemma map_of_format_loop: "map_of (format_loop es) = map_of (rev (own_pairs es))"
  by (simp add: format_loop_pairs map_of_fold_update)

lemma distinct_format_loop: "distinct (map fst (format_loop es))"
  by (simp add: format_loop_pairs distinct_fold_update)

lemma format_loop_snoc: "format_loop (es @ [e]) = js_assign (ae_field e) (ae_message e) (format_loop es)"
  by (simp add: format_loop_def)

lemma keys_format_loop_order:
  "map fst (format_loop es) = filter (\<lambda>k. k \<noteq> ''__proto__'') (rev (remdups (rev (map ae_field es))))"
proof (induction es rule: rev_induct)
  case Nil
  then show ?case by (simp add: format_loop_def)
next
  case (snoc e es)
  then show ?case by (auto simp: format_loop_snoc js_assign_def update_keys)
qed

lemma format_loop_general [simp]:
  "format_loop [general_error] = [(''general'', ''An unexpected error occurred'')]"
  by (simp add: format_loop_def general_error_def js_assign_def)

lemma formatApiErrors_errors [simp]: "formatApiErrors (Thrown_errors es) = Inr (format_loop es)"
  by (simp add: formatApiErrors_def)

lemma formatApiErrors_value [simp]:
  "formatApiErrors (Thrown_value v) = Inl (TypeError ''errors.forEach is not a function'')"
  by (simp add: formatApiErrors_def)

lemma general_toast_general [simp]:
  "general_toast [(''general'', ''An unexpected error occurred'')] = Some ''An unexpected error occurred''"
  by (simp add: general_toast_def js_truthy_str_def)

subsection \<open>Properties\<close>

text \<open>
  C11: \<open>formatApiErrors\<close> of an error list is an object with one property per
  field except \<open>__proto__\<close>, holding the last message given for the field;
  \<open>Object.entries\<close> of it, which the forms pass to \<open>setFields\<close>, lists the
  fields that are array indices in ascending numeric order and then the others in
  the order they first occur.  On any non-array value it raises a
  \<open>TypeError\<close>.
\<close>

theorem formatApiErrors_result:
  "formatApiErrors (Thrown_errors es) = Inr (format_loop es)
   \<and> distinct (map fst (format_loop es))
   \<and> map fst (js_entries (format_loop es)) =
       (let ks = filter (\<lambda>k. k \<noteq> ''__proto__'') (rev (remdups (rev (map ae_field es)))) in
        sort_key digits_value (filter is_array_index ks) @ filter (\<lambda>k. \<not> is_array_index k) ks)
   \<and> map_of (format_loop es) = map_of (rev (filter (\<lambda>kv. fst kv \<noteq> ''__proto__'') (error_pairs es)))
   \<and> (\<forall>v. formatApiErrors (Thrown_value v) = Inl (TypeError ''errors.forEach is not a function''))"
  by (simp add: keys_js_entries keys_format_loop_order distinct_format_loop map_of_format_loop
      own_pairs_def[symmetric])

end
