(* ===== verification/Http.thy ===== *)
theory Http
  imports ApiError
begin

text \<open>
  The HTTP layer: the axios instance of \<open>src/src/utils/axios.ts\<close> (base URL,
  JSON content type, a bearer token added by a request interceptor) and the three
  services \<open>userApi\<close>, \<open>todoApi\<close>, \<open>postsApi\<close> of \<open>src/src/services/\<close>, each
  operation a function from its arguments to the request it sends.  The base URL
  and the token come from \<open>utils/api\<close>, which is not in the repository: they are
  the fields of \<open>api_config\<close>.  The REST table of the spec (section 6) is
  \<open>route\<close>, a decoder from method and relative URL to the endpoint it names;
  the round trip \<open>route_service_request\<close> shows every service call reaches the
  spec's endpoint with its ids and its page and page size.
\<close>

datatype http_method = GET | POST | PUT | DELETE

record request =
  r_method :: http_method
  r_url :: string
  r_body :: "json_object option"

record api_config =
  base_api :: string
  access_token :: string

record http_request =
  h_method :: http_method
  h_url :: string
  h_headers :: "(string \<times> string) list"
  h_body :: "json_object option"

subsection \<open>The axios instance\<close>

text \<open>axios' \<open>combineURLs\<close>: trailing slashes of the base and leading ones of the path are dropped.\<close>

definition strip_trailing_slash :: "string \<Rightarrow> string" where
  "strip_trailing_slash b =
     (if drop (length b - 2) b = ''//'' then take (length b - 2) b
      else if drop (length b - 1) b = ''/'' then take (length b - 1) b else b)"

definition combine_urls :: "string \<Rightarrow> string \<Rightarrow> string" where
  "combine_urls base rel =
     (if rel = [] then base else strip_trailing_slash base @ ''/'' @ dropWhile (\<lambda>c. c = CHR ''/'') rel)"

text \<open>
  The request the instance sends: axios' common \<open>Accept\<close> header, the
  instance's \<open>Content-Type\<close>, which the browser adapters remove when the request
  has no data (\<open>data === undefined && requestHeaders.setContentType(null)\<close>), and
  the interceptor's \<open>Authorization\<close>.
\<close>

definition axios_send :: "api_config \<Rightarrow> request \<Rightarrow> http_request" where
  "axios_send cfg r =
     \<lparr>h_method = r_method r, h_url = combine_urls (base_api cfg) (r_url r),
      h_headers = AList.update ''Authorization'' (''Bearer '' @ access_token cfg)
                    ((''Accept'', ''application/json, text/plain, */*'')
                     # (case r_body r of Some _ \<Rightarrow> [(''Content-Type'', ''application/json'')] | None \<Rightarrow> [])),
      h_body = r_body r\<rparr>"

text \<open>\<open>try { ... } catch (error) { throw handleApiError(error) }\<close>, shared by every service operation.\<close>

definition service_outcome :: "axios_error + 'a \<Rightarrow> thrown + 'a" where
  "service_outcome r = (case r of Inl e \<Rightarrow> Inl (handleApiError e) | Inr a \<Rightarrow> Inr a)"

subsection \<open>Services\<close>

definition page_query :: "js_id \<Rightarrow> js_id \<Rightarrow> string" where
  "page_query page per_page = ''?page='' @ js_num_str page @ ''&per_page='' @ js_num_str per_page"

definition req :: "http_method \<Rightarrow> string \<Rightarrow> json_object option \<Rightarrow> request" where
  "req m u b = \<lparr>r_method = m, r_url = u, r_body = b\<rparr>"

definition getUsers :: "js_id \<Rightarrow> js_id \<Rightarrow> request" where
  "getUsers page per_page = req GET (''/users'' @ page_query page per_page) None"

definition getUser :: "js_id \<Rightarrow> request" where
  "getUser i = req GET (''/users/'' @ js_num_str i) None"

definition createUser :: "user_form \<Rightarrow> request" where
  "createUser f = req POST ''/users'' (Some (user_form_json f))"

definition updateUser :: "js_id \<Rightarrow> user_form \<Rightarrow> request" where
  "updateUser i f = req PUT (''/users/'' @ js_num_str i) (Some (user_form_json f))"

definition deleteUser :: "js_id \<Rightarrow> request" where
  "deleteUser i = req DELETE (''/users/'' @ js_num_str i) None"

definition getTodos :: "js_id \<Rightarrow> js_id \<Rightarrow> request" where
  "getTodos page per_page = req GET (''/todos'' @ page_query page per_page) None"

definition getUserTodos :: "js_id \<Rightarrow> js_id \<Rightarrow> js_id \<Rightarrow> request" where
  "getUserTodos uid page per_page =
     req GET (''/users/'' @ js_num_str uid @ ''/todos'' @ page_query page per_page) None"

definition createTodo :: "js_id \<Rightarrow> todo_data \<Rightarrow> request" where
  "createTodo uid d = req POST (''/users/'' @ js_num_str uid @ ''/todos'') (Some (todo_data_json d))"

definition updateTodo :: "js_id \<Rightarrow> json_object \<Rightarrow> request" where
  "updateTodo i body = req PUT (''/todos/'' @ js_num_str i) (Some body)"

definition deleteTodo :: "js_id \<Rightarrow> request" where
  "deleteTodo i = req DELETE (''/todos/'' @ js_num_str i) None"

definition getPosts :: "js_id \<Rightarrow> js_id \<Rightarrow> request" where
  "getPosts page per_page = req GET (''/posts'' @ page_query page per_page) None"

definition getUserPosts :: "js_id \<Rightarrow> js_id \<Rightarrow> js_id \<Rightarrow> request" where
  "getUserPosts uid page per_page =
     req GET (''/users/'' @ js_num_str uid @ ''/posts'' @ page_query page per_page) None"

definition createPost :: "js_id \<Rightarrow> post_data \<Rightarrow> request" where
  "createPost uid d = req POST ''/posts'' (Some ((''user_id'', JNum uid) # post_data_json d))"

definition updatePost :: "js_id \<Rightarrow> post_data \<Rightarrow> request" where
  "updatePost i d = req PUT (''/posts/'' @ js_num_str i) (Some (post_data_json d))"

definition deletePost :: "js_id \<Rightarrow> request" where
  "deletePost i = req DELETE (''/posts/'' @ js_num_str i) None"

definition getPostComments :: "js_id \<Rightarrow> js_id \<Rightarrow> js_id \<Rightarrow> request" where
  "getPostComments pid page per_page =
     req GET (''/posts/'' @ js_num_str pid @ ''/comments'' @ page_query page per_page) None"

definition createComment :: "js_id \<Rightarrow> string \<Rightarrow> string \<Rightarrow> string \<Rightarrow> request" where
  "createComment pid name email body =
     req POST ''/comments''
       (Some [(''post_id'', JNum pid), (''name'', JStr name), (''email'', JStr email), (''body'', JStr body)])"

definition deleteComment :: "js_id \<Rightarrow> request" where
  "deleteComment i = req DELETE (''/comments/'' @ js_num_str i) None"

subsection \<open>The REST table\<close>

text \<open>
  The spec's endpoint table (section 6), with the two rows the services define
  beyond it (\<open>GET /users/{id}\<close> and \<open>GET /todos\<close>, which no page calls).
  \<open>route\<close> decodes a method and a relative URL into the endpoint it names.
\<close>

datatype endpoint =
    List_users int int | Get_user int | Create_user | Update_user int | Delete_user int
  | List_todos int int | List_user_todos int int int | Create_todo int | Update_todo int
  | Delete_todo int
  | List_posts int int | List_user_posts int int int | Create_post | Update_post int
  | Delete_post int
  | List_comments int int int | Create_comment | Delete_comment int

fun split_on :: "char \<Rightarrow> string \<Rightarrow> string list" where
  "split_on c [] = [[]]"
| "split_on c (x # xs) =
     (if x = c then [] # split_on c xs
      else (case split_on c xs of w # ws \<Rightarrow> (x # w) # ws | [] \<Rightarrow> [[x]]))"

definition split_query :: "string \<Rightarrow> string \<times> string option" where
  "split_query u =
     (case split_on CHR ''?'' u of [p] \<Rightarrow> (p, None) | [p, q] \<Rightarrow> (p, Some q) | _ \<Rightarrow> ([], None))"

definition parse_page_query :: "string \<Rightarrow> (int \<times> int) option" where
  "parse_page_query q =
     (case map (split_on CHR ''='') (split_on CHR ''&'' q) of
        [[k1, v1], [k2, v2]] \<Rightarrow>
          if k1 = ''page'' \<and> k2 = ''per_page''
          then (case (parse_int_str v1, parse_int_str v2) of
                  (Some p, Some n) \<Rightarrow> Some (p, n)
                | _ \<Rightarrow> None)
          else None
      | _ \<Rightarrow> None)"

fun route_segs :: "http_method \<Rightarrow> string list \<Rightarrow> string option \<Rightarrow> endpoint option" where
  "route_segs m [e, r] q =
     (if e \<noteq> [] then None
      else if r = ''users'' then
        (case (m, q) of
           (GET, Some qs) \<Rightarrow> map_option (\<lambda>(p, n). List_users p n) (parse_page_query qs)
         | (POST, None) \<Rightarrow> Some Create_user
         | _ \<Rightarrow> None)
      else if r = ''todos'' then
        (case (m, q) of
           (GET, Some qs) \<Rightarrow> map_option (\<lambda>(p, n). List_todos p n) (parse_page_query qs)
         | _ \<Rightarrow> None)
      else if r = ''posts'' then
        (case (m, q) of
           (GET, Some qs) \<Rightarrow> map_option (\<lambda>(p, n). List_posts p n) (parse_page_query qs)
         | (POST, None) \<Rightarrow> Some Create_post
         | _ \<Rightarrow> None)
      else if r = ''comments'' then
        (case (m, q) of (POST, None) \<Rightarrow> Some Create_comment | _ \<Rightarrow> None)
      else None)"
| "route_segs m [e, r, i] q =
     (if e \<noteq> [] then None
      else case (parse_int_str i, q) of
        (Some n, None) \<Rightarrow>
          if r = ''users'' then
            (case m of GET \<Rightarrow> Some (Get_user n) | PUT \<Rightarrow> Some (Update_user n)
                     | DELETE \<Rightarrow> Some (Delete_user n) | POST \<Rightarrow> None)
          else if r = ''todos'' then
            (case m of PUT \<Rightarrow> Some (Update_todo n) | DELETE \<Rightarrow> Some (Delete_todo n) | _ \<Rightarrow> None)
          else if r = ''posts'' then
            (case m of PUT \<Rightarrow> Some (Update_post n) | DELETE \<Rightarrow> Some (Delete_post n) | _ \<Rightarrow> None)
          else if r = ''comments'' then
            (case m of DELETE \<Rightarrow> Some (Delete_comment n) | _ \<Rightarrow> None)
          else None
      | _ \<Rightarrow> None)"
| "route_segs m [e, r, i, s] q =
     (if e \<noteq> [] then None
      else case parse_int_str i of
        None \<Rightarrow> None
      | Some n \<Rightarrow>
          if r = ''users'' \<and> s = ''todos'' then
            (case (m, q) of
               (GET, Some qs) \<Rightarrow> map_option (\<lambda>(p, k). List_user_todos n p k) (parse_page_query qs)
             | (POST, None) \<Rightarrow> Some (Create_todo n)
             | _ \<Rightarrow> None)
          else if r = ''users'' \<and> s = ''posts'' then
            (case (m, q) of
               (GET, Some qs) \<Rightarrow> map_option (\<lambda>(p, k). List_user_posts n p k) (parse_page_query qs)
             | _ \<Rightarrow> None)
          else if r = ''posts'' \<and> s = ''comments'' then
            (case (m, q) of
               (GET, Some qs) \<Rightarrow> map_option (\<lambda>(p, k). List_comments n p k) (parse_page_query qs)
             | _ \<Rightarrow> None)
          else None)"
| "route_segs m _ q = None"

definition route :: "request \<Rightarrow> endpoint option" where
  "route r = (case split_query (r_url r) of (p, q) \<Rightarrow> route_segs (r_method r) (split_on CHR ''/'' p) q)"

text \<open>Every operation of the three services, with its arguments.\<close>

datatype service_call =
    SC_getUsers int int | SC_getUser int | SC_createUser user_form | SC_updateUser int user_form
  | SC_deleteUser int
  | SC_getTodos int int | SC_getUserTodos int int int | SC_createTodo int todo_data
  | SC_updateTodo int json_object | SC_deleteTodo int
  | SC_getPosts int int | SC_getUserPosts int int int | SC_createPost int post_data
  | SC_updatePost int post_data | SC_deletePost int
  | SC_getPostComments int int int | SC_createComment int string string string
  | SC_deleteComment int

primrec service_request :: "service_call \<Rightarrow> request" where
  "service_request (SC_getUsers p n) = getUsers p n"
| "service_request (SC_getUser i) = getUser i"
| "service_request (SC_createUser f) = createUser f"
| "service_request (SC_updateUser i f) = updateUser i f"
| "service_request (SC_deleteUser i) = deleteUser i"
| "service_request (SC_getTodos p n) = getTodos p n"
| "service_request (SC_getUserTodos u p n) = getUserTodos u p n"
| "service_request (SC_createTodo u d) = createTodo u d"
| "service_request (SC_updateTodo i b) = updateTodo i b"
| "service_request (SC_deleteTodo i) = deleteTodo i"
| "service_request (SC_getPosts p n) = getPosts p n"
| "service_request (SC_getUserPosts u p n) = getUserPosts u p n"
| "service_request (SC_createPost u d) = createPost u d"
| "service_request (SC_updatePost i d) = updatePost i d"
| "service_request (SC_deletePost i) = deletePost i"
| "service_request (SC_getPostComments i p n) = getPostComments i p n"
| "service_request (SC_createComment i nm em b) = createComment i nm em b"
| "service_request (SC_deleteComment i) = deleteComment i"

text \<open>The row of the REST table each operation is meant to call.\<close>

primrec service_endpoint :: "service_call \<Rightarrow> endpoint" where
  "service_endpoint (SC_getUsers p n) = List_users p n"
| "service_endpoint (SC_getUser i) = Get_user i"
| "service_endpoint (SC_createUser f) = Create_user"
| "service_endpoint (SC_updateUser i f) = Update_user i"
| "service_endpoint (SC_deleteUser i) = Delete_user i"
| "service_endpoint (SC_getTodos p n) = List_todos p n"
| "service_endpoint (SC_getUserTodos u p n) = List_user_todos u p n"
| "service_endpoint (SC_createTodo u d) = Create_todo u"
| "service_endpoint (SC_updateTodo i b) = Update_todo i"
| "service_endpoint (SC_deleteTodo i) = Delete_todo i"
| "service_endpoint (SC_getPosts p n) = List_posts p n"
| "service_endpoint (SC_getUserPosts u p n) = List_user_posts u p n"
| "service_endpoint (SC_createPost u d) = Create_post"
| "service_endpoint (SC_updatePost i d) = Update_post i"
| "service_endpoint (SC_deletePost i) = Delete_post i"
| "service_endpoint (SC_getPostComments i p n) = List_comments i p n"
| "service_endpoint (SC_createComment i nm em b) = Create_comment"
| "service_endpoint (SC_deleteComment i) = Delete_comment i"

subsection \<open>Lemmas on splitting\<close>

lemma split_on_nonempty [simp]: "split_on c s \<noteq> []"
  by (induction s) (auto split: list.splits)

lemma split_on_append:
  "c \<notin> set a \<Longrightarrow> split_on c (a @ b) = (a @ hd (split_on c b)) # tl (split_on c b)"
  by (induction a) (auto split: list.splits)

lemma split_on_free: "c \<notin> set a \<Longrightarrow> split_on c a = [a]"
  using split_on_append [of c a "[]"] by simp

lemmas split_num [simp] =
  split_on_append [OF js_num_str_no_sep(1)] split_on_append [OF js_num_str_no_sep(2)]
  split_on_append [OF js_num_str_no_sep(3)] split_on_append [OF js_num_str_no_sep(4)]
  split_on_free [OF js_num_str_no_sep(1)] split_on_free [OF js_num_str_no_sep(2)]
  split_on_free [OF js_num_str_no_sep(3)] split_on_free [OF js_num_str_no_sep(4)]

lemma parse_page_query_ok:
  "parse_page_query (''page='' @ js_num_str p @ ''&per_page='' @ js_num_str n) = Some (p, n)"
  by (simp add: parse_page_query_def js_simps)

lemmas parse_page_query_ok' [simp] = parse_page_query_ok [unfolded append_Cons append_Nil]

lemmas service_defs =
  getUsers_def getUser_def createUser_def updateUser_def deleteUser_def getTodos_def
  getUserTodos_def createTodo_def updateTodo_def deleteTodo_def getPosts_def getUserPosts_def
  createPost_def updatePost_def deletePost_def getPostComments_def createComment_def
  deleteComment_def req_def page_query_def

lemma service_url_shape: "\<exists>x rest. r_url (service_request c) = CHR ''/'' # x # rest \<and> x \<noteq> CHR ''/''"
  by (cases c) (simp_all add: service_defs)

lemma combine_urls_slash:
  "x \<noteq> CHR ''/'' \<Longrightarrow> combine_urls b (CHR ''/'' # x # rest) = strip_trailing_slash b @ CHR ''/'' # x # rest"
  by (simp add: combine_urls_def)

subsection \<open>Properties\<close>

text \<open>
  C6: every service operation sends the method and relative URL of the REST
  table's row for it, with the ids, page and page size it was called with: the
  router recovers the endpoint and all its arguments from the request.
\<close>

theorem route_service_request: "route (service_request c) = Some (service_endpoint c)"
  by (cases c) (simp_all add: route_def split_query_def js_simps service_defs)

corollary service_request_inj:
  "service_endpoint c \<noteq> service_endpoint d \<Longrightarrow> service_request c \<noteq> service_request d"
  by (metis option.inject route_service_request)

lemma service_body_method:
  "(r_body (service_request c) \<noteq> None) = (r_method (service_request c) \<in> {POST, PUT})"
  by (cases c) (simp_all add: service_defs)

text \<open>
  C7: every request leaves the axios instance with the bearer token of the
  configuration and the base URL joined to the path by exactly one slash; it
  carries the JSON content type exactly when it has a body, which the services
  give exactly to their POST and PUT requests, so no GET or DELETE declares one.
\<close>

theorem axios_send_service:
  "map_of (h_headers (axios_send cfg (service_request c))) ''Authorization'' = Some (''Bearer '' @ access_token cfg)
   \<and> (map_of (h_headers (axios_send cfg (service_request c))) ''Content-Type'' = Some ''application/json''
       \<longleftrightarrow> r_method (service_request c) \<in> {POST, PUT})
   \<and> (map_of (h_headers (axios_send cfg (service_request c))) ''Content-Type'' = None
       \<longleftrightarrow> h_body (axios_send cfg (service_request c)) = None)
   \<and> h_url (axios_send cfg (service_request c)) = strip_trailing_slash (base_api cfg) @ r_url (service_request c)
   \<and> h_method (axios_send cfg (service_request c)) = r_method (service_request c)"
proof -
  obtain x rest where u: "r_url (service_request c) = CHR ''/'' # x # rest" and x: "x \<noteq> CHR ''/''"
    using service_url_shape by blast
  show ?thesis
    using service_body_method [of c]
    by (auto simp: axios_send_def u combine_urls_slash [OF x] split: option.splits)
qed

end
