(* ===== verification/QueryCache.thy ===== *)
theory QueryCache
  imports Http
begin

text \<open>
  The client-side query cache.  Every list view of the pages calls
  \<open>useQuery\<close> with a composite key (a list of strings, numbers and, where the
  optional chaining \<open>selectedUser?.id\<close> finds no user, \<open>undefined\<close>) and a
  fetch function that calls a service.  The mutation handlers call
  \<open>queryClient.invalidateQueries({queryKey})\<close>, which selects cached queries by
  TanStack Query's partial key match: the filter key is compared element by
  element with the cached key, missing positions of the cached key reading
  \<open>undefined\<close>.  The cache itself belongs to the library, so
  \<open>partial_match\<close> follows TanStack's \<open>partialMatchKey\<close> and
  \<open>invalidate_queries\<close> the spec's contract (section 4.1: an invalidated entry is
  dropped, so the next render fetches again).
\<close>

datatype qk = QStr string | QNum int | QUndef

type_synonym qkey = "qk list"

type_synonym 'v query_cache = "qkey \<Rightarrow> 'v option"

fun partial_match :: "qkey \<Rightarrow> qkey \<Rightarrow> bool" where
  "partial_match ks [] = True"
| "partial_match [] (f # fs) = (f = QUndef \<and> partial_match [] fs)"
| "partial_match (k # ks) (f # fs) = (k = f \<and> partial_match ks fs)"

definition invalidate_queries :: "qkey \<Rightarrow> 'v query_cache \<Rightarrow> 'v query_cache" where
  "invalidate_queries f c = (\<lambda>k. if partial_match k f then None else c k)"

text \<open>\<open>selectedUser?.id\<close> as a key part.\<close>

definition opt_id_key :: "user option \<Rightarrow> qk" where
  "opt_id_key s = (case s of None \<Rightarrow> QUndef | Some u \<Rightarrow> QNum (u_id u))"

subsection \<open>The list views and their keys\<close>

text \<open>
  One constructor per \<open>useQuery\<close> of the pages and cards: the users table
  (\<open>pages/users/index.tsx\<close>), the active profile's todos (\<open>pages/todos/index.tsx\<close>),
  all posts and the profile's posts (\<open>pages/posts/all.tsx\<close>, \<open>my.tsx\<close>), and the
  comments of one post card (\<open>components/posts/PostsCard.tsx\<close>, fetched while the
  card shows its comments).
\<close>

datatype view =
    Users_view int int
  | Todos_view "user option" int int
  | All_posts_view int int
  | My_posts_view "user option" int int
  | Comments_view int bool

primrec view_key :: "view \<Rightarrow> qkey" where
  "view_key (Users_view page page_size) = [QStr ''users'', QNum page, QNum page_size]"
| "view_key (Todos_view s page page_size) = [QStr ''todos'', opt_id_key s, QNum page, QNum page_size]"
| "view_key (All_posts_view page page_size) = [QStr ''posts'', QNum page, QNum page_size]"
| "view_key (My_posts_view s page page_size) = [QStr ''my-posts'', opt_id_key s, QNum page, QNum page_size]"
| "view_key (Comments_view pid shown) = [QStr ''comments'', QNum pid]"

text \<open>The \<open>enabled\<close> option: \<open>!!selectedUser?.id\<close>, \<open>!!selectedUser\<close>, \<open>showComments\<close>.\<close>

primrec view_enabled :: "view \<Rightarrow> bool" where
  "view_enabled (Users_view page page_size) = True"
| "view_enabled (Todos_view s page page_size) = (case s of None \<Rightarrow> False | Some u \<Rightarrow> js_truthy_num (u_id u))"
| "view_enabled (All_posts_view page page_size) = True"
| "view_enabled (My_posts_view s page page_size) = (s \<noteq> None)"
| "view_enabled (Comments_view pid shown) = shown"

text \<open>The service call of the \<open>queryFn\<close>, on the branch \<open>enabled\<close> lets run.\<close>

primrec view_call :: "view \<Rightarrow> service_call option" where
  "view_call (Users_view page page_size) = Some (SC_getUsers page page_size)"
| "view_call (Todos_view s page page_size) =
     (case s of Some u \<Rightarrow> if js_truthy_num (u_id u) then Some (SC_getUserTodos (u_id u) page page_size) else None
              | None \<Rightarrow> None)"
| "view_call (All_posts_view page page_size) = Some (SC_getPosts page page_size)"
| "view_call (My_posts_view s page page_size) =
     (case s of Some u \<Rightarrow> Some (SC_getUserPosts (u_id u) page page_size) | None \<Rightarrow> None)"
| "view_call (Comments_view pid shown) = Some (SC_getPostComments pid 1 10)"

definition view_fetch :: "view \<Rightarrow> service_call option" where
  "view_fetch v = (if view_enabled v then view_call v else None)"

text \<open>A resolved fetch stores the response under the view's key.\<close>

definition query_resolve :: "view \<Rightarrow> 'v \<Rightarrow> 'v query_cache \<Rightarrow> 'v query_cache" where
  "query_resolve v r c = c(view_key v \<mapsto> r)"

subsection \<open>Pagination total\<close>

record 'a page_response =
  rs_data :: "'a list"
  rs_total :: "string option"  \<comment> \<open>the \<open>x-pagination-total\<close> header\<close>

text \<open>
  \<open>Number(s)\<close> of a header string: surrounding white space is ignored, the empty
  string is 0, an optionally signed run of decimal digits is its value.  Every
  other string is \<open>None\<close>: \<open>NaN\<close>, or a fractional, exponent or hexadecimal
  literal, which the model does not evaluate.
\<close>

definition js_space :: "char \<Rightarrow> bool" where
  "js_space c \<longleftrightarrow> of_char c \<in> {9, 10, 11, 12, 13, 32::nat}"

definition js_trim :: "string \<Rightarrow> string" where
  "js_trim s = rev (dropWhile js_space (rev (dropWhile js_space s)))"

definition js_number_of_str :: "string \<Rightarrow> int option" where
  "js_number_of_str s =
     (case js_trim s of
        [] \<Rightarrow> Some 0
      | c # r \<Rightarrow> if c = CHR ''+'' then map_option int (parse_nat_str r)
               else if c = CHR ''-'' then map_option (\<lambda>n. - int n) (parse_nat_str r)
               else map_option int (parse_nat_str (c # r)))"

text \<open>\<open>Number(data?.headers?.['x-pagination-total'] || 0)\<close>.\<close>

definition pagination_total :: "'a page_response option \<Rightarrow> int option" where
  "pagination_total d =
     (case d of
        None \<Rightarrow> Some 0
      | Some r \<Rightarrow> (case rs_total r of
                     None \<Rightarrow> Some 0
                   | Some s \<Rightarrow> if js_truthy_str s then js_number_of_str s else Some 0))"

text \<open>\<open>handlePageChange(newPage, newPageSize)\<close> and the list's \<open>onChange\<close>: both state hooks are set.\<close>

primrec handlePageChange :: "view \<Rightarrow> int \<Rightarrow> int \<Rightarrow> view" where
  "handlePageChange (Users_view p n) p' n' = Users_view p' n'"
| "handlePageChange (Todos_view s p n) p' n' = Todos_view s p' n'"
| "handlePageChange (All_posts_view p n) p' n' = All_posts_view p' n'"
| "handlePageChange (My_posts_view s p n) p' n' = My_posts_view s p' n'"
| "handlePageChange (Comments_view pid shown) p' n' = Comments_view pid shown"

primrec paged :: "view \<Rightarrow> bool" where
  "paged (Users_view p n) = True"
| "paged (Todos_view s p n) = True"
| "paged (All_posts_view p n) = True"
| "paged (My_posts_view s p n) = True"
| "paged (Comments_view pid shown) = False"

subsection \<open>Lemmas\<close>

lemma partial_match_take:
  "length f \<le> length k \<Longrightarrow> partial_match k f \<longleftrightarrow> take (length f) k = f"
  by (induction k f rule: partial_match.induct) auto

lemma partial_match_refl [simp]: "partial_match k k"
  by (induction k) auto

lemma invalidate_queries_other:
  "\<not> partial_match k f \<Longrightarrow> invalidate_queries f c k = c k"
  by (simp add: invalidate_queries_def)

lemma invalidate_queries_match:
  "partial_match k f \<Longrightarrow> invalidate_queries f c k = None"
  by (simp add: invalidate_queries_def)

lemma opt_id_key_eq [simp]:
  "opt_id_key s = QNum i \<longleftrightarrow> (\<exists>u. s = Some u \<and> u_id u = i)"
  "opt_id_key s = QUndef \<longleftrightarrow> s = None"
  by (auto simp: opt_id_key_def split: option.splits)

lemma opt_id_key_inj: "opt_id_key s = opt_id_key t \<longleftrightarrow> map_option u_id s = map_option u_id t"
  by (auto simp: opt_id_key_def split: option.splits)

lemma dropWhile_none: "\<forall>c\<in>set s. \<not> P c \<Longrightarrow> dropWhile P s = s"
  by (induction s) auto

lemma js_trim_digits:
  assumes "list_all is_dec_digit s"
  shows "js_trim s = s"
proof -
  have "\<forall>c\<in>set s. \<not> js_space c"
    using assms by (auto simp: list_all_iff is_dec_digit_def js_space_def)
  then show ?thesis by (simp add: js_trim_def dropWhile_none)
qed

lemma js_number_of_nat_str [js_simps]: "js_number_of_str (nat_str n) = Some (int n)"
proof -
  obtain c r where cr: "nat_str n = c # r"
    using nat_str_nonempty by (cases "nat_str n") auto
  have d: "is_dec_digit c" using nat_str_digits [of n] cr by simp
  then have "c \<noteq> CHR ''+''" and "c \<noteq> CHR ''-''" by (auto simp: is_dec_digit_def)
  moreover have "js_trim (c # r) = c # r"
    using js_trim_digits [OF nat_str_digits [of n]] cr by simp
  ultimately show ?thesis
    using cr by (simp add: js_number_of_str_def parse_nat_str_nat_str [of n, unfolded cr])
qed

lemma handlePageChange_paged [simp]: "paged (handlePageChange v p n) = paged v"
  by (cases v) simp_all

subsection \<open>Properties\<close>

text \<open>A paginated list's key determines its page and page size.\<close>

lemma page_change_key:
  assumes "paged v"
  shows "view_key (handlePageChange v p n) = view_key (handlePageChange v p' n') \<longleftrightarrow> p = p' \<and> n = n'"
  using assms by (cases v) auto

text \<open>
  C13: the pagination total is 0 while the list is loading, when the response
  has no \<open>x-pagination-total\<close> header and when the header is empty; a
  decimal header is read as its value.  Changing the page or the page size of a
  paginated list always moves it to a new cache key, and back to the same key
  for the same page and size.
\<close>

theorem pagination_total_and_keys:
  "pagination_total (None :: 'a page_response option) = Some 0
   \<and> pagination_total (Some (r\<lparr>rs_total := None\<rparr>)) = Some 0
   \<and> pagination_total (Some (r\<lparr>rs_total := Some ''''\<rparr>)) = Some 0
   \<and> pagination_total (Some (r\<lparr>rs_total := Some (nat_str n)\<rparr>)) = Some (int n)
   \<and> (paged v \<longrightarrow>
        (view_key (handlePageChange v p n') = view_key (handlePageChange v p' n'') \<longleftrightarrow> p = p' \<and> n' = n''))"
  by (simp add: pagination_total_def js_truthy_str_def js_simps page_change_key)

theorem pagination_total_and_keys_witness:
  "view_key (handlePageChange (Users_view 1 10) 2 10) \<noteq> view_key (handlePageChange (Users_view 1 10) 1 10)"
proof -
  have "paged (Users_view 1 10)" by simp
  then show ?thesis
    using pagination_total_and_keys [where v = "Users_view 1 10" and p = 2 and n' = 10 and p' = 1 and n'' = 10]
    by simp
qed

end
