(* ===== verification/AppState.thy ===== *)
theory AppState
  imports QueryCache
begin

text \<open>
  The state the mutation handlers read and write, and the mutation protocol they
  run under.  \<open>pages/_app.tsx\<close> builds one \<open>QueryClient\<close> and one
  \<open>UserProvider\<close> (\<open>context/UserContext.tsx\<close>) for the whole application, so
  the handlers share two pieces of state: the active profile \<open>selectedUser\<close> and
  the query cache.  What a handler shows the operator (antd \<open>message\<close> toasts,
  \<open>form.setFields\<close>, \<open>resetFields\<close>, the parent's \<open>onSubmit\<close> that closes the
  modal) and the requests it sends are appended to an effect log, in the order
  the code performs them.

  \<open>run_mutation\<close> is \<open>useMutation(...).mutate(vars)\<close> of TanStack Query: the
  mutation function either rejects before any request (\<open>Inl\<close>) or sends one
  service call; a rejection, or the service's rethrown \<open>handleApiError\<close> value,
  goes to \<open>onError\<close>, a response to \<open>onSuccess\<close>.  A handler without
  \<open>onError\<close> passes \<^term>\<open>\<lambda>t s. s\<close>: the error only sets the mutation's own
  error state, which no component reads.  A request is one step; two mutations
  in flight at once are not modelled.
\<close>

datatype effect =
    Request service_call
  | Toast_success string
  | Toast_error string
  | Set_fields "(string \<times> string) list"
  | Form_reset
  | Submitted

datatype cached =
    Users_list "user page_response"
  | Todos_list "todo page_response"
  | Posts_list "post page_response"
  | Comments_list "comment page_response"

record app_state =
  selected :: "user option"
  cache :: "cached query_cache"
  effects :: "effect list"

definition init_state :: app_state where
  "init_state = \<lparr>selected = None, cache = Map.empty, effects = []\<rparr>"

definition emit :: "effect \<Rightarrow> app_state \<Rightarrow> app_state" where
  "emit e st = st\<lparr>effects := effects st @ [e]\<rparr>"

definition invalidate :: "qkey \<Rightarrow> app_state \<Rightarrow> app_state" where
  "invalidate f st = st\<lparr>cache := invalidate_queries f (cache st)\<rparr>"

definition run_mutation ::
  "thrown + service_call \<Rightarrow> axios_error + unit \<Rightarrow> (app_state \<Rightarrow> app_state)
   \<Rightarrow> (thrown \<Rightarrow> app_state \<Rightarrow> app_state) \<Rightarrow> app_state \<Rightarrow> app_state" where
  "run_mutation fn resp on_success on_error st =
     (case fn of
        Inl t \<Rightarrow> on_error t st
      | Inr c \<Rightarrow>
          (let st' = emit (Request c) st in
           case service_outcome resp of
             Inl t \<Rightarrow> on_error t st'
           | Inr _ \<Rightarrow> on_success st'))"

definition no_on_error :: "thrown \<Rightarrow> app_state \<Rightarrow> app_state" where
  "no_on_error t st = st"

subsection \<open>Lemmas\<close>

named_theorems state_simps "how the state helpers change each field"

lemma emit_fields [state_simps, simp]:
  "selected (emit e st) = selected st" "cache (emit e st) = cache st"
  "effects (emit e st) = effects st @ [e]"
  by (simp_all add: emit_def)

lemma invalidate_fields [state_simps, simp]:
  "selected (invalidate f st) = selected st"
  "cache (invalidate f st) = invalidate_queries f (cache st)"
  "effects (invalidate f st) = effects st"
  by (simp_all add: invalidate_def)

lemma run_mutation_reject [simp]:
  "run_mutation (Inl t) resp s e st = e t st"
  by (simp add: run_mutation_def)

lemma run_mutation_ok [simp]:
  "run_mutation (Inr c) (Inr x) s e st = s (emit (Request c) st)"
  by (simp add: run_mutation_def service_outcome_def)

lemma run_mutation_fail [simp]:
  "run_mutation (Inr c) (Inl err) s e st = e (handleApiError err) (emit (Request c) st)"
  by (simp add: run_mutation_def service_outcome_def)

lemma no_on_error [simp]: "no_on_error t st = st"
  by (simp add: no_on_error_def)

end
