(* ===== verification/Profile.thy ===== *)
theory Profile
  imports AppState
begin

text \<open>
  The active profile.  \<open>UserProvider\<close> (\<open>context/UserContext.tsx\<close>) holds
  \<open>selectedUser\<close>, a copy of the user object the operator picked, in React state:
  \<open>setSelectedUser\<close> replaces it and nothing else writes it.  The only caller is
  \<open>handleSetAsProfile\<close> of \<open>components/users/UserTable.tsx\<close>, which refuses an
  inactive user; the table also disables the button for the current profile and
  for inactive users.  The other readers compare ids or e-mail addresses with the
  copy: a post is the profile's own when its \<open>user_id\<close> is the profile's id
  (\<open>pages/posts/all.tsx\<close>), a comment when its e-mail is the profile's
  (\<open>PostsCard.tsx\<close>), and the header paints the avatar green for an active copy.
\<close>

definition setSelectedUser :: "user option \<Rightarrow> app_state \<Rightarrow> app_state" where
  "setSelectedUser u st = st\<lparr>selected := u\<rparr>"

definition handleSetAsProfile :: "user \<Rightarrow> app_state \<Rightarrow> app_state" where
  "handleSetAsProfile u st =
     (if u_status u = Inactive then emit (Toast_error ''Cannot set inactive user as profile'') st
      else emit (Toast_success (u_name u @ '' set as profile successfully'')) (setSelectedUser (Some u) st))"

text \<open>\<open>disabled={record.id === selectedUser?.id || record.status === UserStatus.Inactive}\<close>.\<close>

definition profile_button_disabled :: "user option \<Rightarrow> user \<Rightarrow> bool" where
  "profile_button_disabled s r \<longleftrightarrow> map_option u_id s = Some (u_id r) \<or> u_status r = Inactive"

text \<open>\<open>isOwner={post.user_id === selectedUser?.id}\<close> on the all-posts page.\<close>

definition isOwner :: "user option \<Rightarrow> post \<Rightarrow> bool" where
  "isOwner s p \<longleftrightarrow> map_option u_id s = Some (p_user_id p)"

definition isUserComment :: "user option \<Rightarrow> comment \<Rightarrow> bool" where
  "isUserComment s c \<longleftrightarrow> map_option u_email s = Some (c_email c)"

text \<open>The header's avatar: \<open>selectedUser?.status === "active"\<close>.\<close>

definition header_active :: "user option \<Rightarrow> bool" where
  "header_active s \<longleftrightarrow> map_option u_status s = Some Active"

lemma setSelectedUser_fields [state_simps, simp]:
  "selected (setSelectedUser u st) = u" "cache (setSelectedUser u st) = cache st"
  "effects (setSelectedUser u st) = effects st"
  by (simp_all add: setSelectedUser_def)

lemma handleSetAsProfile_cache [simp]: "cache (handleSetAsProfile u st) = cache st"
  by (simp add: handleSetAsProfile_def)

lemma handleSetAsProfile_selected:
  "selected (handleSetAsProfile u st) = (if u_status u = Active then Some u else selected st)"
  by (cases "u_status u") (simp_all add: handleSetAsProfile_def)

end
