(* ===== verification/Mutations.thy ===== *)
theory Mutations
  imports Profile
begin

text \<open>
  The mutation handlers of the console, one definition per handler, each the
  whole handler: the guard the code checks before mutating, the service call of
  the mutation function, the \<open>onSuccess\<close> callback (toast, invalidations,
  \<open>onSubmit\<close>, in the code's order) and the \<open>onError\<close> callback where the
  component defines one.  The response of the service is an argument: the
  external API decides it.
\<close>

subsection \<open>Users: \<open>components/users/UserForm.tsx\<close>, \<open>UserTable.tsx\<close>\<close>

definition user_form_success :: "string \<Rightarrow> app_state \<Rightarrow> app_state" where
  "user_form_success msg st = emit Submitted (invalidate [QStr ''users''] (emit (Toast_success msg) st))"

definition UserForm_handleSubmit ::
  "user option \<Rightarrow> user_form \<Rightarrow> axios_error + unit \<Rightarrow> app_state \<Rightarrow> app_state" where
  "UserForm_handleSubmit initialData values resp st =
     (case initialData of
        Some u \<Rightarrow> run_mutation (Inr (SC_updateUser (u_id u) values)) resp
                   (user_form_success ''User updated successfully'') no_on_error st
      | None \<Rightarrow> run_mutation (Inr (SC_createUser values)) resp
                   (user_form_success ''User created successfully'') no_on_error st)"

definition deleteUserMutation :: "js_id \<Rightarrow> axios_error + unit \<Rightarrow> app_state \<Rightarrow> app_state" where
  "deleteUserMutation i resp st =
     run_mutation (Inr (SC_deleteUser i)) resp
       (\<lambda>st. invalidate [QStr ''users''] (emit (Toast_success ''User deleted successfully'') st))
       no_on_error st"

subsection \<open>Todos: \<open>components/todos/TodosForm.tsx\<close>, \<open>pages/todos/index.tsx\<close>\<close>

text \<open>\<open>queryClient.invalidateQueries({ queryKey: ['todos', selectedUser?.id] })\<close>.\<close>

definition todo_filter :: "user option \<Rightarrow> qkey" where
  "todo_filter s = [QStr ''todos'', opt_id_key s]"

definition todo_form_success :: "string \<Rightarrow> app_state \<Rightarrow> app_state" where
  "todo_form_success msg st =
     emit Submitted (invalidate (todo_filter (selected st)) (emit (Toast_success msg) st))"

text \<open>\<open>if (!selectedUser?.id) throw new Error('No user selected')\<close>: an id of 0 counts as none.\<close>

definition createTodoFn :: "user option \<Rightarrow> todo_data \<Rightarrow> thrown + service_call" where
  "createTodoFn s d =
     (case s of
        Some u \<Rightarrow> if js_truthy_num (u_id u) then Inr (SC_createTodo (u_id u) d)
                  else Inl (Thrown_value ''No user selected'')
      | None \<Rightarrow> Inl (Thrown_value ''No user selected''))"

definition TodoForm_handleSubmit ::
  "todo option \<Rightarrow> todo_data \<Rightarrow> axios_error + unit \<Rightarrow> app_state \<Rightarrow> app_state" where
  "TodoForm_handleSubmit initialData values resp st =
     (case initialData of
        Some t \<Rightarrow> run_mutation (Inr (SC_updateTodo (t_id t) (todo_data_json values))) resp
                   (todo_form_success ''Todo updated successfully'') no_on_error st
      | None \<Rightarrow> run_mutation (createTodoFn (selected st) values) resp
                   (todo_form_success ''Todo created successfully'') no_on_error st)"

definition next_todo_status :: "todo_status \<Rightarrow> todo_status" where
  "next_todo_status s = (if s = Completed then Pending else Completed)"

definition handleStatusChange :: "todo \<Rightarrow> axios_error + unit \<Rightarrow> app_state \<Rightarrow> app_state" where
  "handleStatusChange t resp st =
     run_mutation
       (Inr (SC_updateTodo (t_id t) [(''status'', JStr (todo_status_str (next_todo_status (t_status t))))]))
       resp (\<lambda>st. invalidate (todo_filter (selected st)) st) no_on_error st"

definition deleteTodoMutation :: "todo \<Rightarrow> axios_error + unit \<Rightarrow> app_state \<Rightarrow> app_state" where
  "deleteTodoMutation t resp st =
     run_mutation (Inr (SC_deleteTodo (t_id t))) resp
       (\<lambda>st. invalidate (todo_filter (selected st)) (emit (Toast_success ''Todo deleted successfully'') st))
       no_on_error st"

subsection \<open>Posts and comments: \<open>components/posts/PostsForm.tsx\<close>, \<open>PostsCard.tsx\<close>\<close>

text \<open>The \<open>invalidateQueries\<close> helper both components define.\<close>

definition post_invalidate :: "app_state \<Rightarrow> app_state" where
  "post_invalidate st =
     (let st' = invalidate [QStr ''posts''] st in
      case selected st of
        Some u \<Rightarrow> invalidate [QStr ''my-posts'', QNum (u_id u)] st'
      | None \<Rightarrow> st')"

text \<open>
  The forms' \<open>onError\<close>: the errors go to the form's fields in
  \<open>Object.entries\<close> order, a truthy
  \<open>general\<close> message to a toast.  When \<open>formatApiErrors\<close> raises, the rest of
  the callback does not run and the exception ends in the rejected promise
  \<open>mutate\<close> discards.
\<close>

definition form_on_error :: "thrown \<Rightarrow> app_state \<Rightarrow> app_state" where
  "form_on_error t st =
     (case formatApiErrors t of
        Inl _ \<Rightarrow> st
      | Inr fe \<Rightarrow>
          (let st' = emit (Set_fields (js_entries fe)) st in
           case general_toast fe of Some m \<Rightarrow> emit (Toast_error m) st' | None \<Rightarrow> st'))"

text \<open>The cards' delete callbacks: only the \<open>general\<close> message is shown.\<close>

definition toast_on_error :: "thrown \<Rightarrow> app_state \<Rightarrow> app_state" where
  "toast_on_error t st =
     (case formatApiErrors t of
        Inl _ \<Rightarrow> st
      | Inr fe \<Rightarrow> (case general_toast fe of Some m \<Rightarrow> emit (Toast_error m) st | None \<Rightarrow> st))"

definition post_form_success :: "string \<Rightarrow> app_state \<Rightarrow> app_state" where
  "post_form_success msg st = emit Submitted (post_invalidate (emit (Toast_success msg) st))"

definition createPostFn :: "user option \<Rightarrow> post_data \<Rightarrow> thrown + service_call" where
  "createPostFn s d =
     (case s of Some u \<Rightarrow> Inr (SC_createPost (u_id u) d) | None \<Rightarrow> Inl (Thrown_value ''No user selected''))"

definition PostForm_handleSubmit ::
  "post option \<Rightarrow> post_data \<Rightarrow> axios_error + unit \<Rightarrow> app_state \<Rightarrow> app_state" where
  "PostForm_handleSubmit initialData values resp st =
     (case initialData of
        Some p \<Rightarrow> run_mutation (Inr (SC_updatePost (p_id p) values)) resp
                   (post_form_success ''Post updated successfully'') form_on_error st
      | None \<Rightarrow> run_mutation (createPostFn (selected st) values) resp
                   (post_form_success ''Post created successfully'') form_on_error st)"

definition handleDeletePost :: "post \<Rightarrow> axios_error + unit \<Rightarrow> app_state \<Rightarrow> app_state" where
  "handleDeletePost p resp st =
     run_mutation (Inr (SC_deletePost (p_id p))) resp
       (\<lambda>st. post_invalidate (emit (Toast_success ''Post deleted successfully'') st))
       toast_on_error st"

definition comments_filter :: "post \<Rightarrow> qkey" where
  "comments_filter p = [QStr ''comments'', QNum (p_id p)]"

text \<open>\<open>createCommentMutation\<close>: on success the toast, \<open>commentForm.resetFields()\<close>
  and the invalidation of the post's comments.\<close>

definition createCommentMutation ::
  "post \<Rightarrow> js_id \<Rightarrow> string \<Rightarrow> string \<Rightarrow> string \<Rightarrow> axios_error + unit \<Rightarrow> app_state \<Rightarrow> app_state" where
  "createCommentMutation p postId name email body resp st =
     run_mutation (Inr (SC_createComment postId name email body)) resp
       (\<lambda>st. invalidate (comments_filter p) (emit Form_reset (emit (Toast_success ''Comment added successfully'') st)))
       form_on_error st"

definition handleAddComment :: "post \<Rightarrow> string \<Rightarrow> axios_error + unit \<Rightarrow> app_state \<Rightarrow> app_state" where
  "handleAddComment p body resp st =
     (case selected st of
        None \<Rightarrow> emit (Toast_error ''Please select a profile first'') st
      | Some u \<Rightarrow> createCommentMutation p (p_id p) (u_name u) (u_email u) body resp st)"

definition handleDeleteComment :: "post \<Rightarrow> js_id \<Rightarrow> axios_error + unit \<Rightarrow> app_state \<Rightarrow> app_state" where
  "handleDeleteComment p cid resp st =
     run_mutation (Inr (SC_deleteComment cid)) resp
       (\<lambda>st. invalidate (comments_filter p) (emit (Toast_success ''Comment deleted successfully'') st))
       toast_on_error st"

subsection \<open>Lemmas\<close>

lemmas handler_defs = UserForm_handleSubmit_def deleteUserMutation_def TodoForm_handleSubmit_def
  handleStatusChange_def deleteTodoMutation_def PostForm_handleSubmit_def handleDeletePost_def
  handleAddComment_def createCommentMutation_def handleDeleteComment_def

lemmas success_defs = user_form_success_def todo_form_success_def post_form_success_def

lemmas guard_defs = createTodoFn_def createPostFn_def

lemma on_error_fields [state_simps, simp]:
  "cache (form_on_error t st) = cache st" "selected (form_on_error t st) = selected st"
  "cache (toast_on_error t st) = cache st" "selected (toast_on_error t st) = selected st"
  by (simp_all add: form_on_error_def toast_on_error_def Let_def split: sum.splits option.splits)

lemma post_invalidate_fields [state_simps, simp]:
  "selected (post_invalidate st) = selected st" "effects (post_invalidate st) = effects st"
  by (simp_all add: post_invalidate_def Let_def split: option.splits)

lemma on_error_effects:
  "effects (form_on_error t st) = effects st @
     (case formatApiErrors t of
        Inl _ \<Rightarrow> []
      | Inr fe \<Rightarrow> Set_fields (js_entries fe) # (case general_toast fe of Some m \<Rightarrow> [Toast_error m] | None \<Rightarrow> []))"
  "effects (toast_on_error t st) = effects st @
     (case formatApiErrors t of
        Inl _ \<Rightarrow> []
      | Inr fe \<Rightarrow> (case general_toast fe of Some m \<Rightarrow> [Toast_error m] | None \<Rightarrow> []))"
  by (simp_all add: form_on_error_def toast_on_error_def Let_def split: sum.splits option.splits)

lemma next_todo_status_involutive: "next_todo_status (next_todo_status s) = s"
  by (cases s) (simp_all add: next_todo_status_def)

end
