(* ===== verification/Console.thy ===== *)
theory Console
  imports Mutations
begin

text \<open>
  The console as a state machine: an operator action (a submitted form, a
  confirmed delete, a click on "Set as Profile", a toggle, a resolved list
  query) and the response the API gives it move the shared state by the handler
  the component runs.  \<open>reachable\<close> is the set of states a session reaches from
  the empty cache with no profile.  \<open>affected\<close> is the spec's invalidation
  contract (section 4.1), stated on the list views: the key-spaces a successful
  mutation discards.
\<close>

datatype action =
    Submit_user_form "user option" user_form
  | Delete_user js_id
  | Set_as_profile user
  | Submit_todo_form "todo option" todo_data
  | Toggle_todo todo
  | Delete_todo todo
  | Submit_post_form "post option" post_data
  | Delete_post post
  | Add_comment post string
  | Delete_comment post js_id
  | Query_resolved view cached

fun step :: "app_state \<Rightarrow> action \<Rightarrow> axios_error + unit \<Rightarrow> app_state" where
  "step st (Submit_user_form i f) r = UserForm_handleSubmit i f r st"
| "step st (Delete_user i) r = deleteUserMutation i r st"
| "step st (Set_as_profile u) r = handleSetAsProfile u st"
| "step st (Submit_todo_form i d) r = TodoForm_handleSubmit i d r st"
| "step st (Toggle_todo t) r = handleStatusChange t r st"
| "step st (Delete_todo t) r = deleteTodoMutation t r st"
| "step st (Submit_post_form i d) r = PostForm_handleSubmit i d r st"
| "step st (Delete_post p) r = handleDeletePost p r st"
| "step st (Add_comment p b) r = handleAddComment p b r st"
| "step st (Delete_comment p c) r = handleDeleteComment p c r st"
| "step st (Query_resolved v x) r =
     (case r of
        Inr _ \<Rightarrow> if view_enabled v then st\<lparr>cache := query_resolve v x (cache st)\<rparr> else st
      | Inl _ \<Rightarrow> st)"

inductive reachable :: "app_state \<Rightarrow> bool" where
  init: "reachable init_state"
| step: "reachable st \<Longrightarrow> reachable (step st a r)"

primrec is_mutation :: "action \<Rightarrow> bool" where
  "is_mutation (Submit_user_form i f) = True"
| "is_mutation (Delete_user i) = True"
| "is_mutation (Set_as_profile u) = False"
| "is_mutation (Submit_todo_form i d) = True"
| "is_mutation (Toggle_todo t) = True"
| "is_mutation (Delete_todo t) = True"
| "is_mutation (Submit_post_form i d) = True"
| "is_mutation (Delete_post p) = True"
| "is_mutation (Add_comment p b) = True"
| "is_mutation (Delete_comment p c) = True"
| "is_mutation (Query_resolved v x) = False"

text \<open>Whether the handler gets past its guards to a request.\<close>

primrec issues_request :: "app_state \<Rightarrow> action \<Rightarrow> bool" where
  "issues_request st (Submit_user_form i f) = True"
| "issues_request st (Delete_user i) = True"
| "issues_request st (Set_as_profile u) = False"
| "issues_request st (Submit_todo_form i d) =
     (case i of
        Some _ \<Rightarrow> True
      | None \<Rightarrow> (case selected st of Some u \<Rightarrow> js_truthy_num (u_id u) | None \<Rightarrow> False))"
| "issues_request st (Toggle_todo t) = True"
| "issues_request st (Delete_todo t) = True"
| "issues_request st (Submit_post_form i d) = (case i of Some _ \<Rightarrow> True | None \<Rightarrow> selected st \<noteq> None)"
| "issues_request st (Delete_post p) = True"
| "issues_request st (Add_comment p b) = (selected st \<noteq> None)"
| "issues_request st (Delete_comment p c) = True"
| "issues_request st (Query_resolved v x) = False"

subsection \<open>The invalidation contract\<close>

definition users_space :: "view \<Rightarrow> bool" where
  "users_space v = (case v of Users_view _ _ \<Rightarrow> True | _ \<Rightarrow> False)"

definition todos_space :: "user option \<Rightarrow> view \<Rightarrow> bool" where
  "todos_space s v = (case v of Todos_view s' _ _ \<Rightarrow> opt_id_key s' = opt_id_key s | _ \<Rightarrow> False)"

definition posts_space :: "user option \<Rightarrow> view \<Rightarrow> bool" where
  "posts_space s v =
     (case v of
        All_posts_view _ _ \<Rightarrow> True
      | My_posts_view s' _ _ \<Rightarrow> s \<noteq> None \<and> opt_id_key s' = opt_id_key s
      | _ \<Rightarrow> False)"

definition comments_space :: "post \<Rightarrow> view \<Rightarrow> bool" where
  "comments_space p v = (case v of Comments_view pid _ \<Rightarrow> pid = p_id p | _ \<Rightarrow> False)"

fun affected :: "user option \<Rightarrow> action \<Rightarrow> view \<Rightarrow> bool" where
  "affected s (Submit_user_form i f) v = users_space v"
| "affected s (Delete_user i) v = users_space v"
| "affected s (Submit_todo_form i d) v = todos_space s v"
| "affected s (Toggle_todo t) v = todos_space s v"
| "affected s (Delete_todo t) v = todos_space s v"
| "affected s (Submit_post_form i d) v = posts_space s v"
| "affected s (Delete_post p) v = posts_space s v"
| "affected s (Add_comment p b) v = comments_space p v"
| "affected s (Delete_comment p c) v = comments_space p v"
| "affected s (Set_as_profile u) v = False"
| "affected s (Query_resolved w x) v = False"

subsection \<open>Well-formed cache keys\<close>

text \<open>
  The keys a list query can be cached under: the key of an enabled view.  A
  todo list is never keyed by an undefined or zero user id, because the query is
  disabled then.
\<close>

definition key_ok :: "qkey \<Rightarrow> bool" where
  "key_ok k =
     (case k of
        [QStr r, QNum _, QNum _] \<Rightarrow> r = ''users'' \<or> r = ''posts''
      | [QStr r, QNum i, QNum _, QNum _] \<Rightarrow> (r = ''todos'' \<and> i \<noteq> 0) \<or> r = ''my-posts''
      | [QStr r, QNum _] \<Rightarrow> r = ''comments''
      | _ \<Rightarrow> False)"

definition cache_inv :: "app_state \<Rightarrow> bool" where
  "cache_inv st \<longleftrightarrow> (\<forall>k y. cache st k = Some y \<longrightarrow> key_ok k)"

subsection \<open>Feedback on failures\<close>

text \<open>What a step appends to the effect log, and which handlers define \<open>onError\<close>.\<close>

definition new_effects :: "app_state \<Rightarrow> action \<Rightarrow> axios_error + unit \<Rightarrow> effect list" where
  "new_effects st a r = drop (length (effects st)) (effects (step st a r))"

primrec has_on_error :: "action \<Rightarrow> bool" where
  "has_on_error (Submit_user_form i f) = False"
| "has_on_error (Delete_user i) = False"
| "has_on_error (Set_as_profile u) = False"
| "has_on_error (Submit_todo_form i d) = False"
| "has_on_error (Toggle_todo t) = False"
| "has_on_error (Delete_todo t) = False"
| "has_on_error (Submit_post_form i d) = True"
| "has_on_error (Delete_post p) = True"
| "has_on_error (Add_comment p b) = True"
| "has_on_error (Delete_comment p c) = True"
| "has_on_error (Query_resolved v x) = False"

definition error_toast :: "effect \<Rightarrow> bool" where
  "error_toast e = (case e of Toast_error _ \<Rightarrow> True | _ \<Rightarrow> False)"

subsection \<open>Sample data for the witnesses\<close>

abbreviation sample_user :: user where
  "sample_user \<equiv> \<lparr>u_id = 3, u_name = ''Ann'', u_email = ''ann@example.com'', u_gender = Female,
                   u_status = Active\<rparr>"

abbreviation sample_post :: post where
  "sample_post \<equiv> \<lparr>p_id = 10, p_user_id = 3, p_title = ''Hello'', p_body = ''First post''\<rparr>"

abbreviation sample_page :: cached where
  "sample_page \<equiv> Posts_list \<lparr>rs_data = [], rs_total = Some ''0''\<rparr>"

subsection \<open>Lemmas\<close>

lemma invalidate_view:
  "invalidate_queries f c (view_key v) = (if partial_match (view_key v) f then None else c (view_key v))"
  by (simp add: invalidate_queries_def)

lemma match_users: "partial_match (view_key v) [QStr ''users''] = users_space v"
  by (cases v) (simp_all add: users_space_def)

lemma match_todos: "partial_match (view_key v) (todo_filter s) = todos_space s v"
  by (cases v) (simp_all add: todos_space_def todo_filter_def)

lemma match_comments: "partial_match (view_key v) (comments_filter p) = comments_space p v"
  by (cases v) (simp_all add: comments_space_def comments_filter_def)

lemma match_posts:
  "partial_match (view_key v) [QStr ''posts''] = (case v of All_posts_view _ _ \<Rightarrow> True | _ \<Rightarrow> False)"
  by (cases v) simp_all

lemma match_my_posts:
  "partial_match (view_key v) [QStr ''my-posts'', QNum i] =
     (case v of My_posts_view s _ _ \<Rightarrow> opt_id_key s = QNum i | _ \<Rightarrow> False)"
  by (cases v) simp_all

lemma post_invalidate_view:
  "cache (post_invalidate st) (view_key v) = (if posts_space (selected st) v then None else cache st (view_key v))"
proof (cases "selected st")
  case None
  then show ?thesis
    by (simp add: post_invalidate_def invalidate_view match_posts posts_space_def split: view.splits)
next
  case (Some u)
  then show ?thesis
    by (auto simp: post_invalidate_def invalidate_view match_posts match_my_posts posts_space_def
        opt_id_key_def split: view.splits)
qed

lemmas space_matches = match_users match_todos match_comments post_invalidate_view invalidate_view

lemma mutation_selected: "is_mutation a \<Longrightarrow> selected (step st a r) = selected st"
  by (cases a) (auto simp: handler_defs success_defs guard_defs run_mutation_def service_outcome_def
      split: option.splits sum.splits)

lemma step_selected:
  "selected (step st a r) = (case a of Set_as_profile u \<Rightarrow> selected (handleSetAsProfile u st) | _ \<Rightarrow> selected st)"
proof (cases "is_mutation a")
  case True
  then show ?thesis using mutation_selected [OF True] by (cases a) simp_all
next
  case False
  then show ?thesis by (cases a) (simp_all split: sum.splits)
qed

subsection \<open>Properties\<close>

text \<open>
  C1: a successful mutation discards exactly the key-spaces of the contract:
  every page of the users table after a user mutation, every page of the
  profile's todo list after a todo mutation, all posts and the profile's posts
  after a post mutation, the post's comments after a comment mutation; every
  other cached list keeps its entry.
\<close>

theorem mutation_success_invalidates:
  assumes "issues_request st a"
  shows "cache (step st a (Inr ())) (view_key v) =
           (if affected (selected st) a v then None else cache st (view_key v))"
  using assms
  by (cases a) (auto simp: handler_defs success_defs space_matches guard_defs
      split: option.splits if_splits)

text \<open>C2: a failed mutation leaves the whole cache as it was.\<close>

theorem mutation_failure_keeps_cache:
  assumes "is_mutation a"
  shows "cache (step st a (Inl e)) = cache st"
  using assms by (cases a) (auto simp: handler_defs guard_defs split: option.splits)

lemma key_ok_view: "view_enabled v \<Longrightarrow> key_ok (view_key v)"
  by (cases v) (auto simp: key_ok_def opt_id_key_def js_truthy_num_def split: option.splits)

lemma invalidate_queries_sub: "invalidate_queries f c k = Some y \<Longrightarrow> c k = Some y"
  by (simp add: invalidate_queries_def split: if_splits)

lemma post_invalidate_sub: "cache (post_invalidate st) k = Some y \<Longrightarrow> cache st k = Some y"
  by (auto simp: post_invalidate_def Let_def dest!: invalidate_queries_sub split: option.splits)

lemma mutation_cache_sub:
  "is_mutation a \<Longrightarrow> cache (step st a r) k = Some y \<Longrightarrow> cache st k = Some y"
  by (cases a) (auto simp: handler_defs success_defs guard_defs run_mutation_def service_outcome_def
      dest!: invalidate_queries_sub post_invalidate_sub split: option.splits sum.splits)

lemma step_cache_inv:
  assumes "cache_inv st"
  shows "cache_inv (step st a r)"
proof (cases "is_mutation a")
  case True
  with assms show ?thesis by (auto simp: cache_inv_def dest: mutation_cache_sub)
next
  case False
  with assms key_ok_view show ?thesis
    by (cases a) (auto simp: cache_inv_def query_resolve_def split: sum.splits)
qed

lemma reachable_cache_inv: "reachable st \<Longrightarrow> cache_inv st"
proof (induction rule: reachable.induct)
  case init
  show ?case by (simp add: cache_inv_def init_state_def)
next
  case (step st a r)
  from step.IH show ?case by (rule step_cache_inv)
qed

text \<open>C3: "Set as Profile" refuses an inactive user with an error toast and leaves
  the profile as it was; an active user becomes the profile at once, with a
  success toast; the cache is not touched either way.\<close>

theorem set_profile_behaviour:
  "selected (step st (Set_as_profile u) r) = (if u_status u = Active then Some u else selected st)
   \<and> cache (step st (Set_as_profile u) r) = cache st
   \<and> effects (step st (Set_as_profile u) r) = effects st @
       [if u_status u = Active then Toast_success (u_name u @ '' set as profile successfully'')
        else Toast_error ''Cannot set inactive user as profile'']"
  by (cases "u_status u") (simp_all add: handleSetAsProfile_def)

text \<open>C4: in every state a session reaches, the active profile, when there is
  one, is a user whose status (as the console holds it) is active.\<close>

theorem reachable_profile_active:
  assumes "reachable st" and "selected st = Some u"
  shows "u_status u = Active"
  using assms
proof (induction arbitrary: u rule: reachable.induct)
  case init
  then show ?case by (simp add: init_state_def)
next
  case (step st a r)
  have "selected (step st a r) =
          (case a of Set_as_profile v \<Rightarrow> selected (handleSetAsProfile v st) | _ \<Rightarrow> selected st)"
    by (rule step_selected)
  with step.prems step.IH show ?case
    by (cases a) (auto simp: handleSetAsProfile_selected simp del: step.simps split: if_splits)
qed

text \<open>C5: every list a session holds in its cache is keyed as an enabled view keys
  it; in particular no todo list is cached for a missing profile or a profile
  with id 0.\<close>

theorem reachable_cache_keys:
  assumes "reachable st" and "cache st k = Some y"
  shows "key_ok k"
  using reachable_cache_inv [OF assms(1)] assms(2) by (auto simp: cache_inv_def)

text \<open>
  C12: after a mutation's request fails, the operator sees an error toast
  exactly when the handler defines \<open>onError\<close>, the error normalises to a
  list, and that list carries a non-empty \<open>general\<close> message.  The user and
  todo handlers stay silent on every failure, and a non-array error body (such as
  \<open>{"message": ...}\<close>) silences the post and comment handlers too.
\<close>

theorem failure_feedback:
  assumes "is_mutation a" and "issues_request st a"
  shows "list_ex error_toast (new_effects st a (Inl e)) \<longleftrightarrow>
           has_on_error a \<and>
           (case formatApiErrors (handleApiError e) of Inl _ \<Rightarrow> False | Inr fe \<Rightarrow> general_toast fe \<noteq> None)"
  using assms
  by (cases a) (auto simp: new_effects_def handler_defs guard_defs error_toast_def on_error_effects
      split: option.splits sum.splits)

subsection \<open>Witnesses\<close>

theorem mutation_success_invalidates_witness:
  "issues_request (init_state\<lparr>cache := [view_key (All_posts_view 1 10) \<mapsto> sample_page]\<rparr>) (Delete_user 3)
   \<and> cache (step (init_state\<lparr>cache := [view_key (All_posts_view 1 10) \<mapsto> sample_page]\<rparr>) (Delete_user 3) (Inr ()))
       (view_key (All_posts_view 1 10)) = Some sample_page"
  using mutation_success_invalidates
    [of "init_state\<lparr>cache := [view_key (All_posts_view 1 10) \<mapsto> sample_page]\<rparr>" "Delete_user 3" "All_posts_view 1 10"]
  by (simp add: users_space_def)

theorem mutation_failure_keeps_cache_witness:
  "is_mutation (Delete_post sample_post)
   \<and> cache (step (init_state\<lparr>cache := [view_key (All_posts_view 1 10) \<mapsto> sample_page]\<rparr>)
        (Delete_post sample_post) (Inl No_response)) (view_key (All_posts_view 1 10)) = Some sample_page"
  using mutation_failure_keeps_cache
    [of "Delete_post sample_post" "init_state\<lparr>cache := [view_key (All_posts_view 1 10) \<mapsto> sample_page]\<rparr>" No_response]
  by simp

theorem reachable_profile_active_witness:
  "reachable (step init_state (Set_as_profile sample_user) (Inr ()))
   \<and> selected (step init_state (Set_as_profile sample_user) (Inr ())) = Some sample_user
   \<and> u_status sample_user = Active"
proof -
  have r: "reachable (step init_state (Set_as_profile sample_user) (Inr ()))"
    by (rule reachable.step [OF reachable.init])
  have s: "selected (step init_state (Set_as_profile sample_user) (Inr ())) = Some sample_user"
    by (simp add: handleSetAsProfile_def)
  show ?thesis using r s reachable_profile_active [OF r s] by simp
qed

theorem reachable_cache_keys_witness:
  "reachable (step init_state (Query_resolved (All_posts_view 1 10) sample_page) (Inr ()))
   \<and> cache (step init_state (Query_resolved (All_posts_view 1 10) sample_page) (Inr ()))
       [QStr ''posts'', QNum 1, QNum 10] = Some sample_page
   \<and> key_ok [QStr ''posts'', QNum 1, QNum 10]"
proof -
  have r: "reachable (step init_state (Query_resolved (All_posts_view 1 10) sample_page) (Inr ()))"
    by (rule reachable.step [OF reachable.init])
  have c: "cache (step init_state (Query_resolved (All_posts_view 1 10) sample_page) (Inr ()))
             [QStr ''posts'', QNum 1, QNum 10] = Some sample_page"
    by (simp add: query_resolve_def)
  show ?thesis using r c reachable_cache_keys [OF r c] by simp
qed

theorem failure_feedback_witness:
  "is_mutation (Delete_post sample_post) \<and> issues_request init_state (Delete_post sample_post)
   \<and> \<not> list_ex error_toast
        (new_effects init_state (Delete_post sample_post)
           (Inl (Response 404 (Data_value ''{\"message\":\"Resource not found\"}''))))"
  using failure_feedback [of "Delete_post sample_post" init_state
      "Response 404 (Data_value ''{\"message\":\"Resource not found\"}'')"]
  by simp

end
