(* ===== verification/Pages.thy ===== *)
theory Pages
  imports Console
begin

text \<open>
  The local React state of the list pages and of \<open>UserTable\<close>: page and page
  size, the open flags of the modals and the entity being edited.  Each page is
  a step function on the pair of its local state and the shared state of
  \<^theory_text>\<open>Console\<close>: a click changes the local state, a submitted form runs the
  console's handler, and the form's \<open>onSubmit\<close> prop, which closes the modal,
  runs exactly when the handler emitted \<^const>\<open>Submitted\<close>.  A form is only
  reachable while its modal is open; a button the page renders only under a
  condition is guarded by it.  Navigation between the pages is in
  \<^theory_text>\<open>Router\<close>, the confirmation dialogs of the delete buttons in \<^theory_text>\<open>Dialogs\<close>.
\<close>

definition submitted :: "app_state \<Rightarrow> action \<Rightarrow> axios_error + unit \<Rightarrow> bool" where
  "submitted st a r \<longleftrightarrow> Submitted \<in> set (new_effects st a r)"

subsection \<open>\<open>pages/users/index.tsx\<close>\<close>

record users_page =
  up_page :: js_id
  up_pageSize :: js_id
  up_isModalOpen :: bool

definition users_page_init :: users_page where
  "users_page_init = \<lparr>up_page = 1, up_pageSize = 10, up_isModalOpen = False\<rparr>"

definition users_page_view :: "users_page \<Rightarrow> view" where
  "users_page_view ps = Users_view (up_page ps) (up_pageSize ps)"

definition users_handlePageChange :: "users_page \<Rightarrow> js_id \<Rightarrow> js_id \<Rightarrow> users_page" where
  "users_handlePageChange ps newPage newPageSize = ps\<lparr>up_page := newPage, up_pageSize := newPageSize\<rparr>"

datatype users_page_event =
    UP_add_user
  | UP_cancel
  | UP_page_change js_id js_id
  | UP_submit user_form "axios_error + unit"

fun users_page_step :: "users_page \<times> app_state \<Rightarrow> users_page_event \<Rightarrow> users_page \<times> app_state" where
  "users_page_step (ps, st) UP_add_user = (ps\<lparr>up_isModalOpen := True\<rparr>, st)"
| "users_page_step (ps, st) UP_cancel = (ps\<lparr>up_isModalOpen := False\<rparr>, st)"
| "users_page_step (ps, st) (UP_page_change p n) = (users_handlePageChange ps p n, st)"
| "users_page_step (ps, st) (UP_submit f r) =
     (if \<not> up_isModalOpen ps then (ps, st)
      else (if submitted st (Submit_user_form None f) r then ps\<lparr>up_isModalOpen := False\<rparr> else ps,
            step st (Submit_user_form None f) r))"

subsection \<open>\<open>components/users/UserTable.tsx\<close>\<close>

record user_table =
  ut_editingUser :: "user option"
  ut_isModalOpen :: bool
  ut_fields :: "user_form option"

definition user_table_init :: user_table where
  "user_table_init = \<lparr>ut_editingUser = None, ut_isModalOpen = False, ut_fields = None\<rparr>"

text \<open>
  The fields of the edit form.  The modal has no \<open>destroyOnClose\<close>: its
  \<open>UserForm\<close> mounts when the modal first opens and stays mounted, and antd
  applies \<open>initialValues={initialData || {}}\<close> only at mount.  The form's
  fields are the user's name, e-mail, gender and status.
\<close>

definition user_form_of :: "user \<Rightarrow> user_form" where
  "user_form_of u = \<lparr>f_name = u_name u, f_email = u_email u, f_gender = u_gender u, f_status = u_status u\<rparr>"

text \<open>\<open>Modal.confirm\<close> of the delete button is taken as confirmed here (\<^theory_text>\<open>Dialogs\<close>
  models the dialog); \<open>UT_type\<close>
  is the operator changing the fields of the open form.\<close>

datatype user_table_event =
    UT_set_profile user
  | UT_edit user
  | UT_delete user "axios_error + unit"
  | UT_cancel
  | UT_type user_form
  | UT_submit "axios_error + unit"

fun user_table_step :: "user_table \<times> app_state \<Rightarrow> user_table_event \<Rightarrow> user_table \<times> app_state" where
  "user_table_step (t, st) (UT_set_profile u) =
     (if profile_button_disabled (selected st) u then (t, st) else (t, step st (Set_as_profile u) (Inr ())))"
| "user_table_step (t, st) (UT_edit u) =
     (t\<lparr>ut_editingUser := Some u, ut_isModalOpen := True,
        ut_fields := Some (case ut_fields t of None \<Rightarrow> user_form_of u | Some f \<Rightarrow> f)\<rparr>, st)"
| "user_table_step (t, st) (UT_delete u r) = (t, step st (Delete_user (u_id u)) r)"
| "user_table_step (t, st) UT_cancel = (t\<lparr>ut_isModalOpen := False, ut_editingUser := None\<rparr>, st)"
| "user_table_step (t, st) (UT_type f) = (if ut_isModalOpen t then (t\<lparr>ut_fields := Some f\<rparr>, st) else (t, st))"
| "user_table_step (t, st) (UT_submit r) =
     (case ut_fields t of
        None \<Rightarrow> (t, st)
      | Some f \<Rightarrow>
          if \<not> ut_isModalOpen t then (t, st)
          else (if submitted st (Submit_user_form (ut_editingUser t) f) r
                then t\<lparr>ut_isModalOpen := False, ut_editingUser := None\<rparr> else t,
                step st (Submit_user_form (ut_editingUser t) f) r))"

subsection \<open>\<open>pages/todos/index.tsx\<close>\<close>

record todos_page =
  tp_isModalOpen :: bool
  tp_isCreateModalOpen :: bool
  tp_editingTodo :: "todo option"
  tp_page :: js_id
  tp_pageSize :: js_id

text \<open>
  The page's state hooks, and the \<open>useEffect\<close> on \<open>[selectedUser]\<close> at mount:
  nothing on the page changes the profile, so the effect runs only then.
\<close>

definition todos_page_mount :: "app_state \<Rightarrow> todos_page" where
  "todos_page_mount st =
     (let ps = \<lparr>tp_isModalOpen = False, tp_isCreateModalOpen = False, tp_editingTodo = None,
                tp_page = 1, tp_pageSize = 10\<rparr>
      in if selected st = None then ps\<lparr>tp_isModalOpen := True\<rparr> else ps)"

definition todos_page_view :: "todos_page \<Rightarrow> app_state \<Rightarrow> view" where
  "todos_page_view ps st = Todos_view (selected st) (tp_page ps) (tp_pageSize ps)"

definition todos_handlePageChange :: "todos_page \<Rightarrow> js_id \<Rightarrow> js_id \<Rightarrow> todos_page" where
  "todos_handlePageChange ps p n = ps\<lparr>tp_page := p, tp_pageSize := n\<rparr>"

datatype todos_page_event =
    TP_redirect
  | TP_add_todo
  | TP_toggle todo "axios_error + unit"
  | TP_edit todo
  | TP_delete todo "axios_error + unit"
  | TP_page_change js_id js_id
  | TP_cancel
  | TP_submit todo_data "axios_error + unit"

fun todos_page_step :: "todos_page \<times> app_state \<Rightarrow> todos_page_event \<Rightarrow> todos_page \<times> app_state" where
  "todos_page_step (ps, st) TP_redirect = (ps\<lparr>tp_isModalOpen := False\<rparr>, st)"
| "todos_page_step (ps, st) TP_add_todo =
     (if selected st = None then (ps, st) else (ps\<lparr>tp_isCreateModalOpen := True\<rparr>, st))"
| "todos_page_step (ps, st) (TP_toggle t r) = (ps, step st (Toggle_todo t) r)"
| "todos_page_step (ps, st) (TP_edit t) = (ps\<lparr>tp_editingTodo := Some t, tp_isCreateModalOpen := True\<rparr>, st)"
| "todos_page_step (ps, st) (TP_delete t r) = (ps, step st (Delete_todo t) r)"
| "todos_page_step (ps, st) (TP_page_change p n) = (todos_handlePageChange ps p n, st)"
| "todos_page_step (ps, st) TP_cancel = (ps\<lparr>tp_isCreateModalOpen := False, tp_editingTodo := None\<rparr>, st)"
| "todos_page_step (ps, st) (TP_submit d r) =
     (if \<not> tp_isCreateModalOpen ps then (ps, st)
      else (if submitted st (Submit_todo_form (tp_editingTodo ps) d) r
            then ps\<lparr>tp_isCreateModalOpen := False, tp_editingTodo := None\<rparr> else ps,
            step st (Submit_todo_form (tp_editingTodo ps) d) r))"

subsection \<open>\<open>components/posts/PostsCard.tsx\<close>\<close>

text \<open>
  A card's own state is \<open>showComments\<close>, which enables its comments query.
  The edit and delete buttons are rendered only for \<open>isOwner\<close>, the delete
  button of a comment only for the profile's own comments, and the comment form
  only while the comments are shown (its submit button is disabled without a
  profile).  The edit button calls the page's \<open>onEdit\<close>, modelled on the page.
\<close>

record post_card =
  pc_showComments :: bool

definition post_card_view :: "post \<Rightarrow> post_card \<Rightarrow> view" where
  "post_card_view p pc = Comments_view (p_id p) (pc_showComments pc)"

datatype post_card_event =
    PC_toggle_comments
  | PC_delete "axios_error + unit"
  | PC_add_comment string "axios_error + unit"
  | PC_delete_comment comment "axios_error + unit"

fun post_card_step ::
  "post \<Rightarrow> bool \<Rightarrow> post_card \<times> app_state \<Rightarrow> post_card_event \<Rightarrow> post_card \<times> app_state" where
  "post_card_step p owner (pc, st) PC_toggle_comments = (pc\<lparr>pc_showComments := \<not> pc_showComments pc\<rparr>, st)"
| "post_card_step p owner (pc, st) (PC_delete r) =
     (if owner then (pc, step st (Delete_post p) r) else (pc, st))"
| "post_card_step p owner (pc, st) (PC_add_comment body r) =
     (if pc_showComments pc \<and> selected st \<noteq> None then (pc, step st (Add_comment p body) r) else (pc, st))"
| "post_card_step p owner (pc, st) (PC_delete_comment c r) =
     (if pc_showComments pc \<and> isUserComment (selected st) c
      then (pc, step st (Delete_comment p (c_id c)) r) else (pc, st))"

subsection \<open>\<open>pages/posts/all.tsx\<close>\<close>

record all_posts_page =
  ap_isCreateModalOpen :: bool
  ap_isEditModalOpen :: bool
  ap_editingPost :: "post option"
  ap_page :: js_id
  ap_pageSize :: js_id

definition all_posts_init :: all_posts_page where
  "all_posts_init =
     \<lparr>ap_isCreateModalOpen = False, ap_isEditModalOpen = False, ap_editingPost = None,
      ap_page = 1, ap_pageSize = 10\<rparr>"

definition all_posts_view :: "all_posts_page \<Rightarrow> view" where
  "all_posts_view ps = All_posts_view (ap_page ps) (ap_pageSize ps)"

definition all_posts_handlePageChange :: "all_posts_page \<Rightarrow> js_id \<Rightarrow> js_id \<Rightarrow> all_posts_page" where
  "all_posts_handlePageChange ps newPage newPageSize = ps\<lparr>ap_page := newPage, ap_pageSize := newPageSize\<rparr>"

definition all_posts_handleEditPost :: "all_posts_page \<Rightarrow> post \<Rightarrow> all_posts_page" where
  "all_posts_handleEditPost ps post = ps\<lparr>ap_editingPost := Some post, ap_isEditModalOpen := True\<rparr>"

datatype posts_page_event =
    PP_create_post
  | PP_edit post
  | PP_card post post_card_event
  | PP_page_change js_id js_id
  | PP_cancel_create
  | PP_submit_create post_data "axios_error + unit"
  | PP_cancel_edit
  | PP_submit_edit post_data "axios_error + unit"

text \<open>The cards are keyed by post; the map holds each card's state.\<close>

fun all_posts_step ::
  "all_posts_page \<times> (js_id \<Rightarrow> post_card) \<times> app_state \<Rightarrow> posts_page_event
   \<Rightarrow> all_posts_page \<times> (js_id \<Rightarrow> post_card) \<times> app_state" where
  "all_posts_step (ps, cs, st) PP_create_post =
     (if selected st = None then (ps, cs, st) else (ps\<lparr>ap_isCreateModalOpen := True\<rparr>, cs, st))"
| "all_posts_step (ps, cs, st) (PP_edit p) =
     (if isOwner (selected st) p then (all_posts_handleEditPost ps p, cs, st) else (ps, cs, st))"
| "all_posts_step (ps, cs, st) (PP_card p e) =
     (let (pc, st') = post_card_step p (isOwner (selected st) p) (cs (p_id p), st) e
      in (ps, cs(p_id p := pc), st'))"
| "all_posts_step (ps, cs, st) (PP_page_change p n) = (all_posts_handlePageChange ps p n, cs, st)"
| "all_posts_step (ps, cs, st) PP_cancel_create = (ps\<lparr>ap_isCreateModalOpen := False\<rparr>, cs, st)"
| "all_posts_step (ps, cs, st) (PP_submit_create d r) =
     (if \<not> ap_isCreateModalOpen ps then (ps, cs, st)
      else (if submitted st (Submit_post_form None d) r then ps\<lparr>ap_isCreateModalOpen := False\<rparr> else ps,
            cs, step st (Submit_post_form None d) r))"
| "all_posts_step (ps, cs, st) PP_cancel_edit =
     (ps\<lparr>ap_isEditModalOpen := False, ap_editingPost := None\<rparr>, cs, st)"
| "all_posts_step (ps, cs, st) (PP_submit_edit d r) =
     (if \<not> ap_isEditModalOpen ps then (ps, cs, st)
      else (if submitted st (Submit_post_form (ap_editingPost ps) d) r
            then ps\<lparr>ap_isEditModalOpen := False, ap_editingPost := None\<rparr> else ps,
            cs, step st (Submit_post_form (ap_editingPost ps) d) r))"

subsection \<open>\<open>pages/posts/my.tsx\<close>\<close>

record my_posts_page =
  mp_isCreateModalOpen :: bool
  mp_isEditModalOpen :: bool
  mp_editingPost :: "post option"
  mp_isRedirectModalOpen :: bool
  mp_page :: js_id
  mp_pageSize :: js_id

text \<open>The \<open>useEffect\<close> on \<open>[selectedUser, isRedirectModalOpen]\<close> at mount.\<close>

definition my_posts_mount :: "app_state \<Rightarrow> my_posts_page" where
  "my_posts_mount st =
     (let ps = \<lparr>mp_isCreateModalOpen = False, mp_isEditModalOpen = False, mp_editingPost = None,
                mp_isRedirectModalOpen = False, mp_page = 1, mp_pageSize = 10\<rparr>
      in if selected st = None \<and> \<not> mp_isRedirectModalOpen ps then ps\<lparr>mp_isRedirectModalOpen := True\<rparr> else ps)"

definition my_posts_view :: "my_posts_page \<Rightarrow> app_state \<Rightarrow> view" where
  "my_posts_view ps st = My_posts_view (selected st) (mp_page ps) (mp_pageSize ps)"

definition my_posts_handlePageChange :: "my_posts_page \<Rightarrow> js_id \<Rightarrow> js_id \<Rightarrow> my_posts_page" where
  "my_posts_handlePageChange ps newPage newPageSize = ps\<lparr>mp_page := newPage, mp_pageSize := newPageSize\<rparr>"

definition my_posts_handleEditPost :: "my_posts_page \<Rightarrow> post \<Rightarrow> my_posts_page" where
  "my_posts_handleEditPost ps post = ps\<lparr>mp_editingPost := Some post, mp_isEditModalOpen := True\<rparr>"

text \<open>Without a profile the page renders only the redirect modal; every card is the owner's.\<close>

fun my_posts_step ::
  "my_posts_page \<times> (js_id \<Rightarrow> post_card) \<times> app_state \<Rightarrow> posts_page_event
   \<Rightarrow> my_posts_page \<times> (js_id \<Rightarrow> post_card) \<times> app_state" where
  "my_posts_step (ps, cs, st) e =
     (if selected st = None then (ps, cs, st)
      else case e of
        PP_create_post \<Rightarrow> (ps\<lparr>mp_isCreateModalOpen := True\<rparr>, cs, st)
      | PP_edit p \<Rightarrow> (my_posts_handleEditPost ps p, cs, st)
      | PP_card p ce \<Rightarrow>
          (let (pc, st') = post_card_step p True (cs (p_id p), st) ce in (ps, cs(p_id p := pc), st'))
      | PP_page_change p n \<Rightarrow> (my_posts_handlePageChange ps p n, cs, st)
      | PP_cancel_create \<Rightarrow> (ps\<lparr>mp_isCreateModalOpen := False\<rparr>, cs, st)
      | PP_submit_create d r \<Rightarrow>
          (if \<not> mp_isCreateModalOpen ps then (ps, cs, st)
           else (if submitted st (Submit_post_form None d) r then ps\<lparr>mp_isCreateModalOpen := False\<rparr> else ps,
                 cs, step st (Submit_post_form None d) r))
      | PP_cancel_edit \<Rightarrow> (ps\<lparr>mp_isEditModalOpen := False, mp_editingPost := None\<rparr>, cs, st)
      | PP_submit_edit d r \<Rightarrow>
          (if \<not> mp_isEditModalOpen ps then (ps, cs, st)
           else (if submitted st (Submit_post_form (mp_editingPost ps) d) r
                 then ps\<lparr>mp_isEditModalOpen := False, mp_editingPost := None\<rparr> else ps,
                 cs, step st (Submit_post_form (mp_editingPost ps) d) r)))"

subsection \<open>Consistency of the edit modals\<close>

definition user_table_inv :: "user_table \<Rightarrow> bool" where
  "user_table_inv t \<longleftrightarrow> (ut_isModalOpen t \<longleftrightarrow> ut_editingUser t \<noteq> None)"

definition todos_page_inv :: "todos_page \<Rightarrow> bool" where
  "todos_page_inv ps \<longleftrightarrow> (tp_editingTodo ps \<noteq> None \<longrightarrow> tp_isCreateModalOpen ps)"

definition all_posts_inv :: "all_posts_page \<Rightarrow> bool" where
  "all_posts_inv ps \<longleftrightarrow> (ap_isEditModalOpen ps \<longleftrightarrow> ap_editingPost ps \<noteq> None)"

definition my_posts_inv :: "my_posts_page \<Rightarrow> bool" where
  "my_posts_inv ps \<longleftrightarrow> (mp_isEditModalOpen ps \<longleftrightarrow> mp_editingPost ps \<noteq> None)"

subsection \<open>The first user edited since mount\<close>

primrec first_edit :: "user_table_event list \<Rightarrow> user option" where
  "first_edit [] = None"
| "first_edit (e # es) = (case e of UT_edit u \<Rightarrow> Some u | _ \<Rightarrow> first_edit es)"

primrec is_typing :: "user_table_event \<Rightarrow> bool" where
  "is_typing (UT_set_profile u) = False"
| "is_typing (UT_edit u) = False"
| "is_typing (UT_delete u r) = False"
| "is_typing UT_cancel = False"
| "is_typing (UT_type f) = True"
| "is_typing (UT_submit r) = False"

subsection \<open>Lemmas\<close>

lemma submitted_user_form [simp]: "submitted st (Submit_user_form i f) r \<longleftrightarrow> r = Inr ()"
  by (cases r) (auto simp: submitted_def new_effects_def UserForm_handleSubmit_def user_form_success_def
      split: option.splits)

lemma submitted_todo_form [simp]:
  "submitted st (Submit_todo_form i d) r \<longleftrightarrow>
     r = Inr () \<and> (i \<noteq> None \<or> (\<exists>u. selected st = Some u \<and> js_truthy_num (u_id u)))"
  by (cases r) (auto simp: submitted_def new_effects_def TodoForm_handleSubmit_def todo_form_success_def
      createTodoFn_def split: option.splits)

lemma submitted_post_form [simp]:
  "submitted st (Submit_post_form i d) r \<longleftrightarrow> r = Inr () \<and> (i \<noteq> None \<or> selected st \<noteq> None)"
  by (cases r) (auto simp: submitted_def new_effects_def PostForm_handleSubmit_def post_form_success_def
      createPostFn_def on_error_effects split: option.splits sum.splits)

lemma user_table_step_inv:
  "user_table_inv (fst x) \<Longrightarrow> user_table_inv (fst (user_table_step x e))"
  by (cases x; cases e) (simp_all add: user_table_inv_def split: option.splits)

lemma todos_page_step_inv:
  "todos_page_inv (fst x) \<Longrightarrow> todos_page_inv (fst (todos_page_step x e))"
  by (cases x; cases e) (auto simp: todos_page_inv_def todos_handlePageChange_def)

lemma all_posts_step_inv:
  "all_posts_inv (fst x) \<Longrightarrow> all_posts_inv (fst (all_posts_step x e))"
  by (cases x; cases e) (simp_all add: all_posts_inv_def all_posts_handleEditPost_def
      all_posts_handlePageChange_def case_prod_beta)

lemma my_posts_step_inv:
  "my_posts_inv (fst x) \<Longrightarrow> my_posts_inv (fst (my_posts_step x e))"
  by (cases x; cases e) (simp_all add: my_posts_inv_def my_posts_handleEditPost_def
      my_posts_handlePageChange_def case_prod_beta)

lemma foldl_inv:
  assumes "\<And>x e. I x \<Longrightarrow> I (g x e)" and "I x"
  shows "I (foldl g x es)"
  using assms(2) by (induction es arbitrary: x) (simp_all add: assms(1))

text \<open>
  C21: along every sequence of clicks and responses from mount, the edit modal
  of the user table, the all-posts page and the my-posts page is open exactly
  when an entity is being edited, and the todos page never holds an edited todo
  with its modal closed.
\<close>

theorem edit_modals_consistent:
  "user_table_inv (fst (foldl user_table_step (user_table_init, st) es1))
   \<and> todos_page_inv (fst (foldl todos_page_step (todos_page_mount st, st) es2))
   \<and> all_posts_inv (fst (foldl all_posts_step (all_posts_init, cs, st) es3))
   \<and> my_posts_inv (fst (foldl my_posts_step (my_posts_mount st, cs, st) es3))"
proof (intro conjI)
  show "user_table_inv (fst (foldl user_table_step (user_table_init, st) es1))"
    by (rule foldl_inv [where I = "\<lambda>x. user_table_inv (fst x)"])
      (erule user_table_step_inv, simp add: user_table_init_def user_table_inv_def)
  show "todos_page_inv (fst (foldl todos_page_step (todos_page_mount st, st) es2))"
    by (rule foldl_inv [where I = "\<lambda>x. todos_page_inv (fst x)"])
      (erule todos_page_step_inv, simp add: todos_page_mount_def todos_page_inv_def Let_def)
  show "all_posts_inv (fst (foldl all_posts_step (all_posts_init, cs, st) es3))"
    by (rule foldl_inv [where I = "\<lambda>x. all_posts_inv (fst x)"])
      (erule all_posts_step_inv, simp add: all_posts_init_def all_posts_inv_def)
  show "my_posts_inv (fst (foldl my_posts_step (my_posts_mount st, cs, st) es3))"
    by (rule foldl_inv [where I = "\<lambda>x. my_posts_inv (fst x)"])
      (erule my_posts_step_inv, simp add: my_posts_mount_def my_posts_inv_def Let_def)
qed

lemma todo_form_no_error_toast:
  "Toast_error m \<notin> set (new_effects st (Submit_todo_form i d) r)"
  by (cases r) (auto simp: new_effects_def TodoForm_handleSubmit_def todo_form_success_def createTodoFn_def
      split: option.splits)

subsection \<open>Properties\<close>

text \<open>
  C16: submitting the todo modal closes it (and clears the edited todo) exactly
  when the request succeeded and got past the guard: an edit, or a create for a
  profile with a non-zero id.  Otherwise the modal stays open, and no error
  toast ever appears, whatever the failure.
\<close>

theorem todos_form_modal:
  assumes "tp_isCreateModalOpen ps"
  shows "(tp_isCreateModalOpen (fst (todos_page_step (ps, st) (TP_submit d r))) \<longleftrightarrow>
           \<not> (r = Inr () \<and> (tp_editingTodo ps \<noteq> None \<or> (\<exists>u. selected st = Some u \<and> u_id u \<noteq> 0))))
         \<and> snd (todos_page_step (ps, st) (TP_submit d r)) = step st (Submit_todo_form (tp_editingTodo ps) d) r
         \<and> Toast_error m \<notin> set (new_effects st (Submit_todo_form (tp_editingTodo ps) d) r)"
  using assms by (simp add: todo_form_no_error_toast js_truthy_num_def)

text \<open>
  C17: on the all-posts page the create modal closes after a submit exactly
  when a profile is set and the request succeeded; the edit modal closes and
  forgets the post exactly when the update succeeded, and the update is sent for
  the post whose edit button was clicked.
\<close>

theorem posts_form_modals:
  assumes "ap_isCreateModalOpen ps" and "ap_isEditModalOpen ps'" and "ap_editingPost ps' = Some p"
  shows "(ap_isCreateModalOpen (fst (all_posts_step (ps, cs, st) (PP_submit_create d r))) \<longleftrightarrow>
           \<not> (r = Inr () \<and> selected st \<noteq> None))
         \<and> (fst (all_posts_step (ps', cs, st) (PP_submit_edit d r)) =
              (if r = Inr () then ps'\<lparr>ap_isEditModalOpen := False, ap_editingPost := None\<rparr> else ps'))
         \<and> snd (snd (all_posts_step (ps', cs, st) (PP_submit_edit d r))) = step st (Submit_post_form (Some p) d) r"
  using assms by simp

theorem todos_form_modal_witness:
  "tp_isCreateModalOpen
     (fst (todos_page_step
        ((todos_page_mount (init_state\<lparr>selected := Some (sample_user\<lparr>u_id := 0\<rparr>)\<rparr>))\<lparr>tp_isCreateModalOpen := True\<rparr>,
         init_state\<lparr>selected := Some (sample_user\<lparr>u_id := 0\<rparr>)\<rparr>)
        (TP_submit \<lparr>d_title = ''Write'', d_due_on = ''2025-01-31'', d_status = ''pending''\<rparr> (Inr ()))))"
  using todos_form_modal
    [of "(todos_page_mount (init_state\<lparr>selected := Some (sample_user\<lparr>u_id := 0\<rparr>)\<rparr>))\<lparr>tp_isCreateModalOpen := True\<rparr>"
        "init_state\<lparr>selected := Some (sample_user\<lparr>u_id := 0\<rparr>)\<rparr>"
        "\<lparr>d_title = ''Write'', d_due_on = ''2025-01-31'', d_status = ''pending''\<rparr>" "Inr ()" "''x''"]
  by (simp add: todos_page_mount_def Let_def js_truthy_num_def)

theorem posts_form_modals_witness:
  "ap_isCreateModalOpen
     (fst (all_posts_step (all_posts_init\<lparr>ap_isCreateModalOpen := True\<rparr>, \<lambda>_. \<lparr>pc_showComments = False\<rparr>, init_state)
        (PP_submit_create \<lparr>pd_title = ''T'', pd_body = ''B''\<rparr> (Inr ()))))
   \<and> ap_editingPost
       (fst (all_posts_step (all_posts_handleEditPost all_posts_init sample_post, \<lambda>_. \<lparr>pc_showComments = False\<rparr>,
          init_state) (PP_submit_edit \<lparr>pd_title = ''T'', pd_body = ''B''\<rparr> (Inr ())))) = None"
  using posts_form_modals
    [of "all_posts_init\<lparr>ap_isCreateModalOpen := True\<rparr>" "all_posts_handleEditPost all_posts_init sample_post"
        sample_post "\<lambda>_. \<lparr>pc_showComments = False\<rparr>" init_state "\<lparr>pd_title = ''T'', pd_body = ''B''\<rparr>" "Inr ()"]
  by (simp add: all_posts_init_def all_posts_handleEditPost_def init_state_def)

theorem edit_modals_consistent_witness:
  "ut_isModalOpen (fst (foldl user_table_step (user_table_init, init_state) [UT_edit sample_user]))
   \<and> \<not> tp_isCreateModalOpen (fst (foldl todos_page_step (todos_page_mount init_state, init_state) []))
   \<and> ap_editingPost (fst (foldl all_posts_step (all_posts_init, \<lambda>_. \<lparr>pc_showComments = False\<rparr>, init_state)
        [PP_cancel_edit])) = None"
proof -
  note inv = edit_modals_consistent [of init_state "[UT_edit sample_user]" "[]"
      "\<lambda>_. \<lparr>pc_showComments = False\<rparr>" "[PP_cancel_edit]"]
  have "ut_editingUser (fst (foldl user_table_step (user_table_init, init_state) [UT_edit sample_user])) \<noteq> None"
    by simp
  with inv show ?thesis
    by (simp add: user_table_inv_def all_posts_inv_def todos_page_mount_def Let_def)
qed

lemma user_table_fields:
  "\<forall>e\<in>set es. \<not> is_typing e \<Longrightarrow>
   ut_fields (fst (foldl user_table_step x es)) =
     (case ut_fields (fst x) of Some f \<Rightarrow> Some f | None \<Rightarrow> map_option user_form_of (first_edit es))"
proof (induction es arbitrary: x)
  case (Cons e es)
  obtain t st where x: "x = (t, st)" by (cases x)
  from Cons show ?case
    by (cases e) (auto simp: x split: option.splits)
qed (simp split: option.splits)

text \<open>
  C18: the user table's edit form keeps the values of the first user edited
  since the page mounted: as long as the operator types nothing, the fields hold
  that user's name, e-mail, gender and status.  Editing user \<open>a\<close>, cancelling,
  then editing user \<open>b\<close> and pressing Update sends \<open>PUT /users/{b}\<close> with the
  data of \<open>a\<close>.
\<close>

theorem stale_user_form:
  assumes "\<forall>e\<in>set es. \<not> is_typing e"
  shows "ut_fields (fst (foldl user_table_step (user_table_init, st) es)) = map_option user_form_of (first_edit es)
         \<and> snd (foldl user_table_step (user_table_init, st) [UT_edit a, UT_cancel, UT_edit b, UT_submit r]) =
             step st (Submit_user_form (Some b) (user_form_of a)) r"
  using assms by (simp add: user_table_fields user_table_init_def)

theorem stale_user_form_witness:
  "ut_fields (fst (foldl user_table_step (user_table_init, init_state)
      [UT_edit sample_user, UT_cancel, UT_edit (sample_user\<lparr>u_id := 4, u_name := ''Bo''\<rparr>), UT_submit (Inr ())]))
     = Some (user_form_of sample_user)
   \<and> snd (foldl user_table_step (user_table_init, init_state)
      [UT_edit sample_user, UT_cancel, UT_edit (sample_user\<lparr>u_id := 4, u_name := ''Bo''\<rparr>), UT_submit (Inr ())])
     = step init_state (Submit_user_form (Some (sample_user\<lparr>u_id := 4, u_name := ''Bo''\<rparr>)) (user_form_of sample_user))
         (Inr ())"
  using stale_user_form
    [of "[UT_edit sample_user, UT_cancel, UT_edit (sample_user\<lparr>u_id := 4, u_name := ''Bo''\<rparr>), UT_submit (Inr ())]"
        init_state sample_user "sample_user\<lparr>u_id := 4, u_name := ''Bo''\<rparr>" "Inr ()"]
  by simp

end
