(* ===== verification/Render.thy ===== *)
theory Render
  imports Pages
begin

text \<open>
  What the user table and the post cards render from the data and the active
  profile: the cells of \<open>UserTable.tsx\<close>'s columns, the tooltip, label and
  \<open>disabled\<close> flag of the "Set as Profile" button, and the action buttons,
  comment rows and comment form of \<open>PostsCard.tsx\<close>, and the table's columns at
  a window width.  Layout and styling classes other than the status colour and
  the responsive breakpoints are not modelled.
\<close>

subsection \<open>\<open>UserTable\<close> columns\<close>

text \<open>\<open>text.charAt(0).toUpperCase() + text.slice(1)\<close>.\<close>

definition capitalize :: "string \<Rightarrow> string" where
  "capitalize text = (case text of [] \<Rightarrow> [] | c # cs \<Rightarrow> js_upper_char c # cs)"

definition gender_cell :: "user \<Rightarrow> string" where
  "gender_cell record = capitalize (gender_str (u_gender record))"

datatype status_colour = Text_green_600 | Text_red_600

definition status_cell :: "user \<Rightarrow> string \<times> status_colour" where
  "status_cell record =
     (capitalize (user_status_str (u_status record)),
      if user_status_str (u_status record) = ''active'' then Text_green_600 else Text_red_600)"

text \<open>The name cell: the "Current Profile" icon, then the name.\<close>

definition name_cell :: "user option \<Rightarrow> user \<Rightarrow> bool \<times> string" where
  "name_cell selectedUser record = (map_option u_id selectedUser = Some (u_id record), u_name record)"

definition profile_tooltip :: "user option \<Rightarrow> user \<Rightarrow> string" where
  "profile_tooltip selectedUser record =
     (if u_status record = Inactive then ''Cannot set inactive user as profile''
      else if map_option u_id selectedUser = Some (u_id record) then ''Current profile''
      else ''Set as profile'')"

definition profile_button_label :: "user option \<Rightarrow> user \<Rightarrow> string" where
  "profile_button_label selectedUser record =
     (if map_option u_id selectedUser = Some (u_id record) then ''Current Profile'' else ''Set as Profile'')"

subsection \<open>\<open>PostsCard\<close>\<close>

datatype card_action = Comments_button | Edit_button | Delete_button

text \<open>\<open>[Comments, isOwner && Edit, isOwner && Delete].filter(Boolean)\<close>.\<close>

definition card_actions :: "bool \<Rightarrow> card_action list" where
  "card_actions owner =
     filter (\<lambda>a. a = Comments_button \<or> owner) [Comments_button, Edit_button, Delete_button]"

record comment_row =
  cr_name :: string
  cr_you_tag :: bool
  cr_delete_button :: bool
  cr_email :: string
  cr_body :: string

definition render_comment :: "user option \<Rightarrow> comment \<Rightarrow> comment_row" where
  "render_comment selectedUser c =
     \<lparr>cr_name = c_name c, cr_you_tag = isUserComment selectedUser c,
      cr_delete_button = isUserComment selectedUser c, cr_email = c_email c, cr_body = c_body c\<rparr>"

text \<open>The comment form: \<open>disabled={!selectedUser}\<close> on the text area and the
  button, and the help text without a profile.\<close>

definition comment_form_disabled :: "user option \<Rightarrow> bool" where
  "comment_form_disabled selectedUser = (selectedUser = None)"

definition comment_form_help :: "user option \<Rightarrow> string option" where
  "comment_form_help selectedUser = (if selectedUser = None then Some ''Select a profile to comment'' else None)"

text \<open>The card body while the comments are shown: the form, then one row per comment.\<close>

definition render_comments :: "user option \<Rightarrow> post_card \<Rightarrow> comment list \<Rightarrow> comment_row list option" where
  "render_comments selectedUser pc comments =
     (if pc_showComments pc then Some (map (render_comment selectedUser) comments) else None)"

subsection \<open>Responsive columns\<close>

text \<open>The columns of the user table at a window width: antd shows a column with
  \<open>responsive\<close> breakpoints from the first of them (\<open>sm\<close> from 576, \<open>md\<close> from
  768, \<open>lg\<close> from 992 pixels); Name and Actions have none.  The profile button's
  label has the Tailwind classes \<open>hidden sm:inline\<close> (from 640 pixels).\<close>

datatype user_column = Name_col | Email_col | Gender_col | Status_col | Actions_col

definition column_min_width :: "user_column \<Rightarrow> nat" where
  "column_min_width c =
     (case c of Email_col \<Rightarrow> 768 | Gender_col \<Rightarrow> 992 | Status_col \<Rightarrow> 576 | _ \<Rightarrow> 0)"

definition visible_columns :: "nat \<Rightarrow> user_column list" where
  "visible_columns innerWidth =
     filter (\<lambda>c. column_min_width c \<le> innerWidth) [Name_col, Email_col, Gender_col, Status_col, Actions_col]"

definition profile_label_visible :: "nat \<Rightarrow> bool" where
  "profile_label_visible innerWidth \<longleftrightarrow> 640 \<le> innerWidth"

subsection \<open>Lemmas\<close>

lemma gender_cell_cases: "gender_cell r = (case u_gender r of Male \<Rightarrow> ''Male'' | Female \<Rightarrow> ''Female'')"
  by (cases "u_gender r") (simp add: gender_cell_def capitalize_def js_upper_char_def, code_simp)+

lemma status_cell_cases:
  "status_cell r = (case u_status r of Active \<Rightarrow> (''Active'', Text_green_600) | Inactive \<Rightarrow> (''Inactive'', Text_red_600))"
  by (cases "u_status r") (simp add: status_cell_def capitalize_def js_upper_char_def, code_simp)+

subsection \<open>Properties\<close>

text \<open>
  C22: what the user table and the post cards show agrees with what their
  buttons do.  The profile button's tooltip reads "Set as profile" exactly when
  the button is enabled, and its label reads "Current Profile" exactly on the
  row that carries the current-profile icon; the gender and status cells show
  the capitalised enum values, the status in green exactly for active users.
  A card shows Edit and Delete exactly for the owner, and a comment row shows
  the "You" tag and the delete button exactly for the profile's own comments,
  which are the comments whose delete click sends a request.
\<close>

theorem render_consistency:
  "(profile_tooltip s r = ''Set as profile'' \<longleftrightarrow> \<not> profile_button_disabled s r)
   \<and> (profile_button_label s r = ''Current Profile'' \<longleftrightarrow> fst (name_cell s r))
   \<and> gender_cell r \<in> {''Male'', ''Female''}
   \<and> (status_cell r = (''Active'', Text_green_600) \<longleftrightarrow> u_status r = Active)
   \<and> (status_cell r = (''Inactive'', Text_red_600) \<longleftrightarrow> u_status r = Inactive)
   \<and> (Edit_button \<in> set (card_actions owner) \<longleftrightarrow> owner)
   \<and> (Delete_button \<in> set (card_actions owner) \<longleftrightarrow> owner)
   \<and> cr_you_tag (render_comment (selected st) c) = cr_delete_button (render_comment (selected st) c)
   \<and> post_card_step p owner (pc, st) (PC_delete_comment c q) =
       (if pc_showComments pc \<and> cr_delete_button (render_comment (selected st) c)
        then (pc, step st (Delete_comment p (c_id c)) q) else (pc, st))"
  by (cases "u_gender r"; cases "u_status r")
     (auto simp: profile_tooltip_def profile_button_disabled_def profile_button_label_def name_cell_def
        gender_cell_cases status_cell_cases card_actions_def render_comment_def)

end
