(* ===== verification/Forms.thy ===== *)
theory Forms
  imports Mutations
begin

text \<open>
  The antd forms of \<open>UserForm.tsx\<close>, \<open>TodosForm.tsx\<close>, \<open>PostsForm.tsx\<close> and the
  comment form of \<open>PostsCard.tsx\<close>: the values of the fields (\<^term>\<open>None\<close> for a
  field never filled, \<open>initialValues\<close> as the form mounts), the \<open>rules\<close> antd
  checks when the submit button is pressed, and \<open>onFinish\<close>, which runs the
  component's handler only on values that pass every rule.  A \<open>required\<close>
  rule rejects a missing value and the empty string; the \<open>type: 'email'\<close>
  rule is antd's e-mail validator, a parameter \<open>email_ok\<close> of the model.
  A failed validation marks the failing fields (\<^const>\<open>Set_fields\<close>) in the
  order of the form's items and sends nothing.  A date picker's value is a
  dayjs object, named here by the date string it was made from; what
  \<open>toISOString()\<close> makes of it is the parameter \<open>dj_iso\<close>.
\<close>

text \<open>
  The dayjs environment of a render: \<open>dayjs()\<close> at that moment, and
  \<open>dayjs(s).toISOString()\<close>, the instant \<open>s\<close> denotes written in UTC, or
  \<^term>\<open>None\<close> when \<open>s\<close> is an Invalid Date, on which \<open>toISOString\<close>
  raises a \<open>RangeError\<close>.  Date parsing and time zones are not modelled.
\<close>

record dayjs_env =
  dj_now :: string
  dj_iso :: "string \<Rightarrow> string option"

definition field_present :: "string option \<Rightarrow> bool" where
  "field_present v = (case v of Some s \<Rightarrow> s \<noteq> [] | None \<Rightarrow> False)"

definition required_error :: "string \<Rightarrow> string \<Rightarrow> bool \<Rightarrow> (string \<times> string) list" where
  "required_error field message ok = (if ok then [] else [(field, message)])"

subsection \<open>\<open>UserForm\<close>\<close>

record user_fields =
  uf_name :: "string option"
  uf_email :: "string option"
  uf_gender :: "user_gender option"
  uf_status :: "user_status option"

text \<open>\<open>initialValues={initialData || {}}\<close>.\<close>

definition user_fields_of :: "user option \<Rightarrow> user_fields" where
  "user_fields_of initialData =
     (case initialData of
        Some u \<Rightarrow> \<lparr>uf_name = Some (u_name u), uf_email = Some (u_email u), uf_gender = Some (u_gender u),
                  uf_status = Some (u_status u)\<rparr>
      | None \<Rightarrow> \<lparr>uf_name = None, uf_email = None, uf_gender = None, uf_status = None\<rparr>)"

definition user_field_errors :: "(string \<Rightarrow> bool) \<Rightarrow> user_fields \<Rightarrow> (string \<times> string) list" where
  "user_field_errors email_ok fs =
     required_error ''name'' ''Please input the name!'' (field_present (uf_name fs))
     @ (case uf_email fs of
          Some e \<Rightarrow> if e = [] then [(''email'', ''Please input the email!'')]
                    else if email_ok e then [] else [(''email'', ''Please input a valid email!'')]
        | None \<Rightarrow> [(''email'', ''Please input the email!'')])
     @ required_error ''gender'' ''Please select the gender!'' (uf_gender fs \<noteq> None)
     @ required_error ''status'' ''Please select the status!'' (uf_status fs \<noteq> None)"

definition validate_user_fields :: "(string \<Rightarrow> bool) \<Rightarrow> user_fields \<Rightarrow> (string \<times> string) list + user_form" where
  "validate_user_fields email_ok fs =
     (case (uf_name fs, uf_email fs, uf_gender fs, uf_status fs) of
        (Some n, Some e, Some g, Some s) \<Rightarrow>
          if user_field_errors email_ok fs = [] then Inr \<lparr>f_name = n, f_email = e, f_gender = g, f_status = s\<rparr>
          else Inl (user_field_errors email_ok fs)
      | _ \<Rightarrow> Inl (user_field_errors email_ok fs))"

definition UserForm_finish ::
  "(string \<Rightarrow> bool) \<Rightarrow> user option \<Rightarrow> user_fields \<Rightarrow> axios_error + unit \<Rightarrow> app_state \<Rightarrow> app_state" where
  "UserForm_finish email_ok initialData fs resp st =
     (case validate_user_fields email_ok fs of
        Inl errs \<Rightarrow> emit (Set_fields errs) st
      | Inr values \<Rightarrow> UserForm_handleSubmit initialData values resp st)"

subsection \<open>\<open>TodoForm\<close>\<close>

record todo_fields =
  tf_title :: "string option"
  tf_due_on :: "string option"  \<comment> \<open>the dayjs value, by the string it was made from\<close>
  tf_status :: "todo_status option"

text \<open>\<open>AddTodoType\<close>, the values \<open>onFinish\<close> receives.\<close>

record add_todo =
  at_title :: string
  at_due_on :: string
  at_status :: todo_status

text \<open>\<open>initialValues\<close>: the todo with \<open>due_on: dayjs(initialData.due_on)\<close>, or
  \<open>{status: TodoStatus.Pending, due_on: dayjs()}\<close> with the current time \<open>now\<close>.\<close>

definition todo_fields_of :: "string \<Rightarrow> todo option \<Rightarrow> todo_fields" where
  "todo_fields_of now initialData =
     (case initialData of
        Some t \<Rightarrow> \<lparr>tf_title = Some (t_title t), tf_due_on = Some (t_due_on t), tf_status = Some (t_status t)\<rparr>
      | None \<Rightarrow> \<lparr>tf_title = None, tf_due_on = Some now, tf_status = Some Pending\<rparr>)"

definition todo_field_errors :: "todo_fields \<Rightarrow> (string \<times> string) list" where
  "todo_field_errors fs =
     required_error ''title'' ''Please input the title!'' (field_present (tf_title fs))
     @ required_error ''due_on'' ''Please select the due date!'' (tf_due_on fs \<noteq> None)
     @ required_error ''status'' ''Please select the status!'' (tf_status fs \<noteq> None)"

definition validate_todo_fields :: "todo_fields \<Rightarrow> (string \<times> string) list + add_todo" where
  "validate_todo_fields fs =
     (case (tf_title fs, tf_due_on fs, tf_status fs) of
        (Some title, Some due, Some s) \<Rightarrow>
          if todo_field_errors fs = [] then Inr \<lparr>at_title = title, at_due_on = due, at_status = s\<rparr>
          else Inl (todo_field_errors fs)
      | _ \<Rightarrow> Inl (todo_field_errors fs))"

text \<open>\<open>handleSubmit\<close>'s \<open>todoData\<close>: \<open>{title, due_on: due_on.toISOString(), status}\<close>;
  \<^term>\<open>None\<close> when \<open>toISOString\<close> raises.\<close>

definition todoData_of :: "(string \<Rightarrow> string option) \<Rightarrow> add_todo \<Rightarrow> todo_data option" where
  "todoData_of toISO values =
     (case toISO (at_due_on values) of
        Some due \<Rightarrow> Some \<lparr>d_title = at_title values, d_due_on = due, d_status = todo_status_str (at_status values)\<rparr>
      | None \<Rightarrow> None)"

text \<open>A \<open>RangeError\<close> of \<open>handleSubmit\<close> is caught by the form's submit, which
  logs it: nothing is sent and nothing shows.\<close>

definition TodoForm_finish ::
  "dayjs_env \<Rightarrow> todo option \<Rightarrow> todo_fields \<Rightarrow> axios_error + unit \<Rightarrow> app_state \<Rightarrow> app_state" where
  "TodoForm_finish dj initialData fs resp st =
     (case validate_todo_fields fs of
        Inl errs \<Rightarrow> emit (Set_fields errs) st
      | Inr values \<Rightarrow>
          (case todoData_of (dj_iso dj) values of
             Some todoData \<Rightarrow> TodoForm_handleSubmit initialData todoData resp st
           | None \<Rightarrow> st))"

subsection \<open>\<open>PostForm\<close> and the comment form\<close>

record post_fields =
  pf_title :: "string option"
  pf_body :: "string option"

text \<open>\<open>initialValues={initialData ?? undefined}\<close>.\<close>

definition post_fields_of :: "post option \<Rightarrow> post_fields" where
  "post_fields_of initialData =
     (case initialData of
        Some p \<Rightarrow> \<lparr>pf_title = Some (p_title p), pf_body = Some (p_body p)\<rparr>
      | None \<Rightarrow> \<lparr>pf_title = None, pf_body = None\<rparr>)"

definition post_field_errors :: "post_fields \<Rightarrow> (string \<times> string) list" where
  "post_field_errors fs =
     required_error ''title'' ''Please input the title!'' (field_present (pf_title fs))
     @ required_error ''body'' ''Please input the content!'' (field_present (pf_body fs))"

definition validate_post_fields :: "post_fields \<Rightarrow> (string \<times> string) list + post_data" where
  "validate_post_fields fs =
     (case (pf_title fs, pf_body fs) of
        (Some title, Some body) \<Rightarrow>
          if post_field_errors fs = [] then Inr \<lparr>pd_title = title, pd_body = body\<rparr> else Inl (post_field_errors fs)
      | _ \<Rightarrow> Inl (post_field_errors fs))"

definition PostForm_finish ::
  "post option \<Rightarrow> post_fields \<Rightarrow> axios_error + unit \<Rightarrow> app_state \<Rightarrow> app_state" where
  "PostForm_finish initialData fs resp st =
     (case validate_post_fields fs of
        Inl errs \<Rightarrow> emit (Set_fields errs) st
      | Inr values \<Rightarrow> PostForm_handleSubmit initialData values resp st)"

definition comment_finish :: "post \<Rightarrow> string option \<Rightarrow> axios_error + unit \<Rightarrow> app_state \<Rightarrow> app_state" where
  "comment_finish p body resp st =
     (case body of
        Some b \<Rightarrow> if b \<noteq> [] then handleAddComment p b resp st
                  else emit (Set_fields [(''body'', ''Please write your comment'')]) st
      | None \<Rightarrow> emit (Set_fields [(''body'', ''Please write your comment'')]) st)"

text \<open>The submit button's label of the three forms: \<open>{initialData ? 'Update' : 'Create'}\<close>.
  Unlike the fields, it follows the \<open>initialData\<close> prop on every render.\<close>

definition submit_label :: "'a option \<Rightarrow> string" where
  "submit_label initialData = (if initialData \<noteq> None then ''Update'' else ''Create'')"

subsection \<open>Lemmas\<close>

lemma required_error_nil [simp]: "required_error f m ok = [] \<longleftrightarrow> ok"
  by (simp add: required_error_def)

lemma validate_todo_fields_Inr:
  "validate_todo_fields fs = Inr v \<longleftrightarrow>
     at_title v \<noteq> [] \<and> fs = \<lparr>tf_title = Some (at_title v), tf_due_on = Some (at_due_on v), tf_status = Some (at_status v)\<rparr>"
  by (cases fs; cases v) (auto simp: validate_todo_fields_def todo_field_errors_def field_present_def
      split: option.splits)

lemma validate_todo_fields_Inl:
  "validate_todo_fields fs = Inl errs \<longleftrightarrow> errs = todo_field_errors fs \<and> errs \<noteq> []"
  by (cases fs) (auto simp: validate_todo_fields_def todo_field_errors_def field_present_def
      split: option.splits)

lemma validate_todo_fields_of:
  "t_title t \<noteq> [] \<Longrightarrow>
   validate_todo_fields (todo_fields_of now (Some t)) =
     Inr \<lparr>at_title = t_title t, at_due_on = t_due_on t, at_status = t_status t\<rparr>"
  by (simp add: validate_todo_fields_Inr todo_fields_of_def)

lemma todoData_of_Some:
  "toISO (at_due_on v) = Some due \<Longrightarrow>
   todoData_of toISO v = Some \<lparr>d_title = at_title v, d_due_on = due, d_status = todo_status_str (at_status v)\<rparr>"
  by (simp add: todoData_of_def)

end
