(* ===== verification/TodosScreen.thy ===== *)
theory TodosScreen
  imports Pages Forms
begin

text \<open>
  The todos page with the field state of its \<open>TodoForm\<close>.  \<^theory_text>\<open>Pages\<close>
  takes a submit of the todo modal as the values sent; here the values come
  from the form's fields, through the rules and \<open>onFinish\<close> of
  \<^theory_text>\<open>Forms\<close>.  The create/edit modal has no \<open>destroyOnClose\<close> and its form is
  never reset: the form mounts when the modal first opens, with
  \<open>initialValues\<close> from the todo being edited then (or the create defaults with
  \<open>dayjs()\<close> of that render, \<^const>\<open>dj_now\<close>), and keeps its fields from then on.
  The submit converts the due date with \<^const>\<open>dj_iso\<close>.
\<close>

datatype todos_screen_event =
    TS_page todos_page_event
  | TS_type todo_fields
  | TS_finish "axios_error + unit"

text \<open>The modal renders its \<open>TodoForm\<close> once it is open; the form's fields are
  set by its first render only.\<close>

definition todo_form_mount :: "dayjs_env \<Rightarrow> todos_page \<Rightarrow> todo_fields option \<Rightarrow> todo_fields option" where
  "todo_form_mount dj ps fo =
     (if tp_isCreateModalOpen ps \<and> fo = None then Some (todo_fields_of (dj_now dj) (tp_editingTodo ps)) else fo)"

text \<open>A page event other than a submit is the event of \<^theory_text>\<open>Pages\<close>; the submit
  button is the form's, \<open>TS_finish\<close>, whose \<open>onSubmit\<close> closes the modal and
  clears the edited todo when the handler calls it.\<close>

fun todos_screen_step ::
  "dayjs_env \<Rightarrow> (todos_page \<times> todo_fields option) \<times> app_state \<Rightarrow> todos_screen_event
   \<Rightarrow> (todos_page \<times> todo_fields option) \<times> app_state" where
  "todos_screen_step dj ((ps, fo), st) (TS_page (TP_submit d r)) = ((ps, fo), st)"
| "todos_screen_step dj ((ps, fo), st) (TS_page e) =
     (case todos_page_step (ps, st) e of (ps', st') \<Rightarrow> ((ps', todo_form_mount dj ps' fo), st'))"
| "todos_screen_step dj ((ps, fo), st) (TS_type fs) =
     (if tp_isCreateModalOpen ps \<and> fo \<noteq> None then ((ps, Some fs), st) else ((ps, fo), st))"
| "todos_screen_step dj ((ps, fo), st) (TS_finish r) =
     (case fo of
        None \<Rightarrow> ((ps, fo), st)
      | Some fs \<Rightarrow>
          if \<not> tp_isCreateModalOpen ps then ((ps, fo), st)
          else (let st' = TodoForm_finish dj (tp_editingTodo ps) fs r st
                in ((if Submitted \<in> set (drop (length (effects st)) (effects st'))
                     then ps\<lparr>tp_isCreateModalOpen := False, tp_editingTodo := None\<rparr> else ps, fo), st')))"

text \<open>The modal's title, \<open>{editingTodo ? 'Edit Todo' : 'Create Todo'}\<close>.\<close>

definition todo_modal_title :: "todos_page \<Rightarrow> string" where
  "todo_modal_title ps = (if tp_editingTodo ps \<noteq> None then ''Edit Todo'' else ''Create Todo'')"

text \<open>A todo of the examples.\<close>

abbreviation sample_todo :: todo where
  "sample_todo \<equiv> \<lparr>t_id = 5, t_user_id = 3, t_title = ''Pay rent'', t_due_on = ''2025-02-01'', t_status = Completed\<rparr>"

subsection \<open>Lemmas\<close>

text \<open>A submit of valid fields is the page's submit of the values they hold; a
  submit of invalid fields marks them and leaves the page as it is.\<close>

lemma todos_screen_finish_valid:
  assumes "validate_todo_fields fs = Inr v" and "todoData_of (dj_iso dj) v = Some d" and "tp_isCreateModalOpen ps"
  shows "todos_screen_step dj ((ps, Some fs), st) (TS_finish r) =
           (case todos_page_step (ps, st) (TP_submit d r) of (ps', st') \<Rightarrow> ((ps', Some fs), st'))"
  using assms by (simp add: TodoForm_finish_def submitted_def new_effects_def Let_def)

lemma todos_screen_finish_invalid:
  assumes "validate_todo_fields fs = Inl errs" and "tp_isCreateModalOpen ps"
  shows "todos_screen_step dj ((ps, Some fs), st) (TS_finish r) = ((ps, Some fs), emit (Set_fields errs) st)"
  using assms by (simp add: TodoForm_finish_def Let_def emit_def)

lemma todos_screen_finish_raises:
  assumes "validate_todo_fields fs = Inr v" and "todoData_of (dj_iso dj) v = None"
  shows "todos_screen_step dj ((ps, Some fs), st) (TS_finish r) = ((ps, Some fs), st)"
  using assms by (simp add: TodoForm_finish_def Let_def)

lemma todos_screen_finish_raises_steps:
  assumes "validate_todo_fields fs = Inr v" and "todoData_of (dj_iso dj) v = None"
  shows "foldl (todos_screen_step dj) ((ps, Some fs), st) (replicate n (TS_finish r)) = ((ps, Some fs), st)"
  by (induction n) (simp_all only: replicate.simps foldl.simps todos_screen_finish_raises [OF assms])

lemma todos_screen_fields_kept:
  "snd (fst (todos_screen_step dj ((ps, Some fs), st) e)) =
     Some (case e of TS_type fs' \<Rightarrow> if tp_isCreateModalOpen ps then fs' else fs | _ \<Rightarrow> fs)"
proof (cases e)
  case (TS_page pe)
  then show ?thesis by (cases pe) (simp_all add: todo_form_mount_def Let_def)
qed (simp_all add: Let_def)

lemma todos_screen_steps_fields_kept:
  "\<forall>fs'. TS_type fs' \<notin> set es \<Longrightarrow>
   snd (fst (foldl (todos_screen_step dj) ((ps, Some fs), st) es)) = Some fs"
proof (induction es arbitrary: ps st)
  case (Cons e es)
  obtain ps' fo' st' where s: "todos_screen_step dj ((ps, Some fs), st) e = ((ps', fo'), st')"
    by (metis prod.exhaust)
  have "fo' = Some (case e of TS_type fs' \<Rightarrow> if tp_isCreateModalOpen ps then fs' else fs | _ \<Rightarrow> fs)"
    using todos_screen_fields_kept [of dj ps fs st e] by (simp add: s)
  with Cons.prems have "fo' = Some fs" by (cases e) auto
  with Cons s show ?case by simp
qed simp

subsection \<open>Properties\<close>

text \<open>
  C19: the todo form keeps the values it mounted with.  As long as the operator
  types nothing, every event leaves the fields as they are.  Editing todo
  \<open>a\<close>, cancelling and pressing Add Todo opens the "Create Todo" modal on
  \<open>a\<close>'s title, due date and status under the title "Create Todo" and the
  button "Create", and Create posts a copy of \<open>a\<close>; editing
  \<open>a\<close>, cancelling, then editing \<open>b\<close> and pressing Update sends
  \<open>PUT /todos/{b}\<close> with the data of \<open>a\<close>, its due date as
  \<open>toISOString\<close> writes it.
\<close>

theorem stale_todo_form:
  assumes "\<forall>fs'. TS_type fs' \<notin> set es" and "selected st \<noteq> None" and "t_title a \<noteq> []"
      and "dj_iso dj (t_due_on a) = Some due"
  shows "snd (fst (foldl (todos_screen_step dj) ((ps, Some fs), st') es)) = Some fs
         \<and> (let s = foldl (todos_screen_step dj) ((todos_page_mount st, None), st)
                      [TS_page (TP_edit a), TS_page TP_cancel, TS_page TP_add_todo]
            in todo_modal_title (fst (fst s)) = ''Create Todo'' \<and> submit_label (tp_editingTodo (fst (fst s))) = ''Create''
               \<and> snd (fst s) = Some (todo_fields_of (dj_now dj) (Some a)))
         \<and> snd (foldl (todos_screen_step dj) ((todos_page_mount st, None), st)
               [TS_page (TP_edit a), TS_page TP_cancel, TS_page TP_add_todo, TS_finish r]) =
             step st (Submit_todo_form None
               \<lparr>d_title = t_title a, d_due_on = due, d_status = todo_status_str (t_status a)\<rparr>) r
         \<and> snd (foldl (todos_screen_step dj) ((todos_page_mount st, None), st)
               [TS_page (TP_edit a), TS_page TP_cancel, TS_page (TP_edit b), TS_finish r]) =
             step st (Submit_todo_form (Some b)
               \<lparr>d_title = t_title a, d_due_on = due, d_status = todo_status_str (t_status a)\<rparr>) r"
proof -
  have v: "validate_todo_fields (todo_fields_of (dj_now dj) (Some a)) =
             Inr \<lparr>at_title = t_title a, at_due_on = t_due_on a, at_status = t_status a\<rparr>"
    using assms(3) by (rule validate_todo_fields_of)
  have d: "todoData_of (dj_iso dj) \<lparr>at_title = t_title a, at_due_on = t_due_on a, at_status = t_status a\<rparr> =
             Some \<lparr>d_title = t_title a, d_due_on = due, d_status = todo_status_str (t_status a)\<rparr>"
    using assms(4) by (simp add: todoData_of_Some)
  show ?thesis
    using assms(1) todos_screen_steps_fields_kept
    by (simp add: assms(2) todo_form_mount_def todos_page_mount_def TodoForm_finish_def v d submitted_def
        new_effects_def Let_def todo_modal_title_def submit_label_def)
qed

text \<open>
  C20: a todo whose due date is an Invalid Date cannot be saved from its edit
  form, and the operator is not told: Update raises a \<open>RangeError\<close> in
  \<open>toISOString\<close>, which the form's submit catches and logs, so however often
  Update is pressed no request is sent, no toast shows and the modal stays open
  on the todo.
\<close>

theorem invalid_due_date_blocks_update:
  assumes "dj_iso dj (t_due_on a) = None" and "t_title a \<noteq> []"
  shows "foldl (todos_screen_step dj) ((todos_page_mount st, None), st) (TS_page (TP_edit a) # replicate n (TS_finish r)) =
           (((todos_page_mount st)\<lparr>tp_editingTodo := Some a, tp_isCreateModalOpen := True\<rparr>,
             Some (todo_fields_of (dj_now dj) (Some a))), st)"
proof -
  have v: "validate_todo_fields (todo_fields_of (dj_now dj) (Some a)) =
             Inr \<lparr>at_title = t_title a, at_due_on = t_due_on a, at_status = t_status a\<rparr>"
    using assms(2) by (rule validate_todo_fields_of)
  have d: "todoData_of (dj_iso dj) \<lparr>at_title = t_title a, at_due_on = t_due_on a, at_status = t_status a\<rparr> = None"
    using assms(1) by (simp add: todoData_of_def)
  show ?thesis
    by (simp add: todo_form_mount_def todos_screen_finish_raises_steps [OF v d])
qed

text \<open>A render in UTC+7, whose \<open>toISOString\<close> moves a local midnight to 17:00 of the day before.\<close>

theorem stale_todo_form_witness:
  "snd (foldl (todos_screen_step
          \<lparr>dj_now = ''2025-01-01'', dj_iso = (\<lambda>s. if s = ''2025-02-01'' then Some ''2025-01-31T17:00:00.000Z'' else None)\<rparr>)
          ((todos_page_mount (init_state\<lparr>selected := Some sample_user\<rparr>), None),
          init_state\<lparr>selected := Some sample_user\<rparr>)
        [TS_page (TP_edit \<lparr>t_id = 5, t_user_id = 3, t_title = ''Pay rent'', t_due_on = ''2025-02-01'', t_status = Completed\<rparr>),
         TS_page TP_cancel, TS_page TP_add_todo, TS_finish (Inr ())]) =
     step (init_state\<lparr>selected := Some sample_user\<rparr>)
       (Submit_todo_form None \<lparr>d_title = ''Pay rent'', d_due_on = ''2025-01-31T17:00:00.000Z'', d_status = ''completed''\<rparr>) (Inr ())"
proof -
  let ?dj = "\<lparr>dj_now = ''2025-01-01'', dj_iso = (\<lambda>s. if s = ''2025-02-01'' then Some ''2025-01-31T17:00:00.000Z'' else None)\<rparr>"
  have p1: "\<forall>fs'. TS_type fs' \<notin> set ([] :: todos_screen_event list)" by simp
  have p2: "selected (init_state\<lparr>selected := Some sample_user\<rparr>) \<noteq> None" by simp
  have p3: "t_title sample_todo \<noteq> []" by simp
  have p4: "dj_iso ?dj (t_due_on sample_todo) = Some ''2025-01-31T17:00:00.000Z''" by simp
  show ?thesis
    using stale_todo_form
      [where es = "[]" and st = "init_state\<lparr>selected := Some sample_user\<rparr>" and a = sample_todo
         and dj = ?dj and r = "Inr ()" and ps = "todos_page_mount init_state"
         and fs = "todo_fields_of ''2025-01-01'' None" and st' = init_state and b = sample_todo,
       OF p1 p2 p3 p4, THEN conjunct2, THEN conjunct2, THEN conjunct1]
    by simp
qed

theorem invalid_due_date_blocks_update_witness:
  "foldl (todos_screen_step \<lparr>dj_now = ''2025-01-01'', dj_iso = (\<lambda>_. None)\<rparr>) ((todos_page_mount init_state, None), init_state)
     [TS_page (TP_edit \<lparr>t_id = 5, t_user_id = 3, t_title = ''Pay rent'', t_due_on = ''soon'', t_status = Pending\<rparr>),
      TS_finish (Inr ()), TS_finish (Inr ())] =
   (((todos_page_mount init_state)\<lparr>tp_editingTodo := Some \<lparr>t_id = 5, t_user_id = 3, t_title = ''Pay rent'', t_due_on = ''soon'', t_status = Pending\<rparr>,
      tp_isCreateModalOpen := True\<rparr>,
     Some (todo_fields_of ''2025-01-01'' (Some \<lparr>t_id = 5, t_user_id = 3, t_title = ''Pay rent'', t_due_on = ''soon'', t_status = Pending\<rparr>))),
    init_state)"
  using invalid_due_date_blocks_update
    [where dj = "\<lparr>dj_now = ''2025-01-01'', dj_iso = (\<lambda>_. None)\<rparr>"
       and a = "\<lparr>t_id = 5, t_user_id = 3, t_title = ''Pay rent'', t_due_on = ''soon'', t_status = Pending\<rparr>"
       and st = init_state and n = 2 and r = "Inr ()"]
  by (simp add: numeral_2_eq_2)

end
