(* ===== verification/Dialogs.thy ===== *)
theory Dialogs
  imports TodosScreen
begin

text \<open>
  The confirmation dialogs of the delete buttons.  \<^theory_text>\<open>Pages\<close> runs a delete as
  if its \<open>Modal.confirm\<close> were confirmed at once; here the click opens the
  dialog, which holds the \<open>onOk\<close> callback, and the page acts only when the
  dialog is closed with OK.  While the dialog is open its mask takes every
  click, so only OK and Cancel act.  A page of the dialog model is a page of
  \<^theory_text>\<open>Pages\<close> with the dialog's pending callback beside its state.
\<close>

datatype 'e confirm_event =
    Direct 'e
  | Ask "axios_error + unit \<Rightarrow> 'e"
  | Confirm_ok "axios_error + unit"
  | Confirm_cancel

text \<open>\<open>Modal.confirm({onOk})\<close> as antd runs it: OK calls \<open>onOk\<close> (whose mutation
  gets the response \<open>r\<close>) and closes the dialog, Cancel closes it.  A page event
  that \<open>asks\<close> is one the page only raises from a dialog's \<open>onOk\<close>.\<close>

fun confirm_step ::
  "('s \<Rightarrow> 'e \<Rightarrow> 's) \<Rightarrow> ('e \<Rightarrow> bool) \<Rightarrow> 's \<times> (axios_error + unit \<Rightarrow> 'e) option \<Rightarrow> 'e confirm_event
   \<Rightarrow> 's \<times> (axios_error + unit \<Rightarrow> 'e) option" where
  "confirm_step f asks (s, None) (Direct e) = (if asks e then (s, None) else (f s e, None))"
| "confirm_step f asks (s, None) (Ask onOk) = (s, Some onOk)"
| "confirm_step f asks (s, Some onOk) (Confirm_ok r) = (f s (onOk r), None)"
| "confirm_step f asks (s, Some onOk) Confirm_cancel = (s, None)"
| "confirm_step f asks (s, p) e = (s, p)"

text \<open>The page events a run of the dialog model performs, in order.\<close>

fun confirmed_trace ::
  "('e \<Rightarrow> bool) \<Rightarrow> (axios_error + unit \<Rightarrow> 'e) option \<Rightarrow> 'e confirm_event list \<Rightarrow> 'e list" where
  "confirmed_trace asks p [] = []"
| "confirmed_trace asks None (Direct e # es) = (if asks e then [] else [e]) @ confirmed_trace asks None es"
| "confirmed_trace asks None (Ask onOk # es) = confirmed_trace asks (Some onOk) es"
| "confirmed_trace asks (Some onOk) (Confirm_ok r # es) = onOk r # confirmed_trace asks None es"
| "confirmed_trace asks (Some onOk) (Confirm_cancel # es) = confirmed_trace asks None es"
| "confirmed_trace asks p (e # es) = confirmed_trace asks p es"

subsection \<open>The dialogs of the code\<close>

text \<open>\<open>UserTable\<close>'s delete button: \<open>onOk: () => deleteUserMutation.mutate(record.id)\<close>.\<close>

definition deleteUser_onOk :: "user \<Rightarrow> axios_error + unit \<Rightarrow> user_table_event" where
  "deleteUser_onOk record r = UT_delete record r"

primrec user_table_asks :: "user_table_event \<Rightarrow> bool" where
  "user_table_asks (UT_set_profile u) = False"
| "user_table_asks (UT_edit u) = False"
| "user_table_asks (UT_delete u r) = True"
| "user_table_asks UT_cancel = False"
| "user_table_asks (UT_type f) = False"
| "user_table_asks (UT_submit r) = False"

text \<open>\<open>handleDelete\<close> of the todos page: \<open>onOk: () => deleteTodoMutation.mutate(todo.id)\<close>.\<close>

definition handleDelete_onOk :: "todo \<Rightarrow> axios_error + unit \<Rightarrow> todos_screen_event" where
  "handleDelete_onOk todo r = TS_page (TP_delete todo r)"

fun todos_screen_asks :: "todos_screen_event \<Rightarrow> bool" where
  "todos_screen_asks (TS_page (TP_delete t r)) = True"
| "todos_screen_asks e = False"

text \<open>\<open>PostCard\<close>'s \<open>handleDeletePost\<close> and \<open>handleDeleteComment\<close>, raised on the
  page that renders the card.\<close>

definition handleDeletePost_onOk :: "post \<Rightarrow> axios_error + unit \<Rightarrow> posts_page_event" where
  "handleDeletePost_onOk post r = PP_card post (PC_delete r)"

definition handleDeleteComment_onOk :: "post \<Rightarrow> comment \<Rightarrow> axios_error + unit \<Rightarrow> posts_page_event" where
  "handleDeleteComment_onOk post comment r = PP_card post (PC_delete_comment comment r)"

fun posts_page_asks :: "posts_page_event \<Rightarrow> bool" where
  "posts_page_asks (PP_card p (PC_delete r)) = True"
| "posts_page_asks (PP_card p (PC_delete_comment c r)) = True"
| "posts_page_asks e = False"

subsection \<open>Lemmas\<close>

lemma confirm_run:
  "fst (foldl (confirm_step f asks) (s, p) es) = foldl f s (confirmed_trace asks p es)"
proof (induction asks p es arbitrary: s rule: confirmed_trace.induct)
qed simp_all

lemma confirmed_trace_asks:
  "e \<in> set (confirmed_trace asks p es) \<Longrightarrow> asks e \<Longrightarrow>
   \<exists>onOk r. e = onOk r \<and> Confirm_ok r \<in> set es \<and> (Ask onOk \<in> set es \<or> p = Some onOk)"
proof (induction asks p es rule: confirmed_trace.induct)
qed (auto split: if_splits)

lemma todos_screen_step_inv:
  assumes "todos_page_inv (fst (fst x))"
  shows "todos_page_inv (fst (fst (todos_screen_step dj x e)))"
proof -
  obtain ps fo st where x: "x = ((ps, fo), st)" by (metis prod.exhaust)
  show ?thesis
  proof (cases e)
    case (TS_page pe)
    then show ?thesis
      using assms todos_page_step_inv [of "(ps, st)" pe] x
      by (cases pe) (auto simp: Let_def split: prod.splits)
  next
    case (TS_finish r)
    then show ?thesis
      using assms x by (auto simp: Let_def todos_page_inv_def split: option.splits)
  qed (use assms x in simp)
qed

end
