(* ===== verification/Header.thy ===== *)
theory Header
  imports Http
begin

text \<open>
  The navigation of \<open>components/layout/Header.tsx\<close>.  \<open>Layout\<close> wraps every
  page in \<open>pages/_app.tsx\<close>, so the header stays mounted across client-side
  navigation and keeps its state: the drawer flag, the mobile flag, and the menu
  items set by the mount effect.  The drawer's menu marks the item whose key is
  the first segment of \<open>router.pathname\<close>.  The bar also shows the profile
  dropdown and the profile's name, and which navigation it shows depends on the
  window width.  The provider tree of \<open>pages/_app.tsx\<close> and
  \<open>components/layout/Layout.tsx\<close>, which \<open>useUser\<close> reads, is modelled here
  too.  Labels, other styling and the two external links are rendering only.
\<close>

datatype menu_item = Menu_item (mi_key: string) (mi_href: "string option") (mi_children: "menu_item list")

record header_state =
  hs_mobileMenuOpen :: bool
  hs_isMobile :: bool
  hs_menuItems :: "menu_item list"

definition menu_items :: "menu_item list" where
  "menu_items =
     [Menu_item ''users'' (Some ''/users'') [],
      Menu_item ''todos'' (Some ''/todos'') [],
      Menu_item ''posts'' None
        [Menu_item ''all-posts'' (Some ''/posts/all'') [], Menu_item ''my-posts'' (Some ''/posts/my'') []]]"

text \<open>The state hooks and the mount effect: the menu items, then \<open>handleResize()\<close>.\<close>

definition header_mount :: "nat \<Rightarrow> header_state" where
  "header_mount innerWidth =
     \<lparr>hs_mobileMenuOpen = False, hs_isMobile = innerWidth < 768, hs_menuItems = menu_items\<rparr>"

text \<open>The desktop bar: a link to \<open>/key\<close> for an item without children, a dropdown of
  the children's links otherwise.\<close>

definition desktop_targets :: "menu_item list \<Rightarrow> string list" where
  "desktop_targets items =
     concat (map (\<lambda>item. if mi_children item \<noteq> [] then List.map_filter mi_href (mi_children item)
                         else [''/'' @ mi_key item]) items)"

text \<open>\<open>router.pathname.split("/")[1] || "users"\<close>: a missing or empty segment gives \<open>users\<close>.\<close>

definition selected_key :: "string \<Rightarrow> string" where
  "selected_key pathname =
     (case drop 1 (split_on CHR ''/'' pathname) of
        k # _ \<Rightarrow> if js_truthy_str k then k else ''users''
      | [] \<Rightarrow> ''users'')"

fun leaf_keys :: "menu_item list \<Rightarrow> string list" where
  "leaf_keys [] = []"
| "leaf_keys (Menu_item k h [] # is) = k # leaf_keys is"
| "leaf_keys (Menu_item k h (c # cs) # is) = leaf_keys (c # cs) @ leaf_keys is"

datatype header_event = Resize nat | Open_menu | Close_menu | Navigate string

text \<open>The menu button is rendered only on a mobile width; navigating re-renders the
  page inside the mounted header.\<close>

fun header_step :: "header_state \<Rightarrow> header_event \<Rightarrow> header_state" where
  "header_step hs (Resize w) = hs\<lparr>hs_isMobile := w < 768\<rparr>"
| "header_step hs Open_menu = (if hs_isMobile hs then hs\<lparr>hs_mobileMenuOpen := True\<rparr> else hs)"
| "header_step hs Close_menu = hs\<lparr>hs_mobileMenuOpen := False\<rparr>"
| "header_step hs (Navigate p) = hs"

text \<open>The profile dropdown: the profile's name, e-mail, and status and gender
  (shown with the CSS class \<open>capitalize\<close>), or the placeholder.\<close>

datatype profile_menu_label =
    Profile_details string string string string
  | No_profile_selected

definition profileMenu :: "user option \<Rightarrow> profile_menu_label" where
  "profileMenu selectedUser =
     (case selectedUser of
        Some u \<Rightarrow> Profile_details (u_name u) (u_email u) (user_status_str (u_status u)) (gender_str (u_gender u))
      | None \<Rightarrow> No_profile_selected)"

text \<open>The text beside the avatar, which opens the dropdown.\<close>

definition header_profile_name :: "user option \<Rightarrow> string" where
  "header_profile_name selectedUser =
     (case selectedUser of Some u \<Rightarrow> u_name u | None \<Rightarrow> ''No profile selected'')"

subsection \<open>The application shell\<close>

text \<open>
  \<open>pages/_app.tsx\<close> wraps the page component in the query client, the antd
  configuration and the user provider, and \<open>components/layout/Layout.tsx\<close>
  renders the header and then the page inside its content area.  A component's
  place in the tree is the list of the components that enclose it, outermost
  first.
\<close>

datatype shell_node = QueryClientProvider | ConfigProvider | UserProvider | AntLayout | Content

definition header_ancestors :: "shell_node list" where
  "header_ancestors = [QueryClientProvider, ConfigProvider, UserProvider, AntLayout]"

definition page_ancestors :: "shell_node list" where
  "page_ancestors = [QueryClientProvider, ConfigProvider, UserProvider, AntLayout, Content]"

text \<open>\<open>useUser\<close> of \<open>context/UserContext.tsx\<close>: the provider's value
  \<open>{selectedUser, setSelectedUser}\<close>, or the error it throws outside a provider.\<close>

definition useUser :: "shell_node list \<Rightarrow> 'c \<Rightarrow> string + 'c" where
  "useUser ancestors context =
     (if UserProvider \<in> set ancestors then Inr context
      else Inl ''useUser must be used within a UserProvider'')"

subsection \<open>Responsive layout\<close>

text \<open>
  Which navigation the bar shows at a window width: the desktop links have the
  classes \<open>hidden md:flex\<close> and the name beside the avatar \<open>hidden sm:block\<close>
  (Tailwind's default breakpoints, \<open>md\<close> from 768 and \<open>sm\<close> from 640 pixels),
  while the menu button is rendered when the state says \<open>isMobile\<close>.
\<close>

definition desktop_menu_visible :: "nat \<Rightarrow> bool" where
  "desktop_menu_visible innerWidth \<longleftrightarrow> 768 \<le> innerWidth"

definition avatar_name_visible :: "nat \<Rightarrow> bool" where
  "avatar_name_visible innerWidth \<longleftrightarrow> 640 \<le> innerWidth"

definition menu_button_visible :: "header_state \<Rightarrow> bool" where
  "menu_button_visible hs \<longleftrightarrow> hs_isMobile hs"

text \<open>The window width after a sequence of events: the last resize, or the width
  at mount.\<close>

fun current_width :: "nat \<Rightarrow> header_event list \<Rightarrow> nat" where
  "current_width w [] = w"
| "current_width w (Resize w' # es) = current_width w' es"
| "current_width w (e # es) = current_width w es"

subsection \<open>Lemmas\<close>

lemma header_step_menu_open:
  "hs_mobileMenuOpen (header_step hs e) =
     (case e of Open_menu \<Rightarrow> hs_mobileMenuOpen hs \<or> hs_isMobile hs | Close_menu \<Rightarrow> False
              | _ \<Rightarrow> hs_mobileMenuOpen hs)"
  by (cases e) simp_all

lemma header_steps_menu_open:
  "Open_menu \<notin> set es \<Longrightarrow> Close_menu \<notin> set es \<Longrightarrow>
   hs_mobileMenuOpen (foldl header_step hs es) = hs_mobileMenuOpen hs"
  by (induction es arbitrary: hs) (auto simp: header_step_menu_open split: header_event.splits)

lemma header_steps_items: "hs_menuItems (foldl header_step hs es) = hs_menuItems hs"
proof (induction es arbitrary: hs)
  case (Cons e es)
  then show ?case by (cases e) simp_all
qed simp

lemma header_steps_isMobile:
  "hs_isMobile hs = (w < 768) \<Longrightarrow> hs_isMobile (foldl header_step hs es) = (current_width w es < 768)"
proof (induction es arbitrary: hs w)
  case (Cons e es)
  then show ?case by (cases e) simp_all
qed simp

end
