(* ===== verification/Router.thy ===== *)
theory Router
  imports Dialogs Header
begin

text \<open>
  The application as Next.js runs it: \<open>pages/_app.tsx\<close> keeps the providers
  (profile and query cache, the \<^typ>\<open>app_state\<close>) and \<open>Layout\<close> with its
  header mounted, and renders the page of the current path.  \<open>router.push\<close> and
  a \<open>Link\<close> to another path unmount the page and mount the new path's page with
  the initial values of its hooks and its mount effects settled (\<^theory_text>\<open>Effects\<close>);
  a push to the current path keeps the page.  The pages are those of
  \<^theory_text>\<open>Pages\<close> and \<^theory_text>\<open>TodosScreen\<close>; a path without a file under \<open>pages/\<close> renders
  Next's 404 page.
\<close>

text \<open>\<open>const [showComments, setShowComments] = useState(false)\<close> of a card.\<close>

definition post_card_init :: post_card where
  "post_card_init = \<lparr>pc_showComments = False\<rparr>"

datatype route_page =
    Users_route users_page user_table
  | Todos_route todos_page "todo_fields option"
  | All_posts_route all_posts_page "js_id \<Rightarrow> post_card"
  | My_posts_route my_posts_page "js_id \<Rightarrow> post_card"
  | Latihan_route
  | Latihan2_route
  | Not_found

text \<open>The page a path mounts: the files of \<open>pages/\<close> (no \<open>pages/index.tsx\<close>).\<close>

definition page_mount :: "string \<Rightarrow> app_state \<Rightarrow> route_page" where
  "page_mount path st =
     (if path = ''/users'' then Users_route users_page_init user_table_init
      else if path = ''/todos'' then Todos_route (todos_page_mount st) None
      else if path = ''/posts/all'' then All_posts_route all_posts_init (\<lambda>_. post_card_init)
      else if path = ''/posts/my'' then My_posts_route (my_posts_mount st) (\<lambda>_. post_card_init)
      else if path = ''/latihan'' then Latihan_route
      else if path = ''/latihan/2'' then Latihan2_route
      else Not_found)"

record shell =
  sh_path :: string
  sh_page :: route_page
  sh_header :: header_state
  sh_app :: app_state

text \<open>\<open>MyApp\<close> at the first load of a path at window width \<open>w\<close>.\<close>

definition shell_init :: "string \<Rightarrow> nat \<Rightarrow> shell" where
  "shell_init path w =
     \<lparr>sh_path = path, sh_page = page_mount path init_state, sh_header = header_mount w, sh_app = init_state\<rparr>"

definition navigate :: "string \<Rightarrow> shell \<Rightarrow> shell" where
  "navigate path sh =
     (if path = sh_path sh then sh
      else sh\<lparr>sh_path := path, sh_page := page_mount path (sh_app sh),
              sh_header := header_step (sh_header sh) (Navigate path)\<rparr>)"

text \<open>The two redirect buttons: \<open>handleRedirect\<close> of \<open>pages/todos/index.tsx\<close>
  (\<open>setIsModalOpen(false); router.push("/users")\<close>) and of \<open>pages/posts/my.tsx\<close>
  (\<open>router.push('/users')\<close>).\<close>

definition todos_handleRedirect :: "shell \<Rightarrow> todos_page \<Rightarrow> todo_fields option \<Rightarrow> shell" where
  "todos_handleRedirect sh ps fo =
     navigate ''/users'' (sh\<lparr>sh_page := Todos_route (ps\<lparr>tp_isModalOpen := False\<rparr>) fo\<rparr>)"

definition my_handleRedirect :: "shell \<Rightarrow> shell" where
  "my_handleRedirect sh = navigate ''/users'' sh"

datatype shell_event =
    Link string
  | Header_event header_event
  | Users_event users_page_event
  | Table_event user_table_event
  | Todos_event todos_screen_event
  | All_posts_event posts_page_event
  | My_posts_event posts_page_event
  | My_redirect

text \<open>
  An event acts on the page it belongs to and does nothing on another page.
  The todos page's redirect button runs \<open>handleRedirect\<close>:
  \<open>setIsModalOpen(false)\<close>, then \<open>router.push("/users")\<close>.  My Posts renders its
  redirect modal only without a profile, and its buttons only push
  \<open>/users\<close>.
\<close>

fun shell_step :: "dayjs_env \<Rightarrow> shell \<Rightarrow> shell_event \<Rightarrow> shell" where
  "shell_step dj sh (Link path) = navigate path sh"
| "shell_step dj sh (Header_event e) = sh\<lparr>sh_header := header_step (sh_header sh) e\<rparr>"
| "shell_step dj sh (Users_event e) =
     (case sh_page sh of
        Users_route ps t \<Rightarrow>
          (case users_page_step (ps, sh_app sh) e of (ps', st') \<Rightarrow> sh\<lparr>sh_page := Users_route ps' t, sh_app := st'\<rparr>)
      | _ \<Rightarrow> sh)"
| "shell_step dj sh (Table_event e) =
     (case sh_page sh of
        Users_route ps t \<Rightarrow>
          (case user_table_step (t, sh_app sh) e of (t', st') \<Rightarrow> sh\<lparr>sh_page := Users_route ps t', sh_app := st'\<rparr>)
      | _ \<Rightarrow> sh)"
| "shell_step dj sh (Todos_event e) =
     (case sh_page sh of
        Todos_route ps fo \<Rightarrow>
          if e = TS_page TP_redirect
          then (if tp_isModalOpen ps then todos_handleRedirect sh ps fo else sh)
          else (case todos_screen_step dj ((ps, fo), sh_app sh) e of
                  ((ps', fo'), st') \<Rightarrow> sh\<lparr>sh_page := Todos_route ps' fo', sh_app := st'\<rparr>)
      | _ \<Rightarrow> sh)"
| "shell_step dj sh (All_posts_event e) =
     (case sh_page sh of
        All_posts_route ps cs \<Rightarrow>
          (case all_posts_step (ps, cs, sh_app sh) e of
             (ps', cs', st') \<Rightarrow> sh\<lparr>sh_page := All_posts_route ps' cs', sh_app := st'\<rparr>)
      | _ \<Rightarrow> sh)"
| "shell_step dj sh (My_posts_event e) =
     (case sh_page sh of
        My_posts_route ps cs \<Rightarrow>
          (case my_posts_step (ps, cs, sh_app sh) e of
             (ps', cs', st') \<Rightarrow> sh\<lparr>sh_page := My_posts_route ps' cs', sh_app := st'\<rparr>)
      | _ \<Rightarrow> sh)"
| "shell_step dj sh My_redirect =
     (case sh_page sh of
        My_posts_route ps cs \<Rightarrow>
          if selected (sh_app sh) = None \<and> mp_isRedirectModalOpen ps then my_handleRedirect sh else sh
      | _ \<Rightarrow> sh)"

text \<open>The consistency of the mounted page's edit modal (\<^theory_text>\<open>Pages\<close>).\<close>

fun route_inv :: "route_page \<Rightarrow> bool" where
  "route_inv (Users_route ps t) = user_table_inv t"
| "route_inv (Todos_route ps fo) = todos_page_inv ps"
| "route_inv (All_posts_route ps cs) = all_posts_inv ps"
| "route_inv (My_posts_route ps cs) = my_posts_inv ps"
| "route_inv _ = True"

subsection \<open>Lemmas\<close>

lemma route_inv_mount [simp]: "route_inv (page_mount path st)"
  by (simp add: page_mount_def user_table_init_def user_table_inv_def todos_page_mount_def
      todos_page_inv_def all_posts_init_def all_posts_inv_def my_posts_mount_def my_posts_inv_def Let_def)

lemma sh_page_navigate:
  "sh_page (navigate path sh) = (if path = sh_path sh then sh_page sh else page_mount path (sh_app sh))"
  by (simp add: navigate_def)

lemma navigate_keeps: "sh_app (navigate path sh) = sh_app sh" "sh_header (navigate path sh) = sh_header sh"
  by (simp_all add: navigate_def)

text \<open>The page invariants of \<^theory_text>\<open>Pages\<close>, read off a step's result.\<close>

lemma page_step_invs:
  "user_table_step (t, st) e = (t', st') \<Longrightarrow> user_table_inv t \<Longrightarrow> user_table_inv t'"
  "todos_screen_step dj ((ps, fo), st) e' = ((ps', fo'), st') \<Longrightarrow> todos_page_inv ps \<Longrightarrow> todos_page_inv ps'"
  "all_posts_step (aps, cs, st) e'' = (aps', cs', st') \<Longrightarrow> all_posts_inv aps \<Longrightarrow> all_posts_inv aps'"
  "my_posts_step (mps, cs, st) e'' = (mps', cs', st') \<Longrightarrow> my_posts_inv mps \<Longrightarrow> my_posts_inv mps'"
  using user_table_step_inv [of "(t, st)" e] todos_screen_step_inv [of "((ps, fo), st)" dj e']
    all_posts_step_inv [of "(aps, cs, st)" e''] my_posts_step_inv [of "(mps, cs, st)" e'']
  by simp_all

lemma todos_page_inv_modal [simp]: "todos_page_inv (ps\<lparr>tp_isModalOpen := b\<rparr>) = todos_page_inv ps"
  by (simp add: todos_page_inv_def)

lemma shell_step_inv: "route_inv (sh_page sh) \<Longrightarrow> route_inv (sh_page (shell_step dj sh e))"
  by (cases e) (auto simp: sh_page_navigate todos_handleRedirect_def my_handleRedirect_def
      simp del: my_posts_step.simps dest: page_step_invs
      split: route_page.splits prod.splits)

end
