(* ===== verification/Effects.thy ===== *)
theory Effects
  imports Pages Header
begin

text \<open>
  React's effect loop: after a render React runs an effect whose dependency
  values differ from those of the render before; a state update inside the
  effect renders again, and the effect runs again exactly when the update
  changed one of its dependencies.  \<open>react_effects deps eff s\<close> runs the
  effect \<open>eff\<close> on the state \<open>s\<close> until a run leaves \<open>deps\<close> unchanged; it is
  \<^term>\<open>None\<close> when the re-renders never stop.  The effects of the pages are
  the \<open>useEffect\<close>s of \<open>pages/posts/my.tsx\<close>, \<open>pages/todos/index.tsx\<close> and
  \<open>components/layout/Header.tsx\<close>.
\<close>

partial_function (option) react_effects :: "('s \<Rightarrow> 'd) \<Rightarrow> ('s \<Rightarrow> 's) \<Rightarrow> 's \<Rightarrow> 's option" where
  "react_effects deps eff s = (let s' = eff s in if deps s' = deps s then Some s' else react_effects deps eff s')"

subsection \<open>The effects of the pages\<close>

text \<open>\<open>pages/posts/my.tsx\<close>: \<open>if (!selectedUser && !isRedirectModalOpen)
  setIsRedirectModalOpen(true)\<close> on \<open>[selectedUser, isRedirectModalOpen]\<close>.\<close>

definition my_redirect_effect :: "app_state \<Rightarrow> my_posts_page \<Rightarrow> my_posts_page" where
  "my_redirect_effect st ps =
     (if selected st = None \<and> \<not> mp_isRedirectModalOpen ps then ps\<lparr>mp_isRedirectModalOpen := True\<rparr> else ps)"

definition my_redirect_deps :: "app_state \<Rightarrow> my_posts_page \<Rightarrow> user option \<times> bool" where
  "my_redirect_deps st ps = (selected st, mp_isRedirectModalOpen ps)"

text \<open>\<open>pages/todos/index.tsx\<close>: \<open>if (!selectedUser) setIsModalOpen(true)\<close> on
  \<open>[selectedUser]\<close>.\<close>

definition todos_redirect_effect :: "app_state \<Rightarrow> todos_page \<Rightarrow> todos_page" where
  "todos_redirect_effect st ps = (if selected st = None then ps\<lparr>tp_isModalOpen := True\<rparr> else ps)"

definition todos_redirect_deps :: "app_state \<Rightarrow> todos_page \<Rightarrow> user option" where
  "todos_redirect_deps st ps = selected st"

text \<open>\<open>components/layout/Header.tsx\<close>: \<open>setMenuItems([...])\<close> then \<open>handleResize()\<close>, on
  the empty dependency list \<open>[]\<close>.\<close>

definition header_effect :: "nat \<Rightarrow> header_state \<Rightarrow> header_state" where
  "header_effect innerWidth hs = hs\<lparr>hs_menuItems := menu_items, hs_isMobile := innerWidth < 768\<rparr>"

definition header_effect_deps :: "header_state \<Rightarrow> unit" where
  "header_effect_deps hs = ()"

text \<open>The values of the \<open>useState\<close> hooks before the first effect runs.\<close>

definition my_posts_init :: my_posts_page where
  "my_posts_init = \<lparr>mp_isCreateModalOpen = False, mp_isEditModalOpen = False, mp_editingPost = None,
                    mp_isRedirectModalOpen = False, mp_page = 1, mp_pageSize = 10\<rparr>"

definition todos_page_init :: todos_page where
  "todos_page_init = \<lparr>tp_isModalOpen = False, tp_isCreateModalOpen = False, tp_editingTodo = None,
                      tp_page = 1, tp_pageSize = 10\<rparr>"

definition header_init :: header_state where
  "header_init = \<lparr>hs_mobileMenuOpen = False, hs_isMobile = False, hs_menuItems = []\<rparr>"

subsection \<open>Lemmas\<close>

lemma react_effects_settled: "deps (eff s) = deps s \<Longrightarrow> react_effects deps eff s = Some (eff s)"
  by (simp add: react_effects.simps [of deps eff s])

lemma react_effects_rerun: "deps (eff s) \<noteq> deps s \<Longrightarrow> react_effects deps eff s = react_effects deps eff (eff s)"
  by (simp add: react_effects.simps [of deps eff s])

text \<open>An effect that changes its own dependency on every run re-renders forever.\<close>

lemma react_effects_loops:
  assumes "\<And>s. deps (eff s) \<noteq> deps s"
  shows "react_effects deps eff s = None"
proof -
  have "(\<forall>s. deps (eff s) \<noteq> deps s) \<longrightarrow> False" if "react_effects deps eff s = Some y" for y
    by (rule react_effects.raw_induct [where P = "\<lambda>d e _ _. (\<forall>s. d (e s) \<noteq> d s) \<longrightarrow> False", OF _ that])
       (auto simp: Let_def split: if_splits)
  with assms show ?thesis by (cases "react_effects deps eff s") auto
qed

text \<open>
  The effects of the pages settle after at most two runs, from every state, and
  from the hooks' initial values the settled state is the mount state that
  \<^theory_text>\<open>Pages\<close>, \<^theory_text>\<open>Header\<close> and \<^theory_text>\<open>Router\<close> start a page and the header in.
\<close>

lemma page_effects_settle:
  "react_effects (my_redirect_deps st) (my_redirect_effect st) ps = Some (my_redirect_effect st ps)
   \<and> react_effects (todos_redirect_deps st) (todos_redirect_effect st) ps' = Some (todos_redirect_effect st ps')
   \<and> react_effects header_effect_deps (header_effect w) hs = Some (header_effect w hs)
   \<and> react_effects (my_redirect_deps st) (my_redirect_effect st) my_posts_init = Some (my_posts_mount st)
   \<and> react_effects (todos_redirect_deps st) (todos_redirect_effect st) todos_page_init = Some (todos_page_mount st)
   \<and> react_effects header_effect_deps (header_effect w) header_init = Some (header_mount w)"
proof -
  have my: "react_effects (my_redirect_deps st) (my_redirect_effect st) ps = Some (my_redirect_effect st ps)" for ps
  proof (cases "selected st = None \<and> \<not> mp_isRedirectModalOpen ps")
    case True
    then show ?thesis
      by (simp add: react_effects_rerun react_effects_settled my_redirect_effect_def my_redirect_deps_def)
  next
    case False
    then show ?thesis by (simp add: react_effects_settled my_redirect_effect_def my_redirect_deps_def)
  qed
  have todos: "react_effects (todos_redirect_deps st) (todos_redirect_effect st) ps' =
                 Some (todos_redirect_effect st ps')" for ps'
    by (simp add: react_effects_settled todos_redirect_deps_def)
  have header: "react_effects header_effect_deps (header_effect w) hs = Some (header_effect w hs)" for hs
    by (simp add: react_effects_settled header_effect_deps_def)
  show ?thesis
    by (simp add: my todos header my_redirect_effect_def my_posts_init_def my_posts_mount_def
        todos_redirect_effect_def todos_page_init_def todos_page_mount_def header_effect_def header_init_def
        header_mount_def Let_def)
qed

end
