(* ===== verification/Latihan1.thy ===== *)
theory Latihan1
  imports Prelude
begin

text \<open>
  The exercise page \<open>src/src/pages/latihan/index.tsx\<close> ("latihan" is Indonesian
  for exercise): four pure list transformations, each applied to a constant
  array of the page and rendered.  JavaScript numbers here hold integers and are
  modelled as \<^typ>\<open>int\<close>; objects used as dictionaries are association lists
  whose \<open>Object.entries\<close> order is \<^const>\<open>js_entries\<close>.
\<close>

subsection \<open>Nomor 1: \<open>transformNumbers\<close>\<close>

definition transformNumbers :: "int list \<Rightarrow> int list" where
  "transformNumbers numbers =
     filter (\<lambda>num. num > 10) (map (\<lambda>num. if js_rem num 2 = 0 then num * 2 else num * 3) numbers)"

subsection \<open>Nomor 2: \<open>analyzeTransactions\<close>\<close>

record transaction =
  tx_userId :: int
  tx_amount :: int
  tx_type :: string

datatype tx_status = High_value | Normal

record analyzed =
  an_userId :: "int option"  \<comment> \<open>\<open>parseInt(userId)\<close>; \<open>None\<close> would be \<open>NaN\<close>\<close>
  an_total :: int
  an_status :: tx_status

text \<open>\<open>(acc[curr.userId] || 0)\<close>: a missing entry and the value 0 both read as 0.\<close>

definition js_or_zero :: "int option \<Rightarrow> int" where
  "js_or_zero v = (case v of Some x \<Rightarrow> if js_truthy_num x then x else 0 | None \<Rightarrow> 0)"

definition total_step :: "(string \<times> int) list \<Rightarrow> transaction \<Rightarrow> (string \<times> int) list" where
  "total_step acc cur =
     AList.update (js_num_str (tx_userId cur))
       (js_or_zero (map_of acc (js_num_str (tx_userId cur))) + tx_amount cur) acc"

definition totalBeli :: "transaction list \<Rightarrow> (string \<times> int) list" where
  "totalBeli transactions = foldl total_step [] transactions"

definition analyzeTransactions :: "transaction list \<Rightarrow> analyzed list" where
  "analyzeTransactions transactions =
     map (\<lambda>(userId, total).
            \<lparr>an_userId = parse_int_str userId, an_total = total,
             an_status = (if total > 1000 then High_value else Normal)\<rparr>)
         (js_entries (totalBeli transactions))"

text \<open>The total of a user: the sum of the amounts of its transactions.\<close>

definition user_total :: "transaction list \<Rightarrow> int \<Rightarrow> int" where
  "user_total txs u = sum_list (map tx_amount (filter (\<lambda>t. tx_userId t = u) txs))"

definition sample_transactions :: "transaction list" where
  "sample_transactions =
     [\<lparr>tx_userId = 1, tx_amount = 500, tx_type = ''purchase''\<rparr>,
      \<lparr>tx_userId = 2, tx_amount = 1200, tx_type = ''purchase''\<rparr>,
      \<lparr>tx_userId = 1, tx_amount = 75, tx_type = ''purchase''\<rparr>]"

subsection \<open>Nomor 3: \<open>organizedProduct\<close>\<close>

record product =
  pr_id :: int
  pr_name :: string
  pr_category :: string
  pr_price :: int
  pr_active :: bool

definition organizedProduct :: "product list \<Rightarrow> (string \<times> product list) list" where
  "organizedProduct products = foldl (group_push pr_category) [] (filter pr_active products)"


subsection \<open>Latihan 1: \<open>organizeStudents\<close>\<close>

record student1 =
  s1_id :: int
  s1_name :: string
  s1_score :: int

record graded1 =
  g1_studentId :: int
  g1_name :: string
  g1_score :: int
  g1_grade :: string

definition studentGrade :: "int \<Rightarrow> string" where
  "studentGrade score =
     (if score \<ge> 90 then ''A'' else if score \<ge> 80 then ''B'' else if score \<ge> 75 then ''C'' else ''D'')"

text \<open>The callback of \<open>students.map\<close>; \<open>Number(student.score)\<close> is the identity on numbers.\<close>

definition student_row :: "student1 \<Rightarrow> graded1" where
  "student_row student =
     \<lparr>g1_studentId = s1_id student, g1_name = js_upper (s1_name student),
      g1_score = s1_score student, g1_grade = studentGrade (s1_score student)\<rparr>"

text \<open>\<open>sort((a, b) => b.score - a.score)\<close>: the stable sort by descending score.\<close>

definition organizeStudents :: "student1 list \<Rightarrow> graded1 list" where
  "organizeStudents students =
     sort_key (\<lambda>s. - g1_score s) (filter (\<lambda>s. g1_score s \<ge> 75) (map student_row students))"

definition sample_students1 :: "student1 list" where
  "sample_students1 =
     [\<lparr>s1_id = 1, s1_name = ''Budi'', s1_score = 85\<rparr>, \<lparr>s1_id = 2, s1_name = ''Ani'', s1_score = 70\<rparr>,
      \<lparr>s1_id = 3, s1_name = ''Cindy'', s1_score = 92\<rparr>, \<lparr>s1_id = 4, s1_name = ''David'', s1_score = 65\<rparr>,
      \<lparr>s1_id = 5, s1_name = ''Eva'', s1_score = 88\<rparr>]"

subsection \<open>The page's render\<close>

primrec tx_status_str :: "tx_status \<Rightarrow> string" where
  "tx_status_str High_value = ''high-value''"
| "tx_status_str Normal = ''normal''"

text \<open>
  The text of the page's elements in document order, one string per element:
  the four headings, the joined result of Nomor 1, one paragraph per analysed
  user, a heading per product category (in \<open>Object.entries\<close> order) followed
  by its products, and one paragraph per passing student.  The page applies
  the functions to its constant arrays; the render takes them as arguments.
\<close>

definition latihan1_render ::
  "int list \<Rightarrow> transaction list \<Rightarrow> product list \<Rightarrow> student1 list \<Rightarrow> string list" where
  "latihan1_render numbers transactions products students =
     [''Nomor 1'', js_join '', '' (map js_num_str (transformNumbers numbers)), ''Nomor 2'']
     @ map (\<lambda>user. ''User '' @ js_num_text (an_userId user) @ '': Total '' @ js_num_str (an_total user)
                   @ '' - Status: '' @ tx_status_str (an_status user))
           (analyzeTransactions transactions)
     @ [''Nomor 3'']
     @ concat (map (\<lambda>(category, items). category # map (\<lambda>item. pr_name item @ '' - $'' @ js_num_str (pr_price item)) items)
                   (js_entries (organizedProduct products)))
     @ [''Latihan 1'']
     @ map (\<lambda>student. g1_name student @ '' - '' @ js_num_str (g1_score student) @ '' - '' @ g1_grade student)
           (organizeStudents students)"

subsection \<open>Lemmas\<close>

lemma js_or_zero_eq [simp]: "js_or_zero v = (case v of Some x \<Rightarrow> x | None \<Rightarrow> 0)"
  by (simp add: js_or_zero_def js_truthy_num_def split: option.splits)

lemma map_of_fold_total:
  "map_of (foldl total_step acc txs) (js_num_str u) =
     (case map_of acc (js_num_str u) of
        None \<Rightarrow> if u \<in> tx_userId ` set txs then Some (user_total txs u) else None
      | Some x \<Rightarrow> Some (x + user_total txs u))"
  by (induction txs arbitrary: acc) (auto simp: total_step_def user_total_def update_conv' split: option.splits)

lemma keys_fold_total:
  "fst ` set (foldl total_step acc txs) = fst ` set acc \<union> (\<lambda>t. js_num_str (tx_userId t)) ` set txs"
  by (induction txs arbitrary: acc) (auto simp: total_step_def dom_update)

lemma distinct_fold_total:
  "distinct (map fst acc) \<Longrightarrow> distinct (map fst (foldl total_step acc txs))"
  by (induction txs arbitrary: acc) (simp_all add: total_step_def distinct_update)

lemma set_totalBeli:
  "set (totalBeli txs) = (\<lambda>u. (js_num_str u, user_total txs u)) ` tx_userId ` set txs"
proof -
  have d: "distinct (map fst (totalBeli txs))"
    by (simp add: totalBeli_def distinct_fold_total)
  have m: "map_of (totalBeli txs) (js_num_str u) =
             (if u \<in> tx_userId ` set txs then Some (user_total txs u) else None)" for u
    by (simp add: totalBeli_def map_of_fold_total)
  have k: "fst ` set (totalBeli txs) = (\<lambda>t. js_num_str (tx_userId t)) ` set txs"
    by (simp add: totalBeli_def keys_fold_total)
  show ?thesis
  proof (intro set_eqI iffI)
    fix kv assume kv: "kv \<in> set (totalBeli txs)"
    then obtain t where t: "t \<in> set txs" "fst kv = js_num_str (tx_userId t)"
      using k by (metis imageE imageI)
    have "map_of (totalBeli txs) (fst kv) = Some (snd kv)"
      using d kv by simp
    with t m [of "tx_userId t"] show "kv \<in> (\<lambda>u. (js_num_str u, user_total txs u)) ` tx_userId ` set txs"
      by (cases kv) auto
  next
    fix kv assume "kv \<in> (\<lambda>u. (js_num_str u, user_total txs u)) ` tx_userId ` set txs"
    then obtain u where "u \<in> tx_userId ` set txs" "kv = (js_num_str u, user_total txs u)" by blast
    with m [of u] show "kv \<in> set (totalBeli txs)" by (simp add: map_of_SomeD)
  qed
qed

lemma distinct_totalBeli: "distinct (map fst (totalBeli txs))"
  by (simp add: totalBeli_def distinct_fold_total)

lemma inj_on_parse_int_str: "inj_on parse_int_str (range js_num_str)"
  by (auto simp: inj_on_def js_simps)

lemma analyzeTransactions_ids:
  "map an_userId (analyzeTransactions txs) = map (\<lambda>kv. parse_int_str (fst kv)) (js_entries (totalBeli txs))"
  by (simp add: analyzeTransactions_def case_prod_beta)

lemma distinct_analyzeTransactions_ids: "distinct (map an_userId (analyzeTransactions txs))"
proof -
  have keys: "set (map fst (js_entries (totalBeli txs))) \<subseteq> range js_num_str"
    by (auto simp: set_totalBeli)
  have "distinct (map parse_int_str (map fst (js_entries (totalBeli txs))))"
    using distinct_js_entries [OF distinct_totalBeli] inj_on_subset [OF inj_on_parse_int_str keys]
    by (simp only: distinct_map)
  then show ?thesis
    by (simp only: analyzeTransactions_ids map_map comp_def)
qed

lemma js_num_str_nonneg: "0 \<le> u \<Longrightarrow> js_num_str u = nat_str (nat u)"
  by (simp add: js_num_str_def)

lemma digits_value_js_num_str: "0 \<le> u \<Longrightarrow> digits_value (js_num_str u) = nat u"
  by (simp add: js_num_str_def)

lemma is_array_index_js_num_str: "0 \<le> u \<Longrightarrow> u < 4294967295 \<Longrightarrow> is_array_index (js_num_str u)"
  by (simp add: js_num_str_nonneg is_array_index_nat_str)

lemma js_rem_2: "js_rem n 2 = 0 \<longleftrightarrow> even n"
  by (auto simp: js_rem_def sgn_if even_iff_mod_2_eq_zero)


lemma studentGrade_pass: "75 \<le> score \<Longrightarrow> studentGrade score \<in> {''A'', ''B'', ''C''}"
  by (simp add: studentGrade_def)

text \<open>When every user id is an array index the rows come out in ascending id order.\<close>

lemma analyzeTransactions_sorted_ids:
  assumes ids: "\<forall>t\<in>set txs. 0 \<le> tx_userId t \<and> tx_userId t < 4294967295"
  shows "map an_userId (analyzeTransactions txs) = map Some (sorted_list_of_set (tx_userId ` set txs))"
proof -
  define h :: "string \<times> int \<Rightarrow> int" where "h kv = int (digits_value (fst kv))" for kv
  define ys where "ys = sort_key (\<lambda>kv. digits_value (fst kv)) (totalBeli txs)"
  have idx: "\<forall>kv\<in>set (totalBeli txs). is_array_index (fst kv)"
    using ids by (auto simp: set_totalBeli is_array_index_js_num_str)
  have parse: "parse_int_str (fst kv) = Some (h kv)" if "kv \<in> set ys" for kv
    using that ids by (auto simp: ys_def h_def set_totalBeli digits_value_js_num_str js_simps)
  have r: "map an_userId (analyzeTransactions txs) = map Some (map h ys)"
    using parse by (simp add: analyzeTransactions_ids js_entries_indices [OF idx] ys_def [symmetric])
  have "sorted (map (\<lambda>kv. digits_value (fst kv)) ys)"
    by (simp add: ys_def)
  then have "sorted (map h ys)"
    by (simp add: h_def sorted_map)
  moreover have "distinct (map h ys)"
    using distinct_analyzeTransactions_ids [of txs] by (simp add: r distinct_map inj_on_def)
  moreover have "set (map h ys) = tx_userId ` set txs"
    using ids by (force simp: ys_def h_def set_totalBeli digits_value_js_num_str image_image)
  ultimately have "sorted_list_of_set (tx_userId ` set txs) = map h ys"
    by (metis sorted_list_of_set.idem_if_sorted_distinct)
  then show ?thesis by (simp add: r)
qed

subsection \<open>Properties\<close>

text \<open>
  C24: \<open>organizeStudents\<close> returns the rows of the students scoring at least
  75, as a permutation of them, sorted by descending score; the sort is stable:
  rows of equal score keep their input order.  Every row has a grade of A, B or
  C that \<open>studentGrade\<close> gives its score, and the id and upper-cased name of an
  input student.
\<close>

theorem organizeStudents_sorted:
  "sorted_wrt (\<lambda>a b. g1_score b \<le> g1_score a) (organizeStudents ss)
   \<and> mset (organizeStudents ss) = mset (filter (\<lambda>s. 75 \<le> g1_score s) (map student_row ss))
   \<and> filter (\<lambda>s. g1_score s = k) (organizeStudents ss) =
       filter (\<lambda>s. g1_score s = k) (filter (\<lambda>s. 75 \<le> g1_score s) (map student_row ss))
   \<and> list_all (\<lambda>r. g1_grade r \<noteq> ''D'' \<and> g1_grade r = studentGrade (g1_score r)
                  \<and> (\<exists>s\<in>set ss. g1_studentId r = s1_id s \<and> g1_name r = js_upper (s1_name s)))
       (organizeStudents ss)"
proof (intro conjI)
  have "sorted (map (\<lambda>s. - g1_score s) (organizeStudents ss))"
    by (simp add: organizeStudents_def)
  then show "sorted_wrt (\<lambda>a b. g1_score b \<le> g1_score a) (organizeStudents ss)"
    by (simp add: sorted_map)
  show "mset (organizeStudents ss) = mset (filter (\<lambda>s. 75 \<le> g1_score s) (map student_row ss))"
    by (simp add: organizeStudents_def)
  have "filter (\<lambda>s. - g1_score s = - k) (organizeStudents ss) =
          filter (\<lambda>s. - g1_score s = - k) (filter (\<lambda>s. g1_score s \<ge> 75) (map student_row ss))"
    by (simp only: organizeStudents_def sort_key_stable)
  then show "filter (\<lambda>s. g1_score s = k) (organizeStudents ss) =
       filter (\<lambda>s. g1_score s = k) (filter (\<lambda>s. 75 \<le> g1_score s) (map student_row ss))"
    by simp
  show "list_all (\<lambda>r. g1_grade r \<noteq> ''D'' \<and> g1_grade r = studentGrade (g1_score r)
                  \<and> (\<exists>s\<in>set ss. g1_studentId r = s1_id s \<and> g1_name r = js_upper (s1_name s)))
       (organizeStudents ss)"
    using studentGrade_pass by (fastforce simp: organizeStudents_def student_row_def list_all_iff)
qed




end
