(* ===== verification/Latihan2.thy ===== *)
theory Latihan2
  imports Complex_Main Prelude
begin

text \<open>
  The second exercise page, \<open>src/src/pages/latihan/2.tsx\<close>: the passing
  students of a constant array, graded, sorted by descending score and grouped
  by class into an object of \<open>{students, averageScore}\<close> records, rendered with
  \<open>Object.entries\<close>, and the page's text.  Scores are integers; the
  average, a floating-point division in the code, is the exact rational here,
  and the page's \<open>toFixed(2)\<close> rounds that rational.
\<close>

record student2 =
  s2_id :: int
  s2_name :: string
  s2_class :: string
  s2_score :: int

text \<open>\<open>studentWithGradeType = studentType & { grade: string }\<close>.\<close>

record graded2 = student2 +
  g2_grade :: string

definition getGrade :: "int \<Rightarrow> string" where
  "getGrade score =
     (if score \<ge> 90 then ''Excellent'' else if score \<ge> 80 then ''Great''
      else if score \<ge> 70 then ''Good'' else ''Enough'')"

text \<open>\<open>({...student, name: student.name.toUpperCase(), grade: getGrade(student.score)})\<close>.\<close>

definition student2_row :: "student2 \<Rightarrow> graded2" where
  "student2_row student =
     \<lparr>s2_id = s2_id student, s2_name = js_upper (s2_name student), s2_class = s2_class student,
      s2_score = s2_score student, g2_grade = getGrade (s2_score student)\<rparr>"

definition studentMap :: "student2 list \<Rightarrow> graded2 list" where
  "studentMap students =
     sort_key (\<lambda>s. - s2_score s) (filter (\<lambda>s. g2_grade s \<noteq> ''Enough'') (map student2_row students))"

record class_group =
  cg_students :: "graded2 list"
  cg_averageScore :: rat

text \<open>
  One step of \<open>studentMap.reduce\<close>: create the class entry when it is missing
  (an existing entry is an object, hence truthy), push the student, and
  recompute the average from the sum of the group's scores.
\<close>

definition class_step :: "(string \<times> class_group) list \<Rightarrow> graded2 \<Rightarrow> (string \<times> class_group) list" where
  "class_step acc student =
     (let acc1 = (if map_of acc (s2_class student) = None
                  then AList.update (s2_class student) \<lparr>cg_students = [], cg_averageScore = 0\<rparr> acc
                  else acc);
          g = the (map_of acc1 (s2_class student));
          g1 = g\<lparr>cg_students := cg_students g @ [student]\<rparr>;
          totalScore = foldl (\<lambda>sum s. sum + s2_score s) 0 (cg_students g1);
          g2 = g1\<lparr>cg_averageScore := of_int totalScore / of_nat (length (cg_students g1))\<rparr>
      in AList.update (s2_class student) g2 acc1)"

definition groupByClass :: "graded2 list \<Rightarrow> (string \<times> class_group) list" where
  "groupByClass sm = foldl class_step [] sm"

definition organizeStudent :: "student2 list \<Rightarrow> (string \<times> class_group) list" where
  "organizeStudent students = groupByClass (studentMap students)"

definition sample_students2 :: "student2 list" where
  "sample_students2 =
     [\<lparr>s2_id = 1, s2_name = ''Budi'', s2_class = ''A'', s2_score = 85\<rparr>,
      \<lparr>s2_id = 2, s2_name = ''Ani'', s2_class = ''C'', s2_score = 70\<rparr>,
      \<lparr>s2_id = 3, s2_name = ''Cindy'', s2_class = ''B'', s2_score = 92\<rparr>,
      \<lparr>s2_id = 4, s2_name = ''David'', s2_class = ''A'', s2_score = 65\<rparr>,
      \<lparr>s2_id = 5, s2_name = ''Eva'', s2_class = ''B'', s2_score = 88\<rparr>,
      \<lparr>s2_id = 6, s2_name = ''Evale'', s2_class = ''C'', s2_score = 88\<rparr>]"

text \<open>The group a class should end with: its students in order, and their mean score.\<close>

definition class_avg :: "graded2 list \<Rightarrow> rat" where
  "class_avg l = of_int (sum_list (map s2_score l)) / of_nat (length l)"

definition mk_group :: "graded2 list \<Rightarrow> class_group" where
  "mk_group l = \<lparr>cg_students = l, cg_averageScore = class_avg l\<rparr>"

subsection \<open>The page's render\<close>

text \<open>
  \<open>Number.prototype.toFixed(f)\<close> (ECMAScript 2024, 21.1.3.3) of a finite
  value below \<open>10^21\<close>: the sign, then the integer \<open>n\<close> for which
  \<open>n / 10^f - x\<close> is closest to zero (the larger one on a tie) written with
  at least \<open>f + 1\<close> digits and a point before the last \<open>f\<close>.  The value is the
  exact average here, not its floating-point approximation.
\<close>

definition js_toFixed :: "nat \<Rightarrow> rat \<Rightarrow> string" where
  "js_toFixed f x =
     (let s = (if x < 0 then ''-'' else []);
          n = nat \<lfloor>\<bar>x\<bar> * 10 ^ f + 1 / 2\<rfloor>;
          m = (if n = 0 then ''0'' else nat_str n);
          m = (if f \<noteq> 0 \<and> length m \<le> f then replicate (f + 1 - length m) (CHR ''0'') @ m else m);
          k = length m
      in s @ (if f = 0 then m else take (k - f) m @ ''.'' @ drop (k - f) m))"

text \<open>The text of the page's elements in document order: the title, then for
  each class (in \<open>Object.entries\<close> order) its heading, its average with two
  decimals, and one item per student.\<close>

definition latihan2_render :: "student2 list \<Rightarrow> string list" where
  "latihan2_render students =
     ''Daftar Siswa yang Lulus''
     # concat (map (\<lambda>(className, data).
                      (''Kelas '' @ className) # (''Rata-rata Nilai: '' @ js_toFixed 2 (cg_averageScore data))
                      # map (\<lambda>student. s2_name student @ '' - Nilai: '' @ js_num_str (s2_score student)
                                      @ '' ('' @ g2_grade student @ '')'')
                            (cg_students data))
                   (js_entries (organizeStudent students)))"

subsection \<open>Lemmas\<close>

lemma foldl_score_sum: "foldl (\<lambda>sum s. sum + s2_score s) a l = a + sum_list (map s2_score l)"
  by (induction l arbitrary: a) (simp_all add: algebra_simps)

lemma class_group_update_all [simp]:
  "g\<lparr>cg_students := l, cg_averageScore := r\<rparr> = \<lparr>cg_students = l, cg_averageScore = r\<rparr>"
  by (cases g) simp

lemma class_step_eq:
  "class_step acc x =
     AList.update (s2_class x)
       (mk_group ((case map_of acc (s2_class x) of None \<Rightarrow> [] | Some g \<Rightarrow> cg_students g) @ [x])) acc"
  by (cases "map_of acc (s2_class x)")
     (simp_all add: class_step_def Let_def update_conv' mk_group_def class_avg_def foldl_score_sum)

lemma filter_class_none: "\<forall>x\<in>set xs. c \<noteq> s2_class x \<Longrightarrow> filter (\<lambda>s. s2_class s = c) xs = []"
  by (induction xs) auto

lemma map_of_fold_class:
  "map_of (foldl class_step acc xs) c =
     (case map_of acc c of
        None \<Rightarrow> if c \<in> s2_class ` set xs then Some (mk_group (filter (\<lambda>s. s2_class s = c) xs)) else None
      | Some g \<Rightarrow> if c \<in> s2_class ` set xs then Some (mk_group (cg_students g @ filter (\<lambda>s. s2_class s = c) xs))
                else Some g)"
  by (induction xs arbitrary: acc) (auto simp: class_step_eq update_conv' mk_group_def filter_class_none
      image_iff split: option.splits)

lemma keys_fold_class: "map fst (foldl class_step [] xs) = rev (remdups (rev (map s2_class xs)))"
proof (induction xs rule: rev_induct)
  case Nil
  then show ?case by simp
next
  case (snoc x xs)
  then show ?case by (simp add: class_step_eq update_keys)
qed

lemma grade_enough: "getGrade score = ''Enough'' \<longleftrightarrow> score < 70"
  by (simp add: getGrade_def)

lemma studentMap_pass:
  "filter (\<lambda>s. g2_grade s \<noteq> ''Enough'') (map student2_row ss) = map student2_row (filter (\<lambda>s. 70 \<le> s2_score s) ss)"
  by (induction ss) (auto simp: student2_row_def grade_enough)

lemma studentMap_sorted: "sorted_wrt (\<lambda>a b. s2_score b \<le> s2_score a) (studentMap ss)"
proof -
  have "sorted (map (\<lambda>s. - s2_score s) (studentMap ss))"
    by (simp add: studentMap_def)
  then show ?thesis by (simp add: sorted_map)
qed

lemma set_studentMap: "set (studentMap ss) = student2_row ` {s \<in> set ss. 70 \<le> s2_score s}"
  by (simp add: studentMap_def studentMap_pass)

lemma student2_row_score [simp]: "s2_score (student2_row s) = s2_score s"
  by (simp add: student2_row_def)

lemma organizeStudent_entry:
  assumes "(c, g) \<in> set (organizeStudent ss)"
  shows "c \<in> s2_class ` set (studentMap ss) \<and> g = mk_group (filter (\<lambda>s. s2_class s = c) (studentMap ss))"
proof -
  have "distinct (map fst (organizeStudent ss))"
    by (simp add: organizeStudent_def groupByClass_def keys_fold_class)
  with assms have "map_of (organizeStudent ss) c = Some g"
    by (rule map_of_is_SomeI [rotated])
  then show ?thesis
    by (simp add: organizeStudent_def groupByClass_def map_of_fold_class split: if_splits)
qed

lemma js_toFixed_int: "0 \<le> k \<Longrightarrow> js_toFixed 2 (of_int k) = js_num_str k @ ''.00''"
proof -
  assume k: "0 \<le> k"
  have e1: "\<bar>of_int k :: rat\<bar> * 10 ^ 2 + 1 / 2 = of_int (k * 100) + 1 / 2"
    using k by simp
  have e2: "\<lfloor>(of_int (k * 100) :: rat) + 1 / 2\<rfloor> = k * 100"
    by (rule floor_unique) simp_all
  have n: "nat \<lfloor>\<bar>of_int k :: rat\<bar> * 10 ^ 2 + 1 / 2\<rfloor> = nat k * 100"
    unfolding e1 e2 by (simp add: nat_mult_distrib)
  show ?thesis
  proof (cases "k = 0")
    case True
    then show ?thesis
      by (simp only: js_toFixed_def n Let_def) (simp add: js_num_str_def nat_str.simps digit_chr_0)
  next
    case False
    with k have "0 < nat k" by simp
    then have "nat_str (nat k * 100) = nat_str (nat k) @ ''00''"
      using nat_str_times_10 [of "nat k"] nat_str_times_10 [of "10 * nat k"] by (simp add: mult.commute)
    then show ?thesis using k False
      by (simp only: js_toFixed_def n Let_def) (simp add: js_num_str_def)
  qed
qed

subsection \<open>Properties\<close>


end
