(* ===== verification/Spec2Isabelle.thy ===== *)
theory Spec2Isabelle
  imports Console Render Router Effects Latihan1 Latihan2
begin

text \<open>
  A verification library for the users / todos / posts admin console
  (\<open>src/src\<close>, Next.js with TanStack Query and axios).  The console selects an
  active profile, lists users, the profile's todos, all posts, the profile's posts
  and a post's comments page by page, and forwards every create, update and
  delete to an external REST API; after a successful mutation it invalidates the
  cached list pages that depend on it.  Two exercise pages (\<open>pages/latihan\<close>)
  hold independent list transformations.

  \<^bold>\<open>How the parts interact.\<close>  A page or form calls a service of
  \<open>services/*.service.ts\<close>; the service builds a request and sends it through
  the axios instance of \<open>utils/axios.ts\<close>, and turns any failure into a thrown
  value with \<open>handleApiError\<close> (\<open>utils/apiError.ts\<close>).  The pages read through
  \<open>useQuery\<close>, whose key, \<open>enabled\<close> flag and \<open>queryFn\<close> depend on the active
  profile held by \<open>UserProvider\<close> (\<open>context/UserContext.tsx\<close>).  The forms and
  cards write through \<open>useMutation\<close>: on success they toast, invalidate query
  keys and close the form; on failure some of them format the thrown errors
  onto the form and a toast.

  \<^bold>\<open>Theories, in import order.\<close>
  \<^item> \<open>Prelude\<close>: JavaScript primitives: truthiness, \<open>a % b\<close>, \<open>String(n)\<close>
    (\<open>js_num_str\<close>) and the \<open>parseInt\<close> that inverts it, \<open>toUpperCase\<close>,
    objects used as dictionaries as association lists in creation order, with
    the assignment \<open>obj[k] = v\<close> (\<open>js_assign\<close>, which a \<open>__proto__\<close> key
    does not create) and \<open>Object.entries\<close> (\<open>js_entries\<close>: array-index keys
    first, ascending, then the others in creation order).
  \<^item> \<open>Types\<close>: the interfaces and enums of \<open>types/\<close> as records and datatypes,
    with the JSON bodies the services send.
  \<^item> \<open>ApiError\<close>: \<open>handleApiError\<close> and \<open>formatApiErrors\<close>, with the
    non-array values on which \<open>forEach\<close> raises a \<open>TypeError\<close>; the
    formatted object is a JavaScript object, read by the forms through
    \<open>Object.entries\<close>.
  \<^item> \<open>Http\<close>: the axios instance (\<open>axios_send\<close>: base URL joined by axios'
    \<open>combineURLs\<close>, axios' \<open>Accept\<close>, the bearer token, and the JSON
    content type, which axios' browser adapters drop from a request without
    data), the eighteen service
    operations, each the request it sends, and the spec's REST table as a router.
  \<^item> \<open>QueryCache\<close>: the key, enabled flag and fetch of every \<open>useQuery\<close> of
    \<open>pages/\<close> and \<open>PostsCard.tsx\<close>; TanStack's partial key match and
    invalidation; \<open>Number(header || 0)\<close> for the pagination total.
  \<^item> \<open>AppState\<close>: the state shared by the providers (profile, query cache, a log
    of the visible effects) and \<open>useMutation\<close>'s protocol (\<open>run_mutation\<close>).
  \<^item> \<open>Profile\<close>: \<open>setSelectedUser\<close>, \<open>handleSetAsProfile\<close> of
    \<open>UserTable.tsx\<close>, and the comparisons that read the profile.
  \<^item> \<open>Mutations\<close>: every mutation handler of \<open>UserForm\<close>, \<open>UserTable\<close>,
    \<open>TodosForm\<close>, \<open>pages/todos\<close>, \<open>PostsForm\<close> and \<open>PostsCard\<close>, each the
    whole handler: guard, service call, \<open>onSuccess\<close> in the code's order,
    \<open>onError\<close> where the component defines one.
  \<^item> \<open>Console\<close>: the console as a step function over operator actions and
    resolved queries, the inductive set of reachable states, and the spec's
    invalidation contract.
  \<^item> \<open>Pages\<close>: the local state of \<open>pages/users\<close>, \<open>pages/todos\<close>,
    \<open>pages/posts/all.tsx\<close>, \<open>pages/posts/my.tsx\<close>, \<open>UserTable\<close> and
    \<open>PostsCard\<close> (page, page size, modal flags, the edited entity, shown
    comments, the fields of the user table's mounted edit form), each page a
    step function over its clicks that runs the console's handlers and closes a
    modal exactly when the form called \<open>onSubmit\<close>.
  \<^item> \<open>Forms\<close>: the antd forms of \<open>UserForm\<close>, \<open>TodosForm\<close>, \<open>PostsForm\<close>
    and the comment form: field values, \<open>initialValues\<close>, the \<open>rules\<close> checked on
    submit and \<open>onFinish\<close>, which runs the handler of \<open>Mutations\<close> only on valid
    values (antd's e-mail validator is a parameter \<open>email_ok\<close>).  The todo
    form's due date is a dayjs value; its \<open>toISOString\<close> is the parameter
    \<open>dj_iso\<close> of a \<open>dayjs_env\<close>, \<^term>\<open>None\<close> on an Invalid Date, where it
    raises a \<open>RangeError\<close> that the form's submit catches.
  \<^item> \<open>Render\<close>: the cells and button texts of \<open>UserTable\<close>, the columns it
    shows at a window width, and the action buttons, comment rows and comment
    form of \<open>PostsCard\<close>, checked against the guards of the \<open>Pages\<close> step
    functions.
  \<^item> \<open>Header\<close>: \<open>components/layout/Header.tsx\<close>, mounted once by
    \<open>Layout\<close> around every page: the menu items, the desktop link targets, the
    drawer's selected key, the drawer and mobile flags, the profile dropdown
    and the name beside the avatar, which navigation shows at a width, and the
    provider tree of \<open>pages/_app.tsx\<close> and \<open>Layout.tsx\<close> with
    \<open>useUser\<close>, which throws outside the user provider.
  \<^item> \<open>TodosScreen\<close>: the todos page of \<open>Pages\<close> composed with the field
    state of its \<open>TodoForm\<close> from \<open>Forms\<close>: the form mounts when the modal
    first opens and is never reset, and a submit converts the due date with
    \<open>toISOString\<close>.
  \<^item> \<open>Dialogs\<close>: the \<open>Modal.confirm\<close> dialogs of the delete buttons of
    \<open>UserTable\<close>, the todos page and \<open>PostsCard\<close>, as a wrapper around a
    page's step function that holds the dialog's \<open>onOk\<close> until OK or Cancel.
  \<^item> \<open>Router\<close>: the whole application as \<open>_app.tsx\<close> runs it: the providers'
    state, the mounted header, and the page of the current path, which
    \<open>router.push\<close> and \<open>Link\<close> unmount and mount afresh; the two redirect
    buttons.
  \<^item> \<open>Effects\<close>: React's effect loop (\<open>react_effects\<close>, re-running an effect
    while it changes its own dependencies) and the \<open>useEffect\<close>s of
    \<open>pages/posts/my.tsx\<close>, \<open>pages/todos/index.tsx\<close> and \<open>Header.tsx\<close>,
    which settle in the mount states the pages start from.
  \<^item> \<open>Latihan1\<close>, \<open>Latihan2\<close>: every function of \<open>pages/latihan/index.tsx\<close>
    and \<open>pages/latihan/2.tsx\<close>, with the constant arrays the pages apply them
    to, and the text each page renders (\<open>toFixed\<close> for the averages).

  \<^bold>\<open>What the lemmas show.\<close>  C1, C2 and C12 (\<open>Console\<close>): a successful
  mutation drops exactly the cached pages of the key-spaces it invalidates, a
  failed one leaves the cache alone, and an error toast appears exactly when the
  handler has \<open>onError\<close> and the error normalises to a list with a general
  message.  C3 to C5: the profile guard, and two invariants of every reachable
  state by rule induction (the profile is active; each cached list is keyed as an
  enabled view keys it).  C6 and C7 (\<open>Http\<close>): the requests follow the REST
  table, whose router recovers every argument, and carry the bearer token, the
  URL, and a content type exactly when they have a body (POST and PUT).  C11
  (\<open>ApiError\<close>): \<open>formatApiErrors\<close> on every input, with the key order
  \<open>Object.entries\<close> gives the forms.  C13 (\<open>QueryCache\<close>): the pagination
  total and the page keys.  C8 to C10, C14, C15 (below): scenarios of the spec
  across the components.  C16 to C18 (\<open>Pages\<close>): when the form modals close
  (only after a successful, unguarded request; the todo form never reports a
  failure), and the stale values of the user table's edit form, which overwrite
  a user with the first one edited.  C19, C20 (\<open>TodosScreen\<close>): the todo
  form is stale the same way, so Add Todo after an edit creates a copy of the
  edited todo; and a todo with an invalid due date can never be saved from the
  form, silently.  C21 (\<open>Pages\<close>): the consistency of every edit modal with
  its edited entity along any sequence of events (by induction over the event
  list).  C22 (\<open>Render\<close>): what the table and cards show agrees with what
  their buttons do.  C23 (below): at every width exactly one navigation is
  shown.  C24 (\<open>Latihan1\<close>): \<open>organizeStudents\<close> is a stable sort of the
  graded passing rows.  C25, C26: the two \<open>reduce\<close> group-bys equal the
  reference group-by \<open>group_by_ref\<close> of \<open>Prelude\<close>, the first also in
  render order, the second with its average recomputed after every push.

  \<^bold>\<open>Bounds and fuel.\<close>  Every loop of the code is a \<open>map\<close>, \<open>filter\<close>,
  \<open>reduce\<close>, \<open>forEach\<close> or \<open>sort\<close> over a finite array, so these definitions
  are total (structural recursion, \<open>foldl\<close>, \<open>sort_key\<close>) and need no fuel;
  \<open>String(n)\<close> as \<open>nat_str\<close> divides by 10 and terminates by \<open>fun\<close>'s
  measure \<open>n\<close>.  The one loop that may run forever is React's: an effect that
  updates one of its own dependencies renders again and runs again.  It is the
  \<open>partial_function (option)\<close> \<open>react_effects\<close>, \<^term>\<open>None\<close> when the
  re-runs never stop (\<open>react_effects_loops\<close>); every effect of the program
  returns \<^term>\<open>Some\<close>, after at most two runs, from every state
  (\<open>page_effects_settle\<close>).  The one numeric bound is ECMAScript's: a key is an array index
  when it is the canonical string of a number below \<open>2^32 - 1\<close>, which decides
  the order \<open>Object.entries\<close> lists it in (C11, C25).  Window widths are
  compared with the breakpoints of Tailwind (640, 768) and antd (576, 768,
  992).  Ids, pages and scores are JavaScript numbers holding integers,
  modelled as \<^typ>\<open>int\<close>; the class average of \<open>latihan/2.tsx\<close> is an exact
  rational, and \<open>toFixed\<close> rounds that rational (values below \<open>10^21\<close>).

  \<^bold>\<open>Not modelled.\<close>  Styling and the spinner (presentation); the
  browser's back button and query strings, and dialogs opened while another is
  open (the dialog's mask takes the clicks); two requests in flight at once (each mutation runs to its
  response before the next action); the server, whose responses are inputs of
  the model; \<open>utils/api\<close> and the post and comment types, which are imported
  but missing from the repository and are taken from the spec; non-ASCII case
  mapping; antd's e-mail regular expression, which \<open>Forms\<close> takes as the
  parameter \<open>email_ok\<close>; dayjs parsing and time zones, which
  \<open>Forms\<close> takes as the parameter \<open>dj_iso\<close>; the floating-point error of
  the class average, and the exponent notation \<open>String(n)\<close> uses from
  \<open>10^21\<close> on (ids and amounts are unbounded integers).  The exercise pages
  are modelled and rendered, but no property certifies their results where
  the pages' comments ask for other ones (see the findings).
\<close>

section \<open>Scenarios of the spec, across the components\<close>

abbreviation user7 :: user where
  "user7 \<equiv> \<lparr>u_id = 7, u_name = ''Budi'', u_email = ''budi@example.com'', u_gender = Male,
             u_status = Active\<rparr>"

abbreviation todo_input :: todo_data where
  "todo_input \<equiv> \<lparr>d_title = ''Write report'', d_due_on = ''2025-01-31T10:00:00.000Z'', d_status = ''pending''\<rparr>"

abbreviation form_inactive :: user_form where
  "form_inactive \<equiv> \<lparr>f_name = ''Ann'', f_email = ''ann@example.com'', f_gender = Female, f_status = Inactive\<rparr>"

text \<open>
  C8: creating a todo while user 7 is the profile sends \<open>POST /users/7/todos\<close>,
  shows the success toast and closes the form, drops every cached page of user
  7's todo list and nothing outside the \<open>['todos', 7]\<close> key-space, and the
  next render of the list fetches \<open>GET /users/7/todos\<close> again.
\<close>

theorem create_todo_scenario:
  assumes "selected st = Some u" and "u_id u = 7" and "u_id u' = 7"
  shows "cache (step st (Submit_todo_form None d) (Inr ())) (view_key (Todos_view (Some u') p n)) = None
         \<and> (\<not> partial_match k [QStr ''todos'', QNum 7] \<longrightarrow>
              cache (step st (Submit_todo_form None d) (Inr ())) k = cache st k)
         \<and> effects (step st (Submit_todo_form None d) (Inr ())) =
             effects st @ [Request (SC_createTodo 7 d), Toast_success ''Todo created successfully'', Submitted]
         \<and> route (service_request (SC_createTodo 7 d)) = Some (Create_todo 7)
         \<and> view_fetch (Todos_view (Some u) p n) = Some (SC_getUserTodos 7 p n)"
  using assms route_service_request [of "SC_createTodo 7 d"]
  by (simp add: TodoForm_handleSubmit_def createTodoFn_def todo_form_success_def todo_filter_def
      invalidate_queries_def opt_id_key_def js_truthy_num_def view_fetch_def)

text \<open>
  C9: deleting comment 42 fails without an error body (a network failure or an
  empty response): the request was sent, the cache is untouched, the general
  message is shown as a toast, and no form field is marked.
\<close>

theorem delete_comment_failure_scenario:
  assumes "err = No_response \<or> err = Response s Data_falsy"
  shows "cache (step st (Delete_comment p 42) (Inl err)) = cache st
         \<and> effects (step st (Delete_comment p 42) (Inl err)) =
             effects st @ [Request (SC_deleteComment 42), Toast_error ''An unexpected error occurred'']"
  using assms by (auto simp: handleDeleteComment_def toast_on_error_def)

text \<open>
  C10: deactivating the active profile through the edit form succeeds without
  clearing it: the profile keeps the old copy, whose status is active, and the
  header still shows it as active, although the request set the status to
  \<open>inactive\<close>.
\<close>

theorem deactivate_profile_scenario:
  assumes "selected st = Some u" and "u_status u = Active" and "f_status f = Inactive"
  shows "selected (step st (Submit_user_form (Some u) f) (Inr ())) = Some u
         \<and> header_active (selected (step st (Submit_user_form (Some u) f) (Inr ())))
         \<and> effects (step st (Submit_user_form (Some u) f) (Inr ())) =
             effects st @ [Request (SC_updateUser (u_id u) f), Toast_success ''User updated successfully'', Submitted]
         \<and> map_of (the (r_body (service_request (SC_updateUser (u_id u) f)))) ''status'' = Some (JStr ''inactive'')"
  using assms by (simp add: UserForm_handleSubmit_def user_form_success_def header_active_def
      updateUser_def req_def user_form_json_def)

text \<open>
  C14: a profile whose id is 0 counts as no profile for the todos (the
  \<open>!!selectedUser?.id\<close> tests), but as a profile everywhere else: its todo list
  is never fetched, and creating a todo sends nothing and shows nothing, while its
  own posts are listed.
\<close>

theorem zero_id_profile:
  assumes "selected st = Some u" and "u_id u = 0"
  shows "view_fetch (Todos_view (Some u) p n) = None
         \<and> view_fetch (My_posts_view (Some u) p n) = Some (SC_getUserPosts 0 p n)
         \<and> new_effects st (Submit_todo_form None d) r = []
         \<and> cache (step st (Submit_todo_form None d) r) = cache st"
  using assms by (simp add: view_fetch_def js_truthy_num_def new_effects_def TodoForm_handleSubmit_def
      createTodoFn_def)

text \<open>
  C15: the status toggle of a todo sends \<open>PUT /todos/{id}\<close> with the other
  status and nothing else, shows no toast, and toggling twice restores the
  status.
\<close>

theorem toggle_todo_status:
  "new_effects st (Toggle_todo t) (Inr ()) =
     [Request (SC_updateTodo (t_id t) [(''status'', JStr (todo_status_str (next_todo_status (t_status t))))])]
   \<and> next_todo_status (t_status t) \<noteq> t_status t
   \<and> next_todo_status (next_todo_status (t_status t)) = t_status t
   \<and> route (service_request (SC_updateTodo (t_id t) b)) = Some (Update_todo (t_id t))"
  using route_service_request [of "SC_updateTodo (t_id t) b"]
  by (cases "t_status t") (simp_all add: new_effects_def handleStatusChange_def next_todo_status_def)

subsection \<open>Responsive layout\<close>

text \<open>
  C23: at every window width the header offers exactly one way to navigate:
  the desktop links from 768 pixels, the menu button below, because the
  header's \<open>isMobile\<close> flag, set at mount and on every resize, uses the same
  768 as Tailwind's \<open>md\<close> breakpoint.  The user table always shows the Name
  and Actions columns, so the profile, edit and delete buttons are reachable at
  every width; Status, Email and Gender appear from 576, 768 and 992 pixels, and
  the profile button's label appears together with the name beside the avatar.
\<close>

theorem responsive_layout:
  "(desktop_menu_visible (current_width w es) \<longleftrightarrow> \<not> menu_button_visible (foldl header_step (header_mount w) es))
   \<and> Name_col \<in> set (visible_columns v) \<and> Actions_col \<in> set (visible_columns v)
   \<and> (Status_col \<in> set (visible_columns v) \<longleftrightarrow> 576 \<le> v)
   \<and> (Email_col \<in> set (visible_columns v) \<longleftrightarrow> 768 \<le> v)
   \<and> (Gender_col \<in> set (visible_columns v) \<longleftrightarrow> 992 \<le> v)
   \<and> (avatar_name_visible v \<longleftrightarrow> profile_label_visible v)"
  using header_steps_isMobile [of "header_mount w" w es]
  by (auto simp: desktop_menu_visible_def menu_button_visible_def header_mount_def visible_columns_def
      column_min_width_def avatar_name_visible_def profile_label_visible_def)

subsection \<open>Witnesses\<close>

theorem create_todo_scenario_witness:
  "selected (init_state\<lparr>selected := Some user7, cache := [view_key (All_posts_view 1 10) \<mapsto> sample_page]\<rparr>) = Some user7
   \<and> cache (step (init_state\<lparr>selected := Some user7, cache := [view_key (All_posts_view 1 10) \<mapsto> sample_page]\<rparr>)
        (Submit_todo_form None todo_input) (Inr ())) (view_key (All_posts_view 1 10)) = Some sample_page
   \<and> view_fetch (Todos_view (Some user7) 1 10) = Some (SC_getUserTodos 7 1 10)"
  using create_todo_scenario
    [of "init_state\<lparr>selected := Some user7, cache := [view_key (All_posts_view 1 10) \<mapsto> sample_page]\<rparr>"
        user7 user7 todo_input 1 10 "view_key (All_posts_view 1 10)"]
  by simp

theorem delete_comment_failure_scenario_witness:
  "cache (step (init_state\<lparr>cache := [view_key (Comments_view 10 True) \<mapsto> sample_page]\<rparr>)
      (Delete_comment sample_post 42) (Inl No_response)) (view_key (Comments_view 10 True)) = Some sample_page"
  using delete_comment_failure_scenario
    [of No_response 0 "init_state\<lparr>cache := [view_key (Comments_view 10 True) \<mapsto> sample_page]\<rparr>" sample_post]
  by simp

theorem deactivate_profile_scenario_witness:
  "selected (step (init_state\<lparr>selected := Some sample_user\<rparr>) (Submit_user_form (Some sample_user) form_inactive) (Inr ()))
     = Some sample_user
   \<and> header_active (selected (step (init_state\<lparr>selected := Some sample_user\<rparr>)
       (Submit_user_form (Some sample_user) form_inactive) (Inr ())))"
  using deactivate_profile_scenario [of "init_state\<lparr>selected := Some sample_user\<rparr>" sample_user form_inactive]
  by (simp add: header_active_def)

theorem zero_id_profile_witness:
  "view_fetch (Todos_view (Some (user7\<lparr>u_id := 0\<rparr>)) 1 10) = None
   \<and> new_effects (init_state\<lparr>selected := Some (user7\<lparr>u_id := 0\<rparr>)\<rparr>) (Submit_todo_form None todo_input) (Inr ()) = []"
  using zero_id_profile [of "init_state\<lparr>selected := Some (user7\<lparr>u_id := 0\<rparr>)\<rparr>" "user7\<lparr>u_id := 0\<rparr>" 1 10 todo_input "Inr ()"]
  by simp

end
